theory Spec2Isabelle
  imports Complex_Main
begin

section \<open>Simple Procedural Walk: the per-tick computations of \<open>FAnimNode_SPW\<close>\<close>

text \<open>
  A shallow embedding of \<open>SPW_Computations.cpp\<close>. The engine's \<open>float\<close> is read as
  \<open>real\<close>, without rounding. Where the code divides by a value that can be zero, the
  quotient is a \<open>float_ext\<close>, which carries the infinities and NaN of the float
  division, and the functions that receive it treat them as the float code does.
  Everything the node asks of the engine (traces, transforms, sockets, curves) is a field
  of the record \<open>host\<close>.
\<close>

subsection \<open>Vectors\<close>

datatype FVector = FVector (X: real) (Y: real) (Z: real)

instantiation FVector :: ab_group_add
begin

definition zero_FVector :: FVector where
  "zero_FVector = FVector 0 0 0"

definition plus_FVector :: "FVector \<Rightarrow> FVector \<Rightarrow> FVector" where
  "plus_FVector a b = FVector (X a + X b) (Y a + Y b) (Z a + Z b)"

definition minus_FVector :: "FVector \<Rightarrow> FVector \<Rightarrow> FVector" where
  "minus_FVector a b = FVector (X a - X b) (Y a - Y b) (Z a - Z b)"

definition uminus_FVector :: "FVector \<Rightarrow> FVector" where
  "uminus_FVector a = FVector (- X a) (- Y a) (- Z a)"

instance
  by standard
    (simp_all add: zero_FVector_def plus_FVector_def minus_FVector_def uminus_FVector_def)

end

text \<open>\<open>V * f\<close>: a vector scaled by a float.\<close>

definition vscale :: "FVector \<Rightarrow> real \<Rightarrow> FVector" where
  "vscale v f = FVector (X v * f) (Y v * f) (Z v * f)"

text \<open>\<open>A * B\<close> on two vectors is the component-wise product.\<close>

definition vmul :: "FVector \<Rightarrow> FVector \<Rightarrow> FVector" where
  "vmul a b = FVector (X a * X b) (Y a * Y b) (Z a * Z b)"

definition DotProduct :: "FVector \<Rightarrow> FVector \<Rightarrow> real" where
  "DotProduct a b = X a * X b + Y a * Y b + Z a * Z b"

definition Size :: "FVector \<Rightarrow> real" where
  "Size v = sqrt (X v * X v + Y v * Y v + Z v * Z v)"

definition Dist :: "FVector \<Rightarrow> FVector \<Rightarrow> real" where
  "Dist a b = Size (a - b)"

text \<open>\<open>FMath::Lerp\<close> on vectors.\<close>

definition VLerp :: "FVector \<Rightarrow> FVector \<Rightarrow> real \<Rightarrow> FVector" where
  "VLerp a b alpha = a + vscale (b - a) alpha"

subsection \<open>Scalar helpers of the engine\<close>

text \<open>\<open>FMath::Clamp(X, Min, Max)\<close>.\<close>

definition Clamp :: "real \<Rightarrow> real \<Rightarrow> real \<Rightarrow> real" where
  "Clamp x lo hi = (if x < lo then lo else if x < hi then x else hi)"

text \<open>\<open>UKismetMathLibrary::MapRangeClamped(Value, InRangeA, InRangeB, OutRangeA, OutRangeB)\<close>:
  the clamped percentage of \<open>Value\<close> in the input range, interpolated in the output range.\<close>

definition MapRangeClamped :: "real \<Rightarrow> real \<Rightarrow> real \<Rightarrow> real \<Rightarrow> real \<Rightarrow> real" where
  "MapRangeClamped v inA inB outA outB =
     outA + Clamp ((v - inA) / (inB - inA)) 0 1 * (outB - outA)"

text \<open>\<open>UKismetMathLibrary::DegAcos\<close>; the engine's \<open>FMath::Acos\<close> clamps its argument
  to \<open>[-1, 1]\<close>.\<close>

definition DegAcos :: "real \<Rightarrow> real" where
  "DegAcos x = (180 / pi) * arccos (Clamp x (- 1) 1)"

text \<open>\<open>FMath::RadiansToDegrees\<close>.\<close>

definition RadiansToDegrees :: "real \<Rightarrow> real" where
  "RadiansToDegrees r = r * (180 / pi)"

text \<open>\<open>UKismetMathLibrary::DegAtan\<close>.\<close>

definition DegAtan :: "real \<Rightarrow> real" where
  "DegAtan x = (180 / pi) * arctan x"

subsection \<open>Quotients with a zero divisor\<close>

text \<open>A float that may be infinite or NaN.\<close>

datatype float_ext = Finite real | PosInf | NegInf | NaN

text \<open>\<open>a / b\<close> on floats. A zero divisor is the positive zero, which is what the
  divisors of this code are when they vanish (a product with absolute values, a
  difference of two equal values): the quotient is an infinity with the sign of the
  dividend, and NaN for \<open>0 / 0\<close>.\<close>

definition fdiv :: "real \<Rightarrow> real \<Rightarrow> float_ext" where
  "fdiv a b =
     (if b \<noteq> 0 then Finite (a / b)
      else if 0 < a then PosInf else if a < 0 then NegInf else NaN)"

text \<open>\<open>x + q\<close> and \<open>- q\<close>.\<close>

definition fadd :: "real \<Rightarrow> float_ext \<Rightarrow> float_ext" where
  "fadd x q = (case q of Finite y \<Rightarrow> Finite (x + y) | PosInf \<Rightarrow> PosInf | NegInf \<Rightarrow> NegInf | NaN \<Rightarrow> NaN)"

definition fneg :: "float_ext \<Rightarrow> float_ext" where
  "fneg q = (case q of Finite y \<Rightarrow> Finite (- y) | PosInf \<Rightarrow> NegInf | NegInf \<Rightarrow> PosInf | NaN \<Rightarrow> NaN)"

text \<open>\<open>q < r\<close>: every comparison with NaN is false.\<close>

definition fless :: "float_ext \<Rightarrow> real \<Rightarrow> bool" where
  "fless q r = (case q of Finite x \<Rightarrow> x < r | PosInf \<Rightarrow> False | NegInf \<Rightarrow> True | NaN \<Rightarrow> False)"

text \<open>\<open>FMath::Clamp(X, Min, Max)\<close>, that is \<open>X < Min ? Min : X < Max ? X : Max\<close>, on
  a quotient: the positive infinity and NaN fail both tests and give \<open>Max\<close>.\<close>

definition ClampF :: "float_ext \<Rightarrow> real \<Rightarrow> real \<Rightarrow> real" where
  "ClampF q lo hi =
     (if fless q lo then lo
      else if fless q hi then (case q of Finite x \<Rightarrow> x | _ \<Rightarrow> hi)
      else hi)"

text \<open>\<open>UKismetMathLibrary::DegAtan\<close> on a quotient: the arctangent of an infinity is a
  right angle.\<close>

definition DegAtanF :: "float_ext \<Rightarrow> float_ext" where
  "DegAtanF q =
     (case q of Finite x \<Rightarrow> Finite (DegAtan x)
      | PosInf \<Rightarrow> Finite 90 | NegInf \<Rightarrow> Finite (- 90) | NaN \<Rightarrow> NaN)"

text \<open>\<open>FMath::RadiansToDegrees\<close>, and \<open>abs(Cos(x))\<close>, on a float that may be NaN; the
  cosine of an infinity is NaN.\<close>

definition RadiansToDegreesF :: "float_ext \<Rightarrow> float_ext" where
  "RadiansToDegreesF q = (case q of Finite r \<Rightarrow> Finite (RadiansToDegrees r) | PosInf \<Rightarrow> PosInf | NegInf \<Rightarrow> NegInf | NaN \<Rightarrow> NaN)"

definition AbsCosF :: "float_ext \<Rightarrow> float_ext" where
  "AbsCosF q = (case q of Finite x \<Rightarrow> Finite \<bar>cos x\<bar> | _ \<Rightarrow> NaN)"

text \<open>\<open>MapRangeClamped\<close> on a float that may be infinite or NaN: the percentage goes
  through \<open>FMath::Clamp\<close>.\<close>

definition MapRangeClampedF :: "float_ext \<Rightarrow> real \<Rightarrow> real \<Rightarrow> real \<Rightarrow> real \<Rightarrow> real" where
  "MapRangeClampedF v inA inB outA outB =
     (let pct = (case v of
                   Finite x \<Rightarrow> Finite ((x - inA) / (inB - inA))
                 | PosInf \<Rightarrow> (if inB - inA < 0 then NegInf else PosInf)
                 | NegInf \<Rightarrow> (if inB - inA < 0 then PosInf else NegInf)
                 | NaN \<Rightarrow> NaN)
      in outA + ClampF pct 0 1 * (outB - outA))"

subsection \<open>Data\<close>

datatype FRotator = FRotator (Pitch: real) (Yaw: real) (Roll: real)

datatype ESimpleProceduralWalk_SolverType = BASIC | ADVANCED

text \<open>A component is a reference (\<open>None\<close> is the null pointer); whether a non-null
  reference is still valid is the host's \<open>CompIsValid\<close>.\<close>

type_synonym UPrimitiveComponent = "nat option"

record FHitResult =
  bBlockingHit :: bool
  ImpactPoint :: FVector
  ImpactNormal :: FVector
  HitComponent :: UPrimitiveComponent

text \<open>\<open>FHitResult()\<close>: the default constructor zeroes the structure.\<close>

definition FHitResult_default :: FHitResult where
  "FHitResult_default =
     \<lparr>bBlockingHit = False, ImpactPoint = 0, ImpactNormal = 0, HitComponent = None\<rparr>"

record FSimpleProceduralWalk_Leg =
  ParentBone :: nat
  TipBone :: nat
  Offset :: FVector

record FSimpleProceduralWalk_LegGroup =
  LegIndices :: "nat list"

record 't FSimpleProceduralWalk_LegData =
  GroupIndex :: nat
  Length :: real
  TipBoneOriginalRelLocation :: FVector
  FootTarget :: FVector
  FootLocation :: FVector
  FootUnplantLocation :: FVector
  FootTargetRotation :: FRotator
  bEnableIK :: bool
  LastHit :: FHitResult
  SupportComp :: UPrimitiveComponent
  RelLocationToSupportComp :: FVector
  SupportCompPreviousTransform :: 't
  SupportCompDelta :: FVector
  bIsForward :: bool
  bIsBackwards :: bool
  bIsRight :: bool
  bIsLeft :: bool

record FSimpleProceduralWalk_LegGroupData =
  bIsUnplanted :: bool
  StepPercent :: real

text \<open>The authored properties of the node that the computations read.\<close>

record SPW_Settings =
  Legs :: "FSimpleProceduralWalk_Leg list"
  LegGroups :: "FSimpleProceduralWalk_LegGroup list"
  StepHeight :: real
  StepDistanceForward :: real
  StepDistanceRight :: real
  StepSequencePercent :: real
  StepSlopeReductionMultiplier :: real
  MinStepDuration :: real
  MinDistanceToUnplant :: real
  FixFeetTargetsAfterPercent :: real
  FeetTipBonesRotationInterpSpeed :: real
  SolverType :: ESimpleProceduralWalk_SolverType
  RadiusCheckMultiplier :: real
  DistanceCheckMultiplier :: real
  TraceLength :: real
  TraceZOffset :: real
  bBodyRotateOnFeetLocations :: bool

text \<open>The runtime members of the node.\<close>

record 't FAnimNode_SPW =
  LegsData :: "'t FSimpleProceduralWalk_LegData list"
  GroupsData :: "FSimpleProceduralWalk_LegGroupData list"
  CurrentGroupIndex :: nat
  bIsFalling :: bool
  WorldDeltaSeconds :: real
  Speed :: real
  ForwardPercent :: real
  RightPercent :: real
  YawDelta :: real
  CurrentStepLength :: real
  CurrentStepDuration :: real
  ReduceSlopeMultiplierPitch :: real
  ReduceSlopeMultiplierRoll :: real
  ForwardAcceleration :: float_ext
  RightAcceleration :: float_ext
  PreviousSpeed :: real
  PreviousForwardPercent :: real
  PreviousRightPercent :: real

text \<open>What the engine answers during one evaluation: the pawn, the skeletal mesh, the
  world's traces and components, and the two curves. Within one tick it does not change.\<close>

record 't host =
  PawnVelocity :: FVector
  ActorForwardVector :: FVector
  ActorRightVector :: FVector
  ActorUpVector :: FVector
  ActorTransform :: 't
  ActorYawDelta :: real
  SocketLocation :: "nat \<Rightarrow> FVector"
  LineTraceSingle :: "FVector \<Rightarrow> FVector \<Rightarrow> bool \<times> FHitResult"
  SphereTraceMulti :: "FVector \<Rightarrow> FVector \<Rightarrow> real \<Rightarrow> FHitResult list"
  CompIsValid :: "nat \<Rightarrow> bool"
  ComponentTransform :: "nat \<Rightarrow> 't"
  TransformLocation :: "'t \<Rightarrow> FVector \<Rightarrow> FVector"
  InverseTransformLocation :: "'t \<Rightarrow> FVector \<Rightarrow> FVector"
  HitRotationCS :: "FVector \<Rightarrow> FRotator"
  RInterpTo :: "FRotator \<Rightarrow> FRotator \<Rightarrow> real \<Rightarrow> real \<Rightarrow> FRotator"
  SpeedCurve :: "real \<Rightarrow> real"
  HeightCurve :: "real \<Rightarrow> real"

text \<open>\<open>IsValid(Component)\<close>.\<close>

definition IsValid :: "'t host \<Rightarrow> UPrimitiveComponent \<Rightarrow> bool" where
  "IsValid h c = (case c of None \<Rightarrow> False | Some k \<Rightarrow> CompIsValid h k)"

subsection \<open>Helpers of the node\<close>

text \<open>
  \<open>LegsData[i]\<close> and \<open>GroupsData[g]\<close> are checked array accesses: out of range the
  engine stops. The model reads with \<open>!\<close> and writes with a list update, which agree
  with the code exactly when every index is in range; the theorems that depend on it
  assume \<open>indices_ok\<close>.
\<close>

definition indices_ok :: "SPW_Settings \<Rightarrow> 't FAnimNode_SPW \<Rightarrow> bool" where
  "indices_ok cfg s \<longleftrightarrow>
     length (LegsData s) = length (Legs cfg) \<and>
     length (GroupsData s) = length (LegGroups cfg) \<and>
     CurrentGroupIndex s < length (LegGroups cfg) \<and>
     list_all (\<lambda>g. list_all (\<lambda>i. i < length (Legs cfg)) (LegIndices g)) (LegGroups cfg) \<and>
     list_all (\<lambda>ld. GroupIndex ld < length (LegGroups cfg)) (LegsData s)"

text \<open>\<open>SetSupportComponentData(LegIndex, RefLocation)\<close>, on the leg's own data.\<close>

definition SetSupportComponentData ::
  "'t host \<Rightarrow> FVector \<Rightarrow> 't FSimpleProceduralWalk_LegData \<Rightarrow> 't FSimpleProceduralWalk_LegData" where
  "SetSupportComponentData h RefLocation ld =
     (let ld1 = ld\<lparr>SupportComp := HitComponent (LastHit ld)\<rparr> in
      if IsValid h (SupportComp ld1) then
        (case SupportComp ld1 of
           None \<Rightarrow> ld1
         | Some c \<Rightarrow>
             ld1\<lparr>SupportCompPreviousTransform := ComponentTransform h c,
                 RelLocationToSupportComp :=
                   InverseTransformLocation h (ComponentTransform h c) RefLocation\<rparr>)
      else ld1)"

definition IsLegUnplanted :: "'t FAnimNode_SPW \<Rightarrow> nat \<Rightarrow> bool" where
  "IsLegUnplanted s LegIndex = bIsUnplanted (GroupsData s ! GroupIndex (LegsData s ! LegIndex))"

definition GetLegStepPercent :: "'t FAnimNode_SPW \<Rightarrow> nat \<Rightarrow> real" where
  "GetLegStepPercent s LegIndex = StepPercent (GroupsData s ! GroupIndex (LegsData s ! LegIndex))"

definition SetNextCurrentGroupIndex :: "SPW_Settings \<Rightarrow> 't FAnimNode_SPW \<Rightarrow> 't FAnimNode_SPW" where
  "SetNextCurrentGroupIndex cfg s =
     (let c = CurrentGroupIndex s + 1 in
      s\<lparr>CurrentGroupIndex := (if c = length (LegGroups cfg) then 0 else c)\<rparr>)"

text \<open>A loop \<open>for (int LegIndex : LegIndices)\<close> whose body rewrites \<open>LegsData[LegIndex]\<close>.\<close>

definition for_legs ::
  "('t FSimpleProceduralWalk_LegData \<Rightarrow> 't FSimpleProceduralWalk_LegData) \<Rightarrow> nat list \<Rightarrow>
   't FSimpleProceduralWalk_LegData list \<Rightarrow> 't FSimpleProceduralWalk_LegData list" where
  "for_legs body idx lds = foldl (\<lambda>l i. l[i := body (l ! i)]) lds idx"

subsection \<open>Unplant\<close>

text \<open>The first loop of \<open>SetCurrentGroupUnplanted\<close>, with its \<open>break\<close>.\<close>

fun IsAtLeastOneFootFarEnough ::
  "real \<Rightarrow> 't FSimpleProceduralWalk_LegData list \<Rightarrow> nat list \<Rightarrow> bool" where
  "IsAtLeastOneFootFarEnough d lds [] = False"
| "IsAtLeastOneFootFarEnough d lds (i # idx) =
     (if Dist (FootLocation (lds ! i)) (FootTarget (lds ! i)) \<ge> d then True
      else IsAtLeastOneFootFarEnough d lds idx)"

definition PreviousGroupIndex :: "SPW_Settings \<Rightarrow> 't FAnimNode_SPW \<Rightarrow> nat" where
  "PreviousGroupIndex cfg s =
     (if CurrentGroupIndex s = 0 then length (LegGroups cfg) - 1 else CurrentGroupIndex s - 1)"

definition unplant_leg ::
  "'t host \<Rightarrow> 't FSimpleProceduralWalk_LegData \<Rightarrow> 't FSimpleProceduralWalk_LegData" where
  "unplant_leg h ld =
     (let ld1 = ld\<lparr>FootUnplantLocation := FootLocation ld\<rparr> in
      SetSupportComponentData h (FootUnplantLocation ld1) ld1)"

text \<open>\<open>SetCurrentGroupUnplanted\<close>. The interface events of \<open>CallStepInterfaces\<close> are
  dispatched to the game thread and write nothing of the node; they are left out.\<close>

definition SetCurrentGroupUnplanted ::
  "'t host \<Rightarrow> SPW_Settings \<Rightarrow> 't FAnimNode_SPW \<Rightarrow> 't FAnimNode_SPW" where
  "SetCurrentGroupUnplanted h cfg s =
     (let c = CurrentGroupIndex s in
      if bIsUnplanted (GroupsData s ! c) then s
      else if \<not> IsAtLeastOneFootFarEnough (MinDistanceToUnplant cfg) (LegsData s)
                  (LegIndices (LegGroups cfg ! c)) then s
      else
        let p = PreviousGroupIndex cfg s in
        if bIsUnplanted (GroupsData s ! p) \<and>
           StepPercent (GroupsData s ! p) < StepSequencePercent cfg then s
        else
          SetNextCurrentGroupIndex cfg
            (s\<lparr>GroupsData := (GroupsData s)[c := (GroupsData s ! c)\<lparr>bIsUnplanted := True, StepPercent := 0\<rparr>],
               LegsData := for_legs (unplant_leg h) (LegIndices (LegGroups cfg ! c)) (LegsData s)\<rparr>))"

subsection \<open>Move feet\<close>

definition swing_leg ::
  "'t host \<Rightarrow> real \<Rightarrow> real \<Rightarrow> 't FSimpleProceduralWalk_LegData \<Rightarrow> 't FSimpleProceduralWalk_LegData" where
  "swing_leg h InterpSpeed RelativeZ ld =
     (let ld1 = ld\<lparr>FootLocation :=
                     VLerp (FootUnplantLocation ld) (FootTarget ld) InterpSpeed
                     + vscale (ActorUpVector h) RelativeZ\<rparr>
      in ld1\<lparr>FootUnplantLocation := FootUnplantLocation ld1 + SupportCompDelta ld1\<rparr>)"

definition planted_leg ::
  "'t host \<Rightarrow> SPW_Settings \<Rightarrow> nat \<Rightarrow> 't FSimpleProceduralWalk_LegData \<Rightarrow> 't FSimpleProceduralWalk_LegData" where
  "planted_leg h cfg LegIndex ld =
     (let FootDistanceFromLocation =
            Dist (FootLocation ld) (SocketLocation h (TipBone (Legs cfg ! LegIndex)))
      in if FootDistanceFromLocation \<le> MinDistanceToUnplant cfg * DistanceCheckMultiplier cfg
         then ld\<lparr>FootLocation := FootLocation ld + SupportCompDelta ld\<rparr>
         else ld)"

text \<open>The body of the loop of \<open>ComputeFeet\<close> for one group.\<close>

definition ComputeFeet_group ::
  "'t host \<Rightarrow> SPW_Settings \<Rightarrow> 't FAnimNode_SPW \<Rightarrow> nat \<Rightarrow> 't FAnimNode_SPW" where
  "ComputeFeet_group h cfg s g =
     (let idx = LegIndices (LegGroups cfg ! g) in
      if bIsFalling s then
        s\<lparr>LegsData := for_legs (\<lambda>ld. ld\<lparr>FootLocation := FootTarget ld\<rparr>) idx (LegsData s)\<rparr>
      else if bIsUnplanted (GroupsData s ! g) then
        (let sp = ClampF (fadd (StepPercent (GroupsData s ! g))
                                (fdiv (WorldDeltaSeconds s) (CurrentStepDuration s))) 0 1;
             InterpSpeed = SpeedCurve h sp;
             RelativeZ = HeightCurve h sp * StepHeight cfg
         in s\<lparr>GroupsData := (GroupsData s)[g := (GroupsData s ! g)\<lparr>StepPercent := sp\<rparr>],
              LegsData := for_legs (swing_leg h InterpSpeed RelativeZ) idx (LegsData s)\<rparr>)
      else
        s\<lparr>LegsData := foldl (\<lambda>l i. l[i := planted_leg h cfg i (l ! i)]) (LegsData s) idx\<rparr>)"

definition ComputeFeet :: "'t host \<Rightarrow> SPW_Settings \<Rightarrow> 't FAnimNode_SPW \<Rightarrow> 't FAnimNode_SPW" where
  "ComputeFeet h cfg s = foldl (ComputeFeet_group h cfg) s [0..<length (LegGroups cfg)]"

subsection \<open>Plant\<close>

definition plant_leg ::
  "'t host \<Rightarrow> 't FSimpleProceduralWalk_LegData \<Rightarrow> 't FSimpleProceduralWalk_LegData" where
  "plant_leg h ld = SetSupportComponentData h (FootLocation ld) ld"

definition SetGroupsPlanted_group ::
  "'t host \<Rightarrow> SPW_Settings \<Rightarrow> 't FAnimNode_SPW \<Rightarrow> nat \<Rightarrow> 't FAnimNode_SPW" where
  "SetGroupsPlanted_group h cfg s g =
     (if bIsUnplanted (GroupsData s ! g) then
        if StepPercent (GroupsData s ! g) = 1 then
          s\<lparr>LegsData := for_legs (plant_leg h) (LegIndices (LegGroups cfg ! g)) (LegsData s),
            GroupsData := (GroupsData s)[g := (GroupsData s ! g)\<lparr>bIsUnplanted := False\<rparr>]\<rparr>
        else s
      else s)"

definition SetGroupsPlanted :: "'t host \<Rightarrow> SPW_Settings \<Rightarrow> 't FAnimNode_SPW \<Rightarrow> 't FAnimNode_SPW" where
  "SetGroupsPlanted h cfg s = foldl (SetGroupsPlanted_group h cfg) s [0..<length (LegGroups cfg)]"

subsection \<open>Update variables\<close>

definition SPEED_THRESHOLD_MIN :: real where
  "SPEED_THRESHOLD_MIN = 2"

definition STEP_PERCENT_AT_BEGINNING :: real where
  "STEP_PERCENT_AT_BEGINNING = 15 / 100"

definition STEP_PERCENT_AT_END :: real where
  "STEP_PERCENT_AT_END = 85 / 100"

text \<open>\<open>FVector::Normalize()\<close> of the engine: a vector whose squared size is not above
  the tolerance \<open>1e-8\<close> is left as it is.\<close>

definition Normalize :: "FVector \<Rightarrow> FVector" where
  "Normalize v =
     (let SquareSum = X v * X v + Y v * Y v + Z v * Z v in
      if SquareSum > 1 / 100000000 then vscale v (1 / sqrt SquareSum) else v)"

definition GetReductionSlopeMultiplier :: "'t FAnimNode_SPW \<Rightarrow> real" where
  "GetReductionSlopeMultiplier s =
     \<bar>ForwardPercent s\<bar> * ReduceSlopeMultiplierPitch s + \<bar>RightPercent s\<bar> * ReduceSlopeMultiplierRoll s"

text \<open>\<open>UpdatePawnVariables\<close>, block by block. \<open>Speed\<close>: a velocity not above the
  threshold counts as rest. The percentages are taken on the velocity that the speed
  block has kept (zero at rest), normalised.\<close>

definition UpdateSpeed :: "'t host \<Rightarrow> 't FAnimNode_SPW \<Rightarrow> 't FAnimNode_SPW" where
  "UpdateSpeed h s =
     s\<lparr>Speed := (if Size (PawnVelocity h) \<le> SPEED_THRESHOLD_MIN then 0 else Size (PawnVelocity h))\<rparr>"

definition KeptVelocity :: "'t host \<Rightarrow> FVector" where
  "KeptVelocity h =
     Normalize (if Size (PawnVelocity h) \<le> SPEED_THRESHOLD_MIN then 0 else PawnVelocity h)"

definition UpdatePercents :: "'t host \<Rightarrow> 't FAnimNode_SPW \<Rightarrow> 't FAnimNode_SPW" where
  "UpdatePercents h s =
     s\<lparr>ForwardPercent :=
         MapRangeClamped (DegAcos (DotProduct (ActorForwardVector h) (KeptVelocity h))) 0 180 1 (- 1),
       RightPercent :=
         MapRangeClamped (DegAcos (DotProduct (ActorRightVector h) (KeptVelocity h))) 0 180 1 (- 1)\<rparr>"

text \<open>Rotation: the yaw of \<open>NormalizedDeltaRotator(GetActorRotation(), PreviousRotation)\<close>
  is the host's \<open>ActorYawDelta\<close>.\<close>

definition UpdateRotation :: "'t host \<Rightarrow> 't FAnimNode_SPW \<Rightarrow> 't FAnimNode_SPW" where
  "UpdateRotation h s = s\<lparr>YawDelta := ActorYawDelta h\<rparr>"

definition UpdateStepLength :: "SPW_Settings \<Rightarrow> 't FAnimNode_SPW \<Rightarrow> 't FAnimNode_SPW" where
  "UpdateStepLength cfg s =
     s\<lparr>CurrentStepLength :=
         (\<bar>ForwardPercent s * StepDistanceForward cfg\<bar>
          + \<bar>RightPercent s * StepDistanceRight cfg\<bar>
          + \<bar>StepDistanceRight cfg * Clamp (YawDelta s / 360) (- 1) 1\<bar>)
         * GetReductionSlopeMultiplier s\<rparr>"

definition UpdateStepDuration :: "SPW_Settings \<Rightarrow> 't FAnimNode_SPW \<Rightarrow> 't FAnimNode_SPW" where
  "UpdateStepDuration cfg s =
     (let SpeedWithAngular = Speed s + \<bar>YawDelta s\<bar> in
      if SpeedWithAngular > 5
      then s\<lparr>CurrentStepDuration := CurrentStepLength s / SpeedWithAngular\<rparr>
      else s\<lparr>CurrentStepDuration := MinStepDuration cfg\<rparr>)"

definition UpdateAcceleration :: "'t FAnimNode_SPW \<Rightarrow> 't FAnimNode_SPW" where
  "UpdateAcceleration s =
     s\<lparr>ForwardAcceleration :=
         fdiv (ForwardPercent s * Speed s - PreviousForwardPercent s * PreviousSpeed s)
           (WorldDeltaSeconds s),
       RightAcceleration :=
         fdiv (RightPercent s * Speed s - PreviousRightPercent s * PreviousSpeed s)
           (WorldDeltaSeconds s),
       PreviousSpeed := Speed s,
       PreviousForwardPercent := ForwardPercent s,
       PreviousRightPercent := RightPercent s\<rparr>"

definition UpdatePawnVariables ::
  "'t host \<Rightarrow> SPW_Settings \<Rightarrow> 't FAnimNode_SPW \<Rightarrow> 't FAnimNode_SPW" where
  "UpdatePawnVariables h cfg s =
     UpdateAcceleration
       (UpdateStepDuration cfg
          (UpdateStepLength cfg (UpdateRotation h (UpdatePercents h (UpdateSpeed h s)))))"

subsection \<open>Deltas for moving platforms\<close>

definition support_delta_leg ::
  "'t host \<Rightarrow> 't FSimpleProceduralWalk_LegData \<Rightarrow> 't FSimpleProceduralWalk_LegData" where
  "support_delta_leg h ld =
     (if IsValid h (SupportComp ld) then
        (case SupportComp ld of
           None \<Rightarrow> ld
         | Some c \<Rightarrow>
             (let PreviousLocation =
                    TransformLocation h (SupportCompPreviousTransform ld) (RelLocationToSupportComp ld);
                  NewLocation =
                    TransformLocation h (ComponentTransform h c) (RelLocationToSupportComp ld)
              in ld\<lparr>SupportCompDelta := NewLocation - PreviousLocation,
                     SupportCompPreviousTransform := ComponentTransform h c\<rparr>))
      else ld\<lparr>SupportCompDelta := 0\<rparr>)"

definition SetSupportCompDeltas ::
  "'t host \<Rightarrow> SPW_Settings \<Rightarrow> 't FAnimNode_SPW \<Rightarrow> 't FAnimNode_SPW" where
  "SetSupportCompDeltas h cfg s =
     s\<lparr>LegsData := for_legs (support_delta_leg h) [0..<length (Legs cfg)] (LegsData s)\<rparr>"

subsection \<open>Feet targets\<close>

text \<open>\<open>RadiusCheck\<close>, as \<open>Initialize_Computations\<close> sets it.\<close>

definition RadiusCheck :: "SPW_Settings \<Rightarrow> real" where
  "RadiusCheck cfg = RadiusCheckMultiplier cfg * max (StepDistanceForward cfg) (StepDistanceRight cfg)"

text \<open>The probe segment of a leg: \<open>StartLocationWithoutZOffset\<close>.\<close>

definition StartLocationWithoutZOffset ::
  "'t host \<Rightarrow> SPW_Settings \<Rightarrow> 't FAnimNode_SPW \<Rightarrow> nat \<Rightarrow> FVector" where
  "StartLocationWithoutZOffset h cfg s LegIndex =
     (let Leg = Legs cfg ! LegIndex;
          ParentBoneLocation = SocketLocation h (ParentBone Leg);
          ForwardOffset = vscale (ActorForwardVector h)
                            (StepDistanceForward cfg * ForwardPercent s + X (Offset Leg));
          RightOffset = vscale (ActorRightVector h)
                            (StepDistanceRight cfg * RightPercent s + Y (Offset Leg))
      in ParentBoneLocation + ForwardOffset + RightOffset)"

definition StartLocation :: "'t host \<Rightarrow> SPW_Settings \<Rightarrow> 't FAnimNode_SPW \<Rightarrow> nat \<Rightarrow> FVector" where
  "StartLocation h cfg s LegIndex =
     StartLocationWithoutZOffset h cfg s LegIndex + vscale (ActorUpVector h) (TraceZOffset cfg)"

definition EndLocation :: "'t host \<Rightarrow> SPW_Settings \<Rightarrow> 't FAnimNode_SPW \<Rightarrow> nat \<Rightarrow> FVector" where
  "EndLocation h cfg s LegIndex =
     StartLocationWithoutZOffset h cfg s LegIndex - vscale (ActorUpVector h) (TraceLength cfg)"

text \<open>The body of the loop over \<open>FootHoldHits\<close>: the running \<open>MinZ\<close> and \<open>FootHoldBestHit\<close>.\<close>

definition FootHoldStep ::
  "FVector \<Rightarrow> FVector \<Rightarrow> real \<Rightarrow> real \<times> FHitResult \<Rightarrow> FHitResult \<Rightarrow> real \<times> FHitResult" where
  "FootHoldStep Anchor Up ZDistanceToLineHit acc FootHoldHit =
     (let ZDistanceToFootHoldHit = Size (Anchor - ImpactPoint FootHoldHit) in
      if ZDistanceToFootHoldHit < ZDistanceToLineHit then
        (let CurrentHitZ = Size (vmul (Anchor - ImpactPoint FootHoldHit) Up)
                           * (1 - DotProduct (ImpactNormal FootHoldHit) Up)
         in if CurrentHitZ < fst acc then (CurrentHitZ, FootHoldHit) else acc)
      else acc)"

definition FootHoldBestHit ::
  "SPW_Settings \<Rightarrow> FVector \<Rightarrow> FVector \<Rightarrow> real \<Rightarrow> FHitResult list \<Rightarrow> FHitResult" where
  "FootHoldBestHit cfg Anchor Up ZDistanceToLineHit FootHoldHits =
     snd (foldl (FootHoldStep Anchor Up ZDistanceToLineHit)
            ((TraceLength cfg + TraceZOffset cfg) * 2, FHitResult_default) FootHoldHits)"

text \<open>The line trace of \<open>SetFootTargetLocation\<close>: what \<open>LineTraceSingle\<close> returns and
  what it leaves in \<open>Hit\<close>.\<close>

definition LineHit ::
  "'t host \<Rightarrow> SPW_Settings \<Rightarrow> 't FAnimNode_SPW \<Rightarrow> nat \<Rightarrow> bool \<times> FHitResult" where
  "LineHit h cfg s LegIndex =
     LineTraceSingle h (StartLocation h cfg s LegIndex) (EndLocation h cfg s LegIndex)"

definition ZDistanceToLineHit ::
  "'t host \<Rightarrow> SPW_Settings \<Rightarrow> 't FAnimNode_SPW \<Rightarrow> nat \<Rightarrow> real" where
  "ZDistanceToLineHit h cfg s LegIndex =
     Size (StartLocationWithoutZOffset h cfg s LegIndex - ImpactPoint (snd (LineHit h cfg s LegIndex)))"

definition bIsTooDistant ::
  "'t host \<Rightarrow> SPW_Settings \<Rightarrow> 't FAnimNode_SPW \<Rightarrow> nat \<Rightarrow>
   't FSimpleProceduralWalk_LegData \<Rightarrow> bool" where
  "bIsTooDistant h cfg s LegIndex ld \<longleftrightarrow>
     ZDistanceToLineHit h cfg s LegIndex > Length ld * DistanceCheckMultiplier cfg"

text \<open>The sphere trace of the advanced solver.\<close>

definition FootHoldHits ::
  "'t host \<Rightarrow> SPW_Settings \<Rightarrow> 't FAnimNode_SPW \<Rightarrow> nat \<Rightarrow> FHitResult list" where
  "FootHoldHits h cfg s LegIndex =
     SphereTraceMulti h (StartLocation h cfg s LegIndex) (EndLocation h cfg s LegIndex)
       (RadiusCheck cfg)"

text \<open>The line trace and, in the advanced solver, the foothold search: the final
  \<open>bIsHit\<close> and \<open>Hit\<close> of \<open>SetFootTargetLocation\<close>.\<close>

definition TraceFoot ::
  "'t host \<Rightarrow> SPW_Settings \<Rightarrow> 't FAnimNode_SPW \<Rightarrow> nat \<Rightarrow>
   't FSimpleProceduralWalk_LegData \<Rightarrow> bool \<times> FHitResult" where
  "TraceFoot h cfg s LegIndex ld =
     (let (bIsHit, Hit) = LineHit h cfg s LegIndex
      in case SolverType cfg of
           BASIC \<Rightarrow> (bIsHit, Hit)
         | ADVANCED \<Rightarrow>
             if \<not> bIsHit \<or> bIsTooDistant h cfg s LegIndex ld then
               (if length (FootHoldHits h cfg s LegIndex) > 0 then
                  (let Best = FootHoldBestHit cfg (StartLocationWithoutZOffset h cfg s LegIndex)
                                (ActorUpVector h) (ZDistanceToLineHit h cfg s LegIndex)
                                (FootHoldHits h cfg s LegIndex)
                   in if bBlockingHit Best then (True, Best) else (bIsHit, Hit))
                else (bIsHit, Hit))
             else (bIsHit, Hit))"

text \<open>The result part of \<open>SetFootTargetLocation\<close>, on the leg's own data.\<close>

definition foot_target_leg ::
  "'t host \<Rightarrow> SPW_Settings \<Rightarrow> 't FAnimNode_SPW \<Rightarrow> nat \<Rightarrow>
   't FSimpleProceduralWalk_LegData \<Rightarrow> 't FSimpleProceduralWalk_LegData" where
  "foot_target_leg h cfg s LegIndex ld =
     (let (bIsHit, Hit) = TraceFoot h cfg s LegIndex ld;
          unplanted = bIsUnplanted (GroupsData s ! GroupIndex ld);
          sp = StepPercent (GroupsData s ! GroupIndex ld);
          (ld1, TargetFootRotationCS) =
            (if bIsHit then
               (let rot = (if \<not> unplanted \<or>
                              (unplanted \<and> (sp < STEP_PERCENT_AT_BEGINNING \<or> sp > STEP_PERCENT_AT_END))
                           then HitRotationCS h (ImpactNormal Hit) else FRotator 0 0 0);
                    Target = ImpactPoint Hit + FVector 0 0 (Z (Offset (Legs cfg ! LegIndex)))
                in if unplanted then
                     (if sp < FixFeetTargetsAfterPercent cfg
                      then (ld\<lparr>FootTarget := Target\<rparr>, rot)
                      else (ld\<lparr>FootTarget := FootTarget ld + SupportCompDelta ld\<rparr>, rot))
                   else (ld\<lparr>FootTarget := Target\<rparr>, rot))
             else
               (ld\<lparr>FootTarget :=
                     TransformLocation h (ActorTransform h) (TipBoneOriginalRelLocation ld)\<rparr>,
                FRotator 0 0 0))
      in ld1\<lparr>FootTargetRotation :=
               RInterpTo h (FootTargetRotation ld1) TargetFootRotationCS (WorldDeltaSeconds s)
                 (FeetTipBonesRotationInterpSpeed cfg),
             bEnableIK := bIsHit,
             LastHit := Hit\<rparr>)"

definition SetFootTargetLocation ::
  "'t host \<Rightarrow> SPW_Settings \<Rightarrow> 't FAnimNode_SPW \<Rightarrow> nat \<Rightarrow> 't FAnimNode_SPW" where
  "SetFootTargetLocation h cfg s LegIndex =
     s\<lparr>LegsData := (LegsData s)[LegIndex := foot_target_leg h cfg s LegIndex (LegsData s ! LegIndex)]\<rparr>"

definition SetFeetTargetLocations ::
  "'t host \<Rightarrow> SPW_Settings \<Rightarrow> 't FAnimNode_SPW \<Rightarrow> 't FAnimNode_SPW" where
  "SetFeetTargetLocations h cfg s = foldl (SetFootTargetLocation h cfg) s [0..<length (Legs cfg)]"

subsection \<open>Body\<close>

text \<open>\<open>UKismetMathLibrary::GetVectorArrayAverage\<close>: the zero vector for an empty array.\<close>

definition GetVectorArrayAverage :: "FVector list \<Rightarrow> FVector" where
  "GetVectorArrayAverage vs =
     (if length vs > 0 then vscale (foldl (+) 0 vs) (1 / real (length vs)) else 0)"

text \<open>\<open>GetAverageFeetTargets\<close>: the four averages, forward, backwards, right and left.\<close>

definition GetAverageFeetTargets ::
  "'t host \<Rightarrow> SPW_Settings \<Rightarrow> 't FAnimNode_SPW \<Rightarrow> FVector \<times> FVector \<times> FVector \<times> FVector" where
  "GetAverageFeetTargets h cfg s =
     (let lds = map (\<lambda>i. LegsData s ! i) [0..<length (Legs cfg)];
          FTarget = (\<lambda>ld. InverseTransformLocation h (ActorTransform h) (FootTarget ld))
      in (GetVectorArrayAverage (map FTarget (filter bIsForward lds)),
          GetVectorArrayAverage (map FTarget (filter bIsBackwards lds)),
          GetVectorArrayAverage (map FTarget (filter bIsRight lds)),
          GetVectorArrayAverage (map FTarget (filter bIsLeft lds))))"

text \<open>The inclination multiplier that \<open>ComputeBodyRotation\<close> saves for an angle
  \<open>PitchFromFeetLocations\<close> or \<open>RollFromFeetLocations\<close>, which \<open>DegAtan\<close> gives in degrees.\<close>

definition ReduceSlopeMultiplier :: "SPW_Settings \<Rightarrow> float_ext \<Rightarrow> real" where
  "ReduceSlopeMultiplier cfg AngleFromFeetLocations =
     MapRangeClampedF (AbsCosF (RadiansToDegreesF AngleFromFeetLocations)) 0 1
       (1 - StepSlopeReductionMultiplier cfg) 1"

text \<open>What the comment above that line describes, "abs cos so 0 deg = 1 and +/-90 deg
  = 0": the same mapping of the cosine of the angle, the angle read in degrees.\<close>

definition DocumentedSlopeMultiplier :: "SPW_Settings \<Rightarrow> real \<Rightarrow> real" where
  "DocumentedSlopeMultiplier cfg Degrees =
     MapRangeClamped \<bar>cos (Degrees * (pi / 180))\<bar> 0 1
       (1 - StepSlopeReductionMultiplier cfg) 1"

text \<open>\<open>ComputeBodyRotation\<close>, as far as it writes the members modelled here: the smoothed
  \<open>CurrentBodyRelRotation\<close> and \<open>CurrentBodyRelLocation\<close> are read by the body solver only.
  The two quotients have a zero divisor when the averages share their \<open>X\<close> or \<open>Y\<close>.\<close>

definition PitchFromFeetLocations :: "SPW_Settings \<Rightarrow> FVector \<Rightarrow> FVector \<Rightarrow> float_ext" where
  "PitchFromFeetLocations cfg AverageFeetTargetsForward AverageFeetTargetsBackwards =
     (if bBodyRotateOnFeetLocations cfg then
        DegAtanF (fdiv (Z AverageFeetTargetsForward - Z AverageFeetTargetsBackwards)
                       (X AverageFeetTargetsForward - X AverageFeetTargetsBackwards))
      else Finite 0)"

definition RollFromFeetLocations :: "SPW_Settings \<Rightarrow> FVector \<Rightarrow> FVector \<Rightarrow> float_ext" where
  "RollFromFeetLocations cfg AverageFeetTargetsRight AverageFeetTargetsLeft =
     (if bBodyRotateOnFeetLocations cfg then
        fneg (DegAtanF (fdiv (Z AverageFeetTargetsRight - Z AverageFeetTargetsLeft)
                             (Y AverageFeetTargetsRight - Y AverageFeetTargetsLeft)))
      else Finite 0)"

definition ComputeBodyRotation ::
  "SPW_Settings \<Rightarrow> FVector \<Rightarrow> FVector \<Rightarrow> FVector \<Rightarrow> FVector \<Rightarrow> 't FAnimNode_SPW \<Rightarrow> 't FAnimNode_SPW" where
  "ComputeBodyRotation cfg AverageFeetTargetsForward AverageFeetTargetsBackwards
       AverageFeetTargetsRight AverageFeetTargetsLeft s =
     s\<lparr>ReduceSlopeMultiplierPitch :=
         ReduceSlopeMultiplier cfg
           (PitchFromFeetLocations cfg AverageFeetTargetsForward AverageFeetTargetsBackwards),
       ReduceSlopeMultiplierRoll :=
         ReduceSlopeMultiplier cfg
           (RollFromFeetLocations cfg AverageFeetTargetsRight AverageFeetTargetsLeft)\<rparr>"

definition ComputeBodyTransform ::
  "'t host \<Rightarrow> SPW_Settings \<Rightarrow> 't FAnimNode_SPW \<Rightarrow> 't FAnimNode_SPW" where
  "ComputeBodyTransform h cfg s =
     (let (F, B, R, L) = GetAverageFeetTargets h cfg s in ComputeBodyRotation cfg F B R L s)"

subsection \<open>Tick\<close>

text \<open>\<open>Evaluate_Computations\<close> of an initialised node, past the skipped first frames.\<close>

definition Evaluate_Computations ::
  "'t host \<Rightarrow> SPW_Settings \<Rightarrow> 't FAnimNode_SPW \<Rightarrow> 't FAnimNode_SPW" where
  "Evaluate_Computations h cfg s =
     (let s1 = UpdatePawnVariables h cfg s;
          s2 = SetSupportCompDeltas h cfg s1;
          s3 = SetFeetTargetLocations h cfg s2;
          s4 = (if bIsFalling s3 then ComputeFeet h cfg s3
                else SetGroupsPlanted h cfg (ComputeFeet h cfg (SetCurrentGroupUnplanted h cfg s3)))
      in ComputeBodyTransform h cfg s4)"

text \<open>The state in which the gait stages of a tick start: after the variables, the
  support deltas and the feet targets.\<close>

definition before_gait :: "'t host \<Rightarrow> SPW_Settings \<Rightarrow> 't FAnimNode_SPW \<Rightarrow> 't FAnimNode_SPW" where
  "before_gait h cfg s =
     SetFeetTargetLocations h cfg (SetSupportCompDeltas h cfg (UpdatePawnVariables h cfg s))"

subsection \<open>Reset\<close>

definition reset_leg ::
  "'t host \<Rightarrow> 't FSimpleProceduralWalk_LegData \<Rightarrow> 't FSimpleProceduralWalk_LegData" where
  "reset_leg h ld =
     (let Location = TransformLocation h (ActorTransform h) (TipBoneOriginalRelLocation ld)
      in ld\<lparr>FootLocation := Location, FootUnplantLocation := Location\<rparr>)"

definition ResetFeetTargetsAndLocations ::
  "'t host \<Rightarrow> SPW_Settings \<Rightarrow> 't FAnimNode_SPW \<Rightarrow> 't FAnimNode_SPW" where
  "ResetFeetTargetsAndLocations h cfg s =
     (let s1 = SetFeetTargetLocations h cfg s;
          s2 = s1\<lparr>LegsData := for_legs (reset_leg h) [0..<length (Legs cfg)] (LegsData s1)\<rparr>;
          s3 = s2\<lparr>CurrentGroupIndex := 0\<rparr>
      in s3\<lparr>GroupsData :=
               foldl (\<lambda>gs g. gs[g := (gs ! g)\<lparr>StepPercent := 0, bIsUnplanted := False\<rparr>])
                 (GroupsData s3) [0..<length (LegGroups cfg)]\<rparr>)"

subsection \<open>What one stage does to one group\<close>

text \<open>The swing advance of \<open>ComputeFeet\<close> on the data of a group.\<close>

definition swing_advance ::
  "real \<Rightarrow> real \<Rightarrow> FSimpleProceduralWalk_LegGroupData \<Rightarrow> FSimpleProceduralWalk_LegGroupData" where
  "swing_advance dt dur gd =
     (if bIsUnplanted gd
      then gd\<lparr>StepPercent := ClampF (fadd (StepPercent gd) (fdiv dt dur)) 0 1\<rparr> else gd)"

text \<open>The test of \<open>SetGroupsPlanted\<close> on the data of a group.\<close>

definition group_plants :: "FSimpleProceduralWalk_LegGroupData \<Rightarrow> bool" where
  "group_plants gd \<longleftrightarrow> bIsUnplanted gd \<and> StepPercent gd = 1"

text \<open>The tests of \<open>SetCurrentGroupUnplanted\<close>: the current group is planted, one of its
  feet is far enough, and the previous group does not hold it back.\<close>

definition group_unplants :: "SPW_Settings \<Rightarrow> 't FAnimNode_SPW \<Rightarrow> bool" where
  "group_unplants cfg s \<longleftrightarrow>
     \<not> bIsUnplanted (GroupsData s ! CurrentGroupIndex s) \<and>
     IsAtLeastOneFootFarEnough (MinDistanceToUnplant cfg) (LegsData s)
       (LegIndices (LegGroups cfg ! CurrentGroupIndex s)) \<and>
     \<not> (bIsUnplanted (GroupsData s ! PreviousGroupIndex cfg s) \<and>
        StepPercent (GroupsData s ! PreviousGroupIndex cfg s) < StepSequencePercent cfg)"

text \<open>The loop body of \<open>ResetFeetTargetsAndLocations\<close> on the data of a group.\<close>

definition reset_group :: "FSimpleProceduralWalk_LegGroupData \<Rightarrow> FSimpleProceduralWalk_LegGroupData" where
  "reset_group gd = gd\<lparr>StepPercent := 0, bIsUnplanted := False\<rparr>"

text \<open>What the round-robin pointer remembers: a pointer that is not at group 0 stands
  behind a group that has unplanted since, so that group is still unplanted or has
  finished its step at 1.\<close>

definition pointer_inv :: "'t FAnimNode_SPW \<Rightarrow> bool" where
  "pointer_inv s \<longleftrightarrow>
     (CurrentGroupIndex s \<noteq> 0 \<longrightarrow>
        bIsUnplanted (GroupsData s ! (CurrentGroupIndex s - 1)) \<or>
        StepPercent (GroupsData s ! (CurrentGroupIndex s - 1)) = 1)"

definition plant_advance ::
  "FSimpleProceduralWalk_LegGroupData \<Rightarrow> FSimpleProceduralWalk_LegGroupData" where
  "plant_advance gd = (if group_plants gd then gd\<lparr>bIsUnplanted := False\<rparr> else gd)"

subsection \<open>A rig of two legs in two groups, for the examples\<close>

definition ex_cfg :: SPW_Settings where
  "ex_cfg =
     \<lparr>Legs = [\<lparr>ParentBone = 0, TipBone = 10, Offset = FVector 0 0 0\<rparr>,
              \<lparr>ParentBone = 1, TipBone = 11, Offset = FVector 0 0 0\<rparr>],
      LegGroups = [\<lparr>LegIndices = [0]\<rparr>, \<lparr>LegIndices = [1]\<rparr>],
      StepHeight = 20, StepDistanceForward = 50, StepDistanceRight = 30,
      StepSequencePercent = 1, StepSlopeReductionMultiplier = 3 / 4,
      MinStepDuration = 3 / 20, MinDistanceToUnplant = 5,
      FixFeetTargetsAfterPercent = 1 / 2, FeetTipBonesRotationInterpSpeed = 15,
      SolverType = ADVANCED, RadiusCheckMultiplier = 3 / 2, DistanceCheckMultiplier = 6 / 5,
      TraceLength = 350, TraceZOffset = 50, bBodyRotateOnFeetLocations = True\<rparr>"

definition ex_leg :: "nat \<Rightarrow> FVector \<Rightarrow> FVector \<Rightarrow> FVector FSimpleProceduralWalk_LegData" where
  "ex_leg g target location =
     \<lparr>GroupIndex = g, Length = 20, TipBoneOriginalRelLocation = FVector 0 0 (- 20),
      FootTarget = target, FootLocation = location, FootUnplantLocation = location,
      FootTargetRotation = FRotator 0 0 0, bEnableIK = True, LastHit = FHitResult_default,
      SupportComp = None, RelLocationToSupportComp = 0, SupportCompPreviousTransform = 0,
      SupportCompDelta = 0, bIsForward = True, bIsBackwards = True, bIsRight = (g = 0),
      bIsLeft = (g = 1)\<rparr>"

definition ex_node ::
  "FSimpleProceduralWalk_LegGroupData list \<Rightarrow> nat \<Rightarrow> FVector FAnimNode_SPW" where
  "ex_node groups current =
     \<lparr>LegsData = [ex_leg 0 (FVector 10 0 0) (FVector 0 0 0), ex_leg 1 (FVector 10 0 0) (FVector 0 0 0)],
      GroupsData = groups, CurrentGroupIndex = current, bIsFalling = False,
      WorldDeltaSeconds = 3 / 200, Speed = 0, ForwardPercent = 0, RightPercent = 0,
      YawDelta = 0, CurrentStepLength = 0, CurrentStepDuration = 3 / 20,
      ReduceSlopeMultiplierPitch = 1, ReduceSlopeMultiplierRoll = 1,
      ForwardAcceleration = Finite 0, RightAcceleration = Finite 0, PreviousSpeed = 0,
      PreviousForwardPercent = 0, PreviousRightPercent = 0\<rparr>"

definition ex_host :: "(bool \<times> FHitResult) \<Rightarrow> FHitResult list \<Rightarrow> FVector host" where
  "ex_host line sphere =
     \<lparr>PawnVelocity = FVector 0 0 0, ActorForwardVector = FVector 1 0 0,
      ActorRightVector = FVector 0 1 0, ActorUpVector = FVector 0 0 1,
      ActorTransform = FVector 0 0 0, ActorYawDelta = 0,
      SocketLocation = (\<lambda>b. FVector 0 0 0),
      LineTraceSingle = (\<lambda>a b. line),
      SphereTraceMulti = (\<lambda>a b r. sphere),
      CompIsValid = (\<lambda>c. True), ComponentTransform = (\<lambda>c. FVector 0 0 0),
      TransformLocation = (\<lambda>t v. v + t), InverseTransformLocation = (\<lambda>t v. v - t),
      HitRotationCS = (\<lambda>n. FRotator 0 0 0), RInterpTo = (\<lambda>c t d sp. t),
      SpeedCurve = (\<lambda>x. x), HeightCurve = (\<lambda>x. 0)\<rparr>"

definition ex_hit :: "FVector \<Rightarrow> FHitResult" where
  "ex_hit p = \<lparr>bBlockingHit = True, ImpactPoint = p, ImpactNormal = FVector 0 0 1, HitComponent = None\<rparr>"

definition ex_host_at :: "FVector \<Rightarrow> (bool \<times> FHitResult) \<Rightarrow> FHitResult list \<Rightarrow> FVector host" where
  "ex_host_at p line sphere = (ex_host line sphere)\<lparr>SocketLocation := (\<lambda>b. p)\<rparr>"

text \<open>The rig with leg 0 standing at \<open>(4, 0, 0)\<close> on a component, which its last
  trace has hit, and a host in which every component sits at \<open>(1, 2, 3)\<close>.\<close>

definition ex_leg_on :: "nat \<Rightarrow> FVector FSimpleProceduralWalk_LegData" where
  "ex_leg_on c =
     (ex_leg 0 (FVector 10 0 0) (FVector 4 0 0))
       \<lparr>LastHit := (ex_hit (FVector 10 0 0))\<lparr>HitComponent := Some c\<rparr>\<rparr>"

definition ex_node_on ::
  "nat \<Rightarrow> FSimpleProceduralWalk_LegGroupData list \<Rightarrow> nat \<Rightarrow> FVector FAnimNode_SPW" where
  "ex_node_on c groups current =
     (ex_node groups current)
       \<lparr>LegsData := [ex_leg_on c, ex_leg 1 (FVector 10 0 0) (FVector 0 0 0)]\<rparr>"

definition ex_host_comp :: "(bool \<times> FHitResult) \<Rightarrow> FHitResult list \<Rightarrow> FVector host" where
  "ex_host_comp line sphere =
     (ex_host line sphere)\<lparr>ComponentTransform := (\<lambda>c. FVector 1 2 3)\<rparr>"

section \<open>Properties\<close>

subsection \<open>Loops over legs\<close>

lemma length_for_legs [simp]: "length (for_legs body idx lds) = length lds"
  unfolding for_legs_def by (induction idx arbitrary: lds) simp_all

lemma for_legs_Cons: "for_legs body (i # idx) lds = for_legs body idx (lds[i := body (lds ! i)])"
  by (simp add: for_legs_def)

lemma for_legs_nth_idem:
  assumes idem: "\<And>x. body (body x) = body x"
  shows "j < length lds \<Longrightarrow>
         for_legs body idx lds ! j = (if j \<in> set idx then body (lds ! j) else lds ! j)"
proof (induction idx arbitrary: lds)
  case Nil
  then show ?case by (simp add: for_legs_def)
next
  case (Cons i idx)
  have "j < length (lds[i := body (lds ! i)])" using Cons.prems by simp
  from Cons.IH[OF this] show ?case using Cons.prems
    by (cases "i = j") (auto simp: for_legs_Cons idem)
qed

lemma for_legs_upt_nth:
  "j < length lds \<Longrightarrow>
   for_legs body [0..<n] lds ! j = (if j < n then body (lds ! j) else lds ! j)"
proof (induction n)
  case 0
  then show ?case by (simp add: for_legs_def)
next
  case (Suc n)
  have "for_legs body [0..<Suc n] lds = (for_legs body [0..<n] lds)[n := body (for_legs body [0..<n] lds ! n)]"
    by (simp add: for_legs_def)
  then show ?case using Suc by (cases "j = n") (auto simp: less_Suc_eq)
qed

lemma SetSupportComponentData_fields [simp]:
  "FootLocation (SetSupportComponentData h r ld) = FootLocation ld"
  "FootTarget (SetSupportComponentData h r ld) = FootTarget ld"
  "FootUnplantLocation (SetSupportComponentData h r ld) = FootUnplantLocation ld"
  "LastHit (SetSupportComponentData h r ld) = LastHit ld"
  "GroupIndex (SetSupportComponentData h r ld) = GroupIndex ld"
  "TipBoneOriginalRelLocation (SetSupportComponentData h r ld) = TipBoneOriginalRelLocation ld"
  "SupportComp (SetSupportComponentData h r ld) = HitComponent (LastHit ld)"
  by (simp_all add: SetSupportComponentData_def Let_def split: option.splits)

lemma SetSupportComponentData_explicit:
  "SetSupportComponentData h RefLocation ld =
     (case HitComponent (LastHit ld) of
        None \<Rightarrow> ld\<lparr>SupportComp := None\<rparr>
      | Some c \<Rightarrow>
          if CompIsValid h c then
            ld\<lparr>SupportComp := Some c,
               SupportCompPreviousTransform := ComponentTransform h c,
               RelLocationToSupportComp :=
                 InverseTransformLocation h (ComponentTransform h c) RefLocation\<rparr>
          else ld\<lparr>SupportComp := Some c\<rparr>)"
  by (simp add: SetSupportComponentData_def IsValid_def Let_def split: option.splits)

lemma plant_leg_idem: "plant_leg h (plant_leg h ld) = plant_leg h ld"
  by (simp add: plant_leg_def) (simp add: SetSupportComponentData_def Let_def split: option.splits)

lemma SetGroupsPlanted_group_GroupsData:
  "GroupsData (SetGroupsPlanted_group h cfg s g) =
     (GroupsData s)[g := (if group_plants (GroupsData s ! g)
                           then (GroupsData s ! g)\<lparr>bIsUnplanted := False\<rparr> else GroupsData s ! g)]"
  by (simp add: SetGroupsPlanted_group_def group_plants_def)

lemma SetGroupsPlanted_group_LegsData:
  "LegsData (SetGroupsPlanted_group h cfg s g) =
     (if group_plants (GroupsData s ! g)
      then for_legs (plant_leg h) (LegIndices (LegGroups cfg ! g)) (LegsData s) else LegsData s)"
  by (simp add: SetGroupsPlanted_group_def group_plants_def)

lemma SetGroupsPlanted_prefix:
  "k \<le> length (GroupsData s) \<Longrightarrow>
   GroupsData (foldl (SetGroupsPlanted_group h cfg) s [0..<k]) =
     map plant_advance (take k (GroupsData s)) @ drop k (GroupsData s) \<and>
   length (LegsData (foldl (SetGroupsPlanted_group h cfg) s [0..<k])) = length (LegsData s) \<and>
   (\<forall>j < length (LegsData s).
      LegsData (foldl (SetGroupsPlanted_group h cfg) s [0..<k]) ! j =
        (if \<exists>g<k. group_plants (GroupsData s ! g) \<and> j \<in> set (LegIndices (LegGroups cfg ! g))
         then plant_leg h (LegsData s ! j) else LegsData s ! j))"
proof (induction k)
  case 0
  then show ?case by simp
next
  case (Suc k)
  let ?s = "foldl (SetGroupsPlanted_group h cfg) s [0..<k]"
  have k: "k < length (GroupsData s)" using Suc.prems by simp
  from Suc have G: "GroupsData ?s = map plant_advance (take k (GroupsData s)) @ drop k (GroupsData s)"
    and L: "length (LegsData ?s) = length (LegsData s)"
    and N: "\<And>j. j < length (LegsData s) \<Longrightarrow> LegsData ?s ! j =
        (if \<exists>g<k. group_plants (GroupsData s ! g) \<and> j \<in> set (LegIndices (LegGroups cfg ! g))
         then plant_leg h (LegsData s ! j) else LegsData s ! j)"
    by simp_all
  have Gk: "GroupsData ?s ! k = GroupsData s ! k" using k by (simp add: G nth_append)
  have 1: "GroupsData (SetGroupsPlanted_group h cfg ?s k) =
        map plant_advance (take (Suc k) (GroupsData s)) @ drop (Suc k) (GroupsData s)"
    using k unfolding SetGroupsPlanted_group_GroupsData Gk
    by (simp add: G take_Suc_conv_app_nth list_update_append Cons_nth_drop_Suc[symmetric]
        plant_advance_def)
  have 2: "length (LegsData (SetGroupsPlanted_group h cfg ?s k)) = length (LegsData s)"
    by (simp add: SetGroupsPlanted_group_LegsData L)
  have 3: "LegsData (SetGroupsPlanted_group h cfg ?s k) ! j =
        (if \<exists>g<Suc k. group_plants (GroupsData s ! g) \<and> j \<in> set (LegIndices (LegGroups cfg ! g))
         then plant_leg h (LegsData s ! j) else LegsData s ! j)" if j: "j < length (LegsData s)" for j
  proof (cases "group_plants (GroupsData s ! k) \<and> j \<in> set (LegIndices (LegGroups cfg ! k))")
    case True
    have "LegsData (SetGroupsPlanted_group h cfg ?s k) ! j = plant_leg h (LegsData ?s ! j)"
      using True j L by (simp add: SetGroupsPlanted_group_LegsData Gk for_legs_nth_idem[OF plant_leg_idem])
    also have "\<dots> = plant_leg h (LegsData s ! j)"
      by (simp add: N[OF j] plant_leg_idem)
    finally show ?thesis using True by auto
  next
    case False
    have "LegsData (SetGroupsPlanted_group h cfg ?s k) ! j = LegsData ?s ! j"
      using False j L by (auto simp: SetGroupsPlanted_group_LegsData Gk for_legs_nth_idem[OF plant_leg_idem])
    then show ?thesis using False N[OF j] by (auto simp: less_Suc_eq)
  qed
  show ?case using 1 2 3 by simp
qed

lemma SetGroupsPlanted_GroupsData:
  "length (GroupsData s) = length (LegGroups cfg) \<Longrightarrow>
   GroupsData (SetGroupsPlanted h cfg s) = map plant_advance (GroupsData s)"
  using SetGroupsPlanted_prefix[of "length (LegGroups cfg)" s h cfg]
  by (simp add: SetGroupsPlanted_def)

lemma SetGroupsPlanted_LegsData:
  "length (GroupsData s) = length (LegGroups cfg) \<Longrightarrow> j < length (LegsData s) \<Longrightarrow>
   LegsData (SetGroupsPlanted h cfg s) ! j =
     (if \<exists>g<length (LegGroups cfg). group_plants (GroupsData s ! g) \<and> j \<in> set (LegIndices (LegGroups cfg ! g))
      then plant_leg h (LegsData s ! j) else LegsData s ! j)"
  using SetGroupsPlanted_prefix[of "length (LegGroups cfg)" s h cfg]
  by (simp add: SetGroupsPlanted_def)

subsection \<open>The swing advance\<close>

lemma Clamp_range: "lo \<le> hi \<Longrightarrow> lo \<le> Clamp x lo hi \<and> Clamp x lo hi \<le> hi"
  by (simp add: Clamp_def)

lemma Clamp_mono_step: "0 \<le> x \<Longrightarrow> x \<le> 1 \<Longrightarrow> 0 \<le> d \<Longrightarrow> x \<le> Clamp (x + d) 0 1"
  by (simp add: Clamp_def)

lemma Clamp_saturates: "1 \<le> x \<Longrightarrow> Clamp x 0 1 = 1"
  by (simp add: Clamp_def)

lemma ClampF_simps [simp]:
  "ClampF (Finite x) lo hi = Clamp x lo hi"
  "ClampF PosInf lo hi = hi"
  "ClampF NaN lo hi = hi"
  "ClampF NegInf lo hi = lo"
  by (simp_all add: ClampF_def fless_def Clamp_def)

lemma ClampF_unit: "0 \<le> ClampF q 0 1 \<and> ClampF q 0 1 \<le> 1"
  by (cases q) (simp_all add: Clamp_def)

lemma advance_nonzero:
  "dur \<noteq> 0 \<Longrightarrow> ClampF (fadd x (fdiv dt dur)) 0 1 = Clamp (x + dt / dur) 0 1"
  by (simp add: fdiv_def fadd_def)

lemma advance_zero: "0 \<le> dt \<Longrightarrow> ClampF (fadd x (fdiv dt 0)) 0 1 = 1"
  by (simp add: fdiv_def fadd_def)

lemma advance_mono:
  assumes "0 \<le> x" "x \<le> 1" "0 \<le> dt" "0 \<le> dur"
  shows "x \<le> ClampF (fadd x (fdiv dt dur)) 0 1"
proof (cases "dur = 0")
  case True
  then show ?thesis using assms by (simp add: advance_zero)
next
  case False
  define d where "d = dt / dur"
  have "0 \<le> d" using assms by (simp add: d_def)
  then have "x \<le> Clamp (x + d) 0 1" using assms(1,2) by (simp add: Clamp_def)
  then show ?thesis using False by (simp add: advance_nonzero d_def)
qed

lemma ComputeFeet_group_frame [simp]:
  "bIsFalling (ComputeFeet_group h cfg s g) = bIsFalling s"
  "WorldDeltaSeconds (ComputeFeet_group h cfg s g) = WorldDeltaSeconds s"
  "CurrentStepDuration (ComputeFeet_group h cfg s g) = CurrentStepDuration s"
  "CurrentGroupIndex (ComputeFeet_group h cfg s g) = CurrentGroupIndex s"
  "length (GroupsData (ComputeFeet_group h cfg s g)) = length (GroupsData s)"
  by (simp_all add: ComputeFeet_group_def Let_def)

lemma ComputeFeet_group_GroupsData:
  "\<not> bIsFalling s \<Longrightarrow>
   GroupsData (ComputeFeet_group h cfg s g) =
     (GroupsData s)[g := swing_advance (WorldDeltaSeconds s) (CurrentStepDuration s) (GroupsData s ! g)]"
  by (simp add: ComputeFeet_group_def Let_def swing_advance_def)

lemma ComputeFeet_prefix:
  "\<not> bIsFalling s \<Longrightarrow> k \<le> length (GroupsData s) \<Longrightarrow>
   (let s' = foldl (ComputeFeet_group h cfg) s [0..<k] in
    bIsFalling s' = bIsFalling s \<and> WorldDeltaSeconds s' = WorldDeltaSeconds s \<and>
    CurrentStepDuration s' = CurrentStepDuration s \<and> CurrentGroupIndex s' = CurrentGroupIndex s \<and>
    GroupsData s' = map (swing_advance (WorldDeltaSeconds s) (CurrentStepDuration s)) (take k (GroupsData s))
                    @ drop k (GroupsData s))"
proof (induction k)
  case 0
  then show ?case by simp
next
  case (Suc k)
  let ?s = "foldl (ComputeFeet_group h cfg) s [0..<k]"
  from Suc have IH: "bIsFalling ?s = bIsFalling s" "WorldDeltaSeconds ?s = WorldDeltaSeconds s"
    "CurrentStepDuration ?s = CurrentStepDuration s" "CurrentGroupIndex ?s = CurrentGroupIndex s"
    "GroupsData ?s = map (swing_advance (WorldDeltaSeconds s) (CurrentStepDuration s)) (take k (GroupsData s))
                    @ drop k (GroupsData s)"
    by (simp_all add: Let_def)
  have k: "k < length (GroupsData s)" using Suc.prems by simp
  have nf: "\<not> bIsFalling ?s" using IH Suc.prems by simp
  have "GroupsData (ComputeFeet_group h cfg ?s k) =
        map (swing_advance (WorldDeltaSeconds s) (CurrentStepDuration s)) (take (Suc k) (GroupsData s))
                    @ drop (Suc k) (GroupsData s)"
    using k by (simp add: ComputeFeet_group_GroupsData[OF nf] IH nth_append take_Suc_conv_app_nth
        list_update_append Cons_nth_drop_Suc[symmetric])
  then show ?case using IH by (simp add: Let_def)
qed

lemma ComputeFeet_GroupsData:
  assumes "\<not> bIsFalling s" "length (GroupsData s) = length (LegGroups cfg)"
  shows "GroupsData (ComputeFeet h cfg s) =
         map (swing_advance (WorldDeltaSeconds s) (CurrentStepDuration s)) (GroupsData s)"
  using ComputeFeet_prefix[OF assms(1), of "length (LegGroups cfg)" h cfg] assms(2)
  by (simp add: ComputeFeet_def Let_def)

subsection \<open>Unplanting\<close>

lemma IsAtLeastOneFootFarEnough_iff:
  "IsAtLeastOneFootFarEnough d lds idx \<longleftrightarrow>
     (\<exists>i\<in>set idx. d \<le> Dist (FootLocation (lds ! i)) (FootTarget (lds ! i)))"
  by (induction idx) auto

lemma SetCurrentGroupUnplanted_eq:
  "SetCurrentGroupUnplanted h cfg s =
     (if group_unplants cfg s then
        SetNextCurrentGroupIndex cfg
          (s\<lparr>GroupsData := (GroupsData s)[CurrentGroupIndex s :=
                 (GroupsData s ! CurrentGroupIndex s)\<lparr>bIsUnplanted := True, StepPercent := 0\<rparr>],
             LegsData := for_legs (unplant_leg h) (LegIndices (LegGroups cfg ! CurrentGroupIndex s))
                           (LegsData s)\<rparr>)
      else s)"
  by (simp add: SetCurrentGroupUnplanted_def group_unplants_def Let_def)

lemma SetCurrentGroupUnplanted_GroupsData:
  "GroupsData (SetCurrentGroupUnplanted h cfg s) =
     (if group_unplants cfg s then
        (GroupsData s)[CurrentGroupIndex s :=
           (GroupsData s ! CurrentGroupIndex s)\<lparr>bIsUnplanted := True, StepPercent := 0\<rparr>]
      else GroupsData s)"
  by (simp add: SetCurrentGroupUnplanted_eq SetNextCurrentGroupIndex_def Let_def)

lemma SetCurrentGroupUnplanted_frame [simp]:
  "bIsFalling (SetCurrentGroupUnplanted h cfg s) = bIsFalling s"
  "WorldDeltaSeconds (SetCurrentGroupUnplanted h cfg s) = WorldDeltaSeconds s"
  "CurrentStepDuration (SetCurrentGroupUnplanted h cfg s) = CurrentStepDuration s"
  "length (GroupsData (SetCurrentGroupUnplanted h cfg s)) = length (GroupsData s)"
  "length (LegsData (SetCurrentGroupUnplanted h cfg s)) = length (LegsData s)"
  by (simp_all add: SetCurrentGroupUnplanted_eq SetNextCurrentGroupIndex_def Let_def)

subsection \<open>The stages before the gait leave the groups alone\<close>

lemma UpdatePawnVariables_frame [simp]:
  "GroupsData (UpdatePawnVariables h cfg s) = GroupsData s"
  "LegsData (UpdatePawnVariables h cfg s) = LegsData s"
  "CurrentGroupIndex (UpdatePawnVariables h cfg s) = CurrentGroupIndex s"
  "bIsFalling (UpdatePawnVariables h cfg s) = bIsFalling s"
  "WorldDeltaSeconds (UpdatePawnVariables h cfg s) = WorldDeltaSeconds s"
  by (simp_all add: UpdatePawnVariables_def UpdateAcceleration_def UpdateStepDuration_def
      UpdateStepLength_def UpdateRotation_def UpdatePercents_def UpdateSpeed_def Let_def)

lemma SetSupportCompDeltas_frame [simp]:
  "GroupsData (SetSupportCompDeltas h cfg s) = GroupsData s"
  "CurrentGroupIndex (SetSupportCompDeltas h cfg s) = CurrentGroupIndex s"
  "bIsFalling (SetSupportCompDeltas h cfg s) = bIsFalling s"
  "WorldDeltaSeconds (SetSupportCompDeltas h cfg s) = WorldDeltaSeconds s"
  "CurrentStepDuration (SetSupportCompDeltas h cfg s) = CurrentStepDuration s"
  "length (LegsData (SetSupportCompDeltas h cfg s)) = length (LegsData s)"
  by (simp_all add: SetSupportCompDeltas_def)

lemma SetFootTargetLocation_frame [simp]:
  "GroupsData (SetFootTargetLocation h cfg s i) = GroupsData s"
  "CurrentGroupIndex (SetFootTargetLocation h cfg s i) = CurrentGroupIndex s"
  "bIsFalling (SetFootTargetLocation h cfg s i) = bIsFalling s"
  "WorldDeltaSeconds (SetFootTargetLocation h cfg s i) = WorldDeltaSeconds s"
  "CurrentStepDuration (SetFootTargetLocation h cfg s i) = CurrentStepDuration s"
  "length (LegsData (SetFootTargetLocation h cfg s i)) = length (LegsData s)"
  by (simp_all add: SetFootTargetLocation_def)

lemma foldl_SetFootTargetLocation_frame:
  "GroupsData (foldl (SetFootTargetLocation h cfg) s idx) = GroupsData s \<and>
   CurrentGroupIndex (foldl (SetFootTargetLocation h cfg) s idx) = CurrentGroupIndex s \<and>
   bIsFalling (foldl (SetFootTargetLocation h cfg) s idx) = bIsFalling s \<and>
   WorldDeltaSeconds (foldl (SetFootTargetLocation h cfg) s idx) = WorldDeltaSeconds s \<and>
   CurrentStepDuration (foldl (SetFootTargetLocation h cfg) s idx) = CurrentStepDuration s \<and>
   length (LegsData (foldl (SetFootTargetLocation h cfg) s idx)) = length (LegsData s)"
  by (induction idx arbitrary: s) simp_all

lemma SetFeetTargetLocations_frame [simp]:
  "GroupsData (SetFeetTargetLocations h cfg s) = GroupsData s"
  "CurrentGroupIndex (SetFeetTargetLocations h cfg s) = CurrentGroupIndex s"
  "bIsFalling (SetFeetTargetLocations h cfg s) = bIsFalling s"
  "WorldDeltaSeconds (SetFeetTargetLocations h cfg s) = WorldDeltaSeconds s"
  "CurrentStepDuration (SetFeetTargetLocations h cfg s) = CurrentStepDuration s"
  "length (LegsData (SetFeetTargetLocations h cfg s)) = length (LegsData s)"
  by (simp_all add: SetFeetTargetLocations_def foldl_SetFootTargetLocation_frame)

lemma before_gait_frame [simp]:
  "GroupsData (before_gait h cfg s) = GroupsData s"
  "CurrentGroupIndex (before_gait h cfg s) = CurrentGroupIndex s"
  "bIsFalling (before_gait h cfg s) = bIsFalling s"
  "WorldDeltaSeconds (before_gait h cfg s) = WorldDeltaSeconds s"
  "CurrentStepDuration (before_gait h cfg s) = CurrentStepDuration (UpdatePawnVariables h cfg s)"
  "length (LegsData (before_gait h cfg s)) = length (LegsData s)"
  by (simp_all add: before_gait_def)

lemma ComputeBodyTransform_frame [simp]:
  "GroupsData (ComputeBodyTransform h cfg s) = GroupsData s"
  "LegsData (ComputeBodyTransform h cfg s) = LegsData s"
  "CurrentGroupIndex (ComputeBodyTransform h cfg s) = CurrentGroupIndex s"
  by (simp_all add: ComputeBodyTransform_def ComputeBodyRotation_def Let_def split: prod.splits)

lemma Evaluate_Computations_ground:
  "\<not> bIsFalling s \<Longrightarrow>
   Evaluate_Computations h cfg s =
     ComputeBodyTransform h cfg
       (SetGroupsPlanted h cfg (ComputeFeet h cfg (SetCurrentGroupUnplanted h cfg (before_gait h cfg s))))"
  by (simp add: Evaluate_Computations_def before_gait_def Let_def)

lemma swing_advance_simps:
  "bIsUnplanted (swing_advance dt dur gd) = bIsUnplanted gd"
  "StepPercent (swing_advance dt dur gd) =
     (if bIsUnplanted gd then ClampF (fadd (StepPercent gd) (fdiv dt dur)) 0 1 else StepPercent gd)"
  by (simp_all add: swing_advance_def)

lemma plant_advance_simps:
  "StepPercent (plant_advance gd) = StepPercent gd"
  "bIsUnplanted (plant_advance gd) = (bIsUnplanted gd \<and> StepPercent gd \<noteq> 1)"
  by (auto simp: plant_advance_def group_plants_def)

lemma ground_stages_GroupsData:
  assumes len: "length (GroupsData s) = length (LegGroups cfg)" and nf: "\<not> bIsFalling s"
    and g: "g < length (LegGroups cfg)"
  shows "GroupsData (ComputeFeet h cfg s) ! g =
           swing_advance (WorldDeltaSeconds s) (CurrentStepDuration s) (GroupsData s ! g)"
    and "GroupsData (SetGroupsPlanted h cfg s) ! g = plant_advance (GroupsData s ! g)"
    and "length (GroupsData (ComputeFeet h cfg s)) = length (LegGroups cfg)"
  using assms by (simp_all add: ComputeFeet_GroupsData SetGroupsPlanted_GroupsData)

subsection \<open>The step duration and the slope multipliers are not negative\<close>

lemma UpdatePawnVariables_duration:
  "CurrentStepDuration (UpdatePawnVariables h cfg s) =
     (if 5 < Speed (UpdatePawnVariables h cfg s) + \<bar>YawDelta (UpdatePawnVariables h cfg s)\<bar>
      then CurrentStepLength (UpdatePawnVariables h cfg s)
           / (Speed (UpdatePawnVariables h cfg s) + \<bar>YawDelta (UpdatePawnVariables h cfg s)\<bar>)
      else MinStepDuration cfg)"
  by (simp add: UpdatePawnVariables_def UpdateAcceleration_def UpdateStepDuration_def
      UpdateStepLength_def UpdateRotation_def UpdatePercents_def UpdateSpeed_def Let_def)

lemma UpdatePawnVariables_length_nonneg:
  assumes "0 \<le> ReduceSlopeMultiplierPitch s" "0 \<le> ReduceSlopeMultiplierRoll s"
  shows "0 \<le> CurrentStepLength (UpdatePawnVariables h cfg s)"
  using assms
  by (simp add: UpdatePawnVariables_def UpdateAcceleration_def UpdateStepDuration_def
      UpdateStepLength_def UpdateRotation_def UpdatePercents_def UpdateSpeed_def Let_def
      GetReductionSlopeMultiplier_def)

lemma UpdatePawnVariables_duration_nonneg:
  assumes "0 \<le> MinStepDuration cfg" "0 \<le> ReduceSlopeMultiplierPitch s"
    "0 \<le> ReduceSlopeMultiplierRoll s"
  shows "0 \<le> CurrentStepDuration (UpdatePawnVariables h cfg s)"
  using assms(1) UpdatePawnVariables_length_nonneg[OF assms(2,3), of h cfg]
  by (simp add: UpdatePawnVariables_duration)

lemma ReduceSlopeMultiplier_Finite:
  "ReduceSlopeMultiplier cfg (Finite a)
     = 1 - StepSlopeReductionMultiplier cfg
       + \<bar>cos (a * (180 / pi))\<bar> * StepSlopeReductionMultiplier cfg"
proof -
  define c where "c = \<bar>cos (a * (180 / pi))\<bar>"
  have "0 \<le> c" "c \<le> 1" using abs_cos_le_one[of "a * (180 / pi)"] by (simp_all add: c_def)
  then have "Clamp c 0 1 = c" by (auto simp: Clamp_def)
  then have "Clamp \<bar>cos (a * (180 / pi))\<bar> 0 1 = \<bar>cos (a * (180 / pi))\<bar>"
    by (simp only: c_def)
  then show ?thesis
    by (simp add: ReduceSlopeMultiplier_def MapRangeClampedF_def RadiansToDegreesF_def
        AbsCosF_def RadiansToDegrees_def)
qed

lemma ReduceSlopeMultiplier_not_finite:
  "ReduceSlopeMultiplier cfg NaN = 1"
  "ReduceSlopeMultiplier cfg PosInf = 1"
  "ReduceSlopeMultiplier cfg NegInf = 1"
  by (simp_all add: ReduceSlopeMultiplier_def MapRangeClampedF_def RadiansToDegreesF_def AbsCosF_def)

lemma ReduceSlopeMultiplier_nonneg:
  assumes "StepSlopeReductionMultiplier cfg \<le> 1"
  shows "0 \<le> ReduceSlopeMultiplier cfg a"
proof (cases a)
  case (Finite x)
  define c where "c = \<bar>cos (x * (180 / pi))\<bar>"
  have c: "0 \<le> c" "c \<le> 1" using abs_cos_le_one[of "x * (180 / pi)"] by (simp_all add: c_def)
  have "ReduceSlopeMultiplier cfg a = 1 - StepSlopeReductionMultiplier cfg * (1 - c)"
    by (simp add: Finite ReduceSlopeMultiplier_Finite c_def algebra_simps)
  moreover have "StepSlopeReductionMultiplier cfg * (1 - c) \<le> 1"
  proof (cases "0 \<le> StepSlopeReductionMultiplier cfg")
    case True
    then have "StepSlopeReductionMultiplier cfg * (1 - c) \<le> 1 * 1"
      using assms c by (intro mult_mono) simp_all
    then show ?thesis by simp
  next
    case False
    then have "StepSlopeReductionMultiplier cfg * (1 - c) \<le> 0"
      using c by (simp add: mult_le_0_iff)
    then show ?thesis by simp
  qed
  ultimately show ?thesis by simp
qed (simp_all add: ReduceSlopeMultiplier_not_finite)

lemma ComputeBodyTransform_multipliers:
  "StepSlopeReductionMultiplier cfg \<le> 1 \<Longrightarrow> 0 \<le> ReduceSlopeMultiplierPitch (ComputeBodyTransform h cfg t)"
  "StepSlopeReductionMultiplier cfg \<le> 1 \<Longrightarrow> 0 \<le> ReduceSlopeMultiplierRoll (ComputeBodyTransform h cfg t)"
  by (simp_all add: ComputeBodyTransform_def ComputeBodyRotation_def ReduceSlopeMultiplier_nonneg
      split: prod.splits)

lemma Evaluate_Computations_multipliers:
  assumes "StepSlopeReductionMultiplier cfg \<le> 1"
  shows "0 \<le> ReduceSlopeMultiplierPitch (Evaluate_Computations h cfg s)"
    and "0 \<le> ReduceSlopeMultiplierRoll (Evaluate_Computations h cfg s)"
  using assms by (simp_all add: Evaluate_Computations_def Let_def ComputeBodyTransform_multipliers)

text \<open>
  Claim C1. On a tick on the ground, for a group whose step percent starts in \<open>[0, 1]\<close>:
  the stages before the gait and the body stage leave \<open>GroupsData\<close> alone, and the step
  percent is in \<open>[0, 1]\<close> after the tick. \<open>SetCurrentGroupUnplanted\<close> changes it only for
  the current group, when that group goes from planted to unplanted, and when the tests
  of that transition hold it does write 0. \<open>ComputeFeet\<close> replaces it, for an unplanted
  group, by the clamp to \<open>[0, 1]\<close> of the step percent plus
  \<open>WorldDeltaSeconds / CurrentStepDuration\<close>; with a duration of zero that is 1.
  \<open>SetGroupsPlanted\<close> keeps it. With an elapsed time and a duration that are not
  negative the advance never lowers it, so that over the whole tick it can only go down
  at the transition; and the duration is not negative as soon as \<open>MinStepDuration\<close> and
  the two slope multipliers are not, which every tick with
  \<open>StepSlopeReductionMultiplier\<close> at most 1 re-establishes.
\<close>

theorem step_percent_tick:
  assumes ok: "indices_ok cfg s" and nf: "\<not> bIsFalling s" and g: "g < length (LegGroups cfg)"
    and lo: "0 \<le> StepPercent (GroupsData s ! g)" and hi: "StepPercent (GroupsData s ! g) \<le> 1"
  shows "let s0 = before_gait h cfg s;
             s1 = SetCurrentGroupUnplanted h cfg s0;
             s2 = ComputeFeet h cfg s1;
             s3 = SetGroupsPlanted h cfg s2;
             s' = Evaluate_Computations h cfg s;
             sp = (\<lambda>t. StepPercent (GroupsData t ! g));
             dt = WorldDeltaSeconds s;
             dur = CurrentStepDuration (UpdatePawnVariables h cfg s);
             adv = (\<lambda>x. ClampF (fadd x (fdiv dt dur)) 0 1)
         in GroupsData s0 = GroupsData s \<and> GroupsData s' = GroupsData s3 \<and>
            0 \<le> sp s' \<and> sp s' \<le> 1 \<and>
            (sp s1 \<noteq> sp s0 \<longrightarrow>
               g = CurrentGroupIndex s0 \<and> \<not> bIsUnplanted (GroupsData s0 ! g) \<and>
               bIsUnplanted (GroupsData s1 ! g) \<and> sp s1 = 0) \<and>
            (g = CurrentGroupIndex s0 \<and> \<not> bIsUnplanted (GroupsData s0 ! g) \<and>
             (\<exists>i\<in>set (LegIndices (LegGroups cfg ! g)).
                 MinDistanceToUnplant cfg
                   \<le> Dist (FootLocation (LegsData s0 ! i)) (FootTarget (LegsData s0 ! i))) \<and>
             (\<not> bIsUnplanted (GroupsData s0 ! PreviousGroupIndex cfg s0) \<or>
              StepSequencePercent cfg \<le> StepPercent (GroupsData s0 ! PreviousGroupIndex cfg s0)) \<longrightarrow>
               bIsUnplanted (GroupsData s1 ! g) \<and> sp s1 = 0 \<and> sp s' = adv 0) \<and>
            sp s2 = (if bIsUnplanted (GroupsData s1 ! g) then adv (sp s1) else sp s1) \<and>
            sp s3 = sp s2 \<and>
            (bIsUnplanted (GroupsData s ! g) \<longrightarrow> sp s' = adv (sp s)) \<and>
            (dur \<noteq> 0 \<longrightarrow> (\<forall>x. adv x = Clamp (x + dt / dur) 0 1)) \<and>
            (dur = 0 \<and> 0 \<le> dt \<longrightarrow> (\<forall>x. adv x = 1)) \<and>
            (0 \<le> dt \<and> 0 \<le> dur \<longrightarrow>
               sp s1 \<le> sp s2 \<and>
               (bIsUnplanted (GroupsData s ! g) \<longrightarrow> sp s \<le> sp s') \<and>
               (sp s' < sp s \<longrightarrow>
                  g = CurrentGroupIndex s0 \<and> \<not> bIsUnplanted (GroupsData s0 ! g) \<and>
                  bIsUnplanted (GroupsData s1 ! g))) \<and>
            (0 \<le> MinStepDuration cfg \<and> 0 \<le> ReduceSlopeMultiplierPitch s \<and>
             0 \<le> ReduceSlopeMultiplierRoll s \<longrightarrow> 0 \<le> dur) \<and>
            (StepSlopeReductionMultiplier cfg \<le> 1 \<longrightarrow>
               0 \<le> ReduceSlopeMultiplierPitch s' \<and> 0 \<le> ReduceSlopeMultiplierRoll s')"
proof -
  define s0 where "s0 = before_gait h cfg s"
  define s1 where "s1 = SetCurrentGroupUnplanted h cfg s0"
  define s2 where "s2 = ComputeFeet h cfg s1"
  define s3 where "s3 = SetGroupsPlanted h cfg s2"
  define s' where "s' = Evaluate_Computations h cfg s"
  define dt where "dt = WorldDeltaSeconds s"
  define dur where "dur = CurrentStepDuration (UpdatePawnVariables h cfg s)"
  define adv where "adv = (\<lambda>x. ClampF (fadd x (fdiv dt dur)) 0 1)"
  define sp where "sp = (\<lambda>t:: 'a FAnimNode_SPW. StepPercent (GroupsData t ! g))"
  have len: "length (GroupsData s) = length (LegGroups cfg)"
    and cur: "CurrentGroupIndex s < length (LegGroups cfg)"
    using ok by (simp_all add: indices_ok_def)
  have G0: "GroupsData s0 = GroupsData s" by (simp add: s0_def)
  have E: "Evaluate_Computations h cfg s = ComputeBodyTransform h cfg s3"
    using nf by (simp add: Evaluate_Computations_ground s3_def s2_def s1_def s0_def)
  have G'': "GroupsData s' = GroupsData s3" by (simp add: s'_def E)
  have len1: "length (GroupsData s1) = length (LegGroups cfg)" by (simp add: s1_def s0_def len)
  have nf1: "\<not> bIsFalling s1" using nf by (simp add: s1_def s0_def)
  have dd: "WorldDeltaSeconds s1 = dt" "CurrentStepDuration s1 = dur"
    by (simp_all add: s1_def s0_def dt_def dur_def)
  have G1: "GroupsData s1 ! g =
        (if group_unplants cfg s0 \<and> g = CurrentGroupIndex s0
         then (GroupsData s ! g)\<lparr>bIsUnplanted := True, StepPercent := 0\<rparr> else GroupsData s ! g)"
    using g len by (auto simp: s1_def SetCurrentGroupUnplanted_GroupsData G0 s0_def)
  have sp0: "sp s0 = sp s" by (simp add: sp_def G0)
  have sp1_range: "0 \<le> sp s1 \<and> sp s1 \<le> 1" using lo hi by (simp add: sp_def G1)
  have G2: "GroupsData s2 ! g = swing_advance dt dur (GroupsData s1 ! g)"
    unfolding s2_def dd[symmetric] by (rule ground_stages_GroupsData(1)[OF len1 nf1 g])
  have len2: "length (GroupsData s2) = length (LegGroups cfg)"
    unfolding s2_def by (rule ground_stages_GroupsData(3)[OF len1 nf1 g])
  have sp2: "sp s2 = (if bIsUnplanted (GroupsData s1 ! g) then adv (sp s1) else sp s1)"
    by (simp add: sp_def G2 swing_advance_def adv_def)
  have sp2_range: "0 \<le> sp s2 \<and> sp s2 \<le> 1"
    using sp1_range ClampF_unit[of "fadd (sp s1) (fdiv dt dur)"] by (simp add: sp2 adv_def)
  have G3: "GroupsData s3 ! g = plant_advance (GroupsData s2 ! g)"
    unfolding s3_def using len2 g by (simp add: SetGroupsPlanted_GroupsData)
  have sp3: "sp s3 = sp s2" by (simp add: sp_def G3 plant_advance_simps)
  have sp': "sp s' = sp s2" using sp3 by (simp add: sp_def G'')
  have r1: "0 \<le> sp s'" and r2: "sp s' \<le> 1" using sp2_range sp' by simp_all
  have only: "sp s1 \<noteq> sp s0 \<longrightarrow>
               g = CurrentGroupIndex s0 \<and> \<not> bIsUnplanted (GroupsData s0 ! g) \<and>
               bIsUnplanted (GroupsData s1 ! g) \<and> sp s1 = 0"
    by (auto simp: sp_def G1 G0 group_unplants_def)
  have fires: "g = CurrentGroupIndex s0 \<and> \<not> bIsUnplanted (GroupsData s0 ! g) \<and>
             (\<exists>i\<in>set (LegIndices (LegGroups cfg ! g)).
                 MinDistanceToUnplant cfg
                   \<le> Dist (FootLocation (LegsData s0 ! i)) (FootTarget (LegsData s0 ! i))) \<and>
             (\<not> bIsUnplanted (GroupsData s0 ! PreviousGroupIndex cfg s0) \<or>
              StepSequencePercent cfg \<le> StepPercent (GroupsData s0 ! PreviousGroupIndex cfg s0)) \<longrightarrow>
               bIsUnplanted (GroupsData s1 ! g) \<and> sp s1 = 0 \<and> sp s' = adv 0"
  proof (intro impI, elim conjE)
    assume a: "g = CurrentGroupIndex s0" "\<not> bIsUnplanted (GroupsData s0 ! g)"
      "\<exists>i\<in>set (LegIndices (LegGroups cfg ! g)).
         MinDistanceToUnplant cfg
           \<le> Dist (FootLocation (LegsData s0 ! i)) (FootTarget (LegsData s0 ! i))"
      "\<not> bIsUnplanted (GroupsData s0 ! PreviousGroupIndex cfg s0) \<or>
       StepSequencePercent cfg \<le> StepPercent (GroupsData s0 ! PreviousGroupIndex cfg s0)"
    have "group_unplants cfg s0"
      using a by (auto simp: group_unplants_def IsAtLeastOneFootFarEnough_iff not_less)
    then have u: "bIsUnplanted (GroupsData s1 ! g)" and z: "sp s1 = 0"
      using a(1) G1 by (auto simp: sp_def)
    show "bIsUnplanted (GroupsData s1 ! g) \<and> sp s1 = 0 \<and> sp s' = adv 0"
      using u z by (simp add: sp' sp2)
  qed
  have unpl: "bIsUnplanted (GroupsData s ! g) \<longrightarrow> sp s' = adv (sp s)"
  proof
    assume u: "bIsUnplanted (GroupsData s ! g)"
    have "GroupsData s1 ! g = GroupsData s ! g"
      using u by (auto simp: G1 group_unplants_def G0)
    then have "sp s1 = sp s" "bIsUnplanted (GroupsData s1 ! g)" using u by (simp_all add: sp_def)
    then show "sp s' = adv (sp s)" by (simp add: sp' sp2)
  qed
  have nz: "dur \<noteq> 0 \<longrightarrow> (\<forall>x. adv x = Clamp (x + dt / dur) 0 1)"
    by (simp add: adv_def advance_nonzero)
  have zz: "dur = 0 \<and> 0 \<le> dt \<longrightarrow> (\<forall>x. adv x = 1)"
    by (auto simp: adv_def advance_zero)
  have mono: "0 \<le> dt \<and> 0 \<le> dur \<longrightarrow>
               sp s1 \<le> sp s2 \<and>
               (bIsUnplanted (GroupsData s ! g) \<longrightarrow> sp s \<le> sp s') \<and>
               (sp s' < sp s \<longrightarrow>
                  g = CurrentGroupIndex s0 \<and> \<not> bIsUnplanted (GroupsData s0 ! g) \<and>
                  bIsUnplanted (GroupsData s1 ! g))"
  proof (intro impI, elim conjE)
    assume p: "0 \<le> dt" "0 \<le> dur"
    have m: "sp s1 \<le> sp s2"
      using sp1_range advance_mono[of "sp s1" dt dur] p by (simp add: sp2 adv_def)
    have m2: "bIsUnplanted (GroupsData s ! g) \<longrightarrow> sp s \<le> sp s'"
    proof
      assume u: "bIsUnplanted (GroupsData s ! g)"
      have "sp s \<le> adv (sp s)"
        using advance_mono[of "sp s" dt dur] lo hi p by (simp add: adv_def sp_def)
      then show "sp s \<le> sp s'" using unpl u by simp
    qed
    have m3: "sp s' < sp s \<longrightarrow>
                  g = CurrentGroupIndex s0 \<and> \<not> bIsUnplanted (GroupsData s0 ! g) \<and>
                  bIsUnplanted (GroupsData s1 ! g)"
    proof
      assume d: "sp s' < sp s"
      have "sp s1 \<noteq> sp s0"
      proof
        assume "sp s1 = sp s0"
        then have "sp s \<le> sp s'" using m by (simp add: sp0 sp')
        with d show False by simp
      qed
      with only show "g = CurrentGroupIndex s0 \<and> \<not> bIsUnplanted (GroupsData s0 ! g) \<and>
                  bIsUnplanted (GroupsData s1 ! g)" by blast
    qed
    show "sp s1 \<le> sp s2 \<and>
               (bIsUnplanted (GroupsData s ! g) \<longrightarrow> sp s \<le> sp s') \<and>
               (sp s' < sp s \<longrightarrow>
                  g = CurrentGroupIndex s0 \<and> \<not> bIsUnplanted (GroupsData s0 ! g) \<and>
                  bIsUnplanted (GroupsData s1 ! g))"
      by (intro conjI) (fact m m2 m3)+
  qed
  have dn: "0 \<le> MinStepDuration cfg \<and> 0 \<le> ReduceSlopeMultiplierPitch s \<and>
             0 \<le> ReduceSlopeMultiplierRoll s \<longrightarrow> 0 \<le> dur"
    by (simp add: dur_def UpdatePawnVariables_duration_nonneg)
  have mn: "StepSlopeReductionMultiplier cfg \<le> 1 \<longrightarrow>
               0 \<le> ReduceSlopeMultiplierPitch s' \<and> 0 \<le> ReduceSlopeMultiplierRoll s'"
    by (simp add: s'_def Evaluate_Computations_multipliers)
  have "GroupsData s0 = GroupsData s \<and> GroupsData s' = GroupsData s3 \<and>
            0 \<le> sp s' \<and> sp s' \<le> 1 \<and>
            (sp s1 \<noteq> sp s0 \<longrightarrow>
               g = CurrentGroupIndex s0 \<and> \<not> bIsUnplanted (GroupsData s0 ! g) \<and>
               bIsUnplanted (GroupsData s1 ! g) \<and> sp s1 = 0) \<and>
            (g = CurrentGroupIndex s0 \<and> \<not> bIsUnplanted (GroupsData s0 ! g) \<and>
             (\<exists>i\<in>set (LegIndices (LegGroups cfg ! g)).
                 MinDistanceToUnplant cfg
                   \<le> Dist (FootLocation (LegsData s0 ! i)) (FootTarget (LegsData s0 ! i))) \<and>
             (\<not> bIsUnplanted (GroupsData s0 ! PreviousGroupIndex cfg s0) \<or>
              StepSequencePercent cfg \<le> StepPercent (GroupsData s0 ! PreviousGroupIndex cfg s0)) \<longrightarrow>
               bIsUnplanted (GroupsData s1 ! g) \<and> sp s1 = 0 \<and> sp s' = adv 0) \<and>
            sp s2 = (if bIsUnplanted (GroupsData s1 ! g) then adv (sp s1) else sp s1) \<and>
            sp s3 = sp s2 \<and>
            (bIsUnplanted (GroupsData s ! g) \<longrightarrow> sp s' = adv (sp s)) \<and>
            (dur \<noteq> 0 \<longrightarrow> (\<forall>x. adv x = Clamp (x + dt / dur) 0 1)) \<and>
            (dur = 0 \<and> 0 \<le> dt \<longrightarrow> (\<forall>x. adv x = 1)) \<and>
            (0 \<le> dt \<and> 0 \<le> dur \<longrightarrow>
               sp s1 \<le> sp s2 \<and>
               (bIsUnplanted (GroupsData s ! g) \<longrightarrow> sp s \<le> sp s') \<and>
               (sp s' < sp s \<longrightarrow>
                  g = CurrentGroupIndex s0 \<and> \<not> bIsUnplanted (GroupsData s0 ! g) \<and>
                  bIsUnplanted (GroupsData s1 ! g))) \<and>
            (0 \<le> MinStepDuration cfg \<and> 0 \<le> ReduceSlopeMultiplierPitch s \<and>
             0 \<le> ReduceSlopeMultiplierRoll s \<longrightarrow> 0 \<le> dur) \<and>
            (StepSlopeReductionMultiplier cfg \<le> 1 \<longrightarrow>
               0 \<le> ReduceSlopeMultiplierPitch s' \<and> 0 \<le> ReduceSlopeMultiplierRoll s')"
    by (intro conjI) (fact G0 G'' r1 r2 only fires sp2 sp3 unpl nz zz mono dn mn)+
  then show ?thesis
    unfolding Let_def s0_def s1_def s2_def s3_def s'_def dt_def dur_def adv_def sp_def .
qed

lemma PreviousGroupIndex_cyclic:
  "CurrentGroupIndex s < length (LegGroups cfg) \<Longrightarrow>
   PreviousGroupIndex cfg s = (CurrentGroupIndex s + length (LegGroups cfg) - 1) mod length (LegGroups cfg)"
  by (cases "CurrentGroupIndex s") (simp_all add: PreviousGroupIndex_def)

text \<open>
  Claim C2. When the current group is planted, \<open>SetCurrentGroupUnplanted\<close> unplants it
  if and only if one of its legs has its \<open>FootLocation\<close> at a distance of at least
  \<open>MinDistanceToUnplant\<close> from its \<open>FootTarget\<close>, and the previous group in cyclic
  order is planted or has a step percent of at least \<open>StepSequencePercent\<close>. No other
  group is touched. With \<open>StepSequencePercent = 1\<close>, group 1 stays planted as long as
  group 0 is unplanted with a step percent below 1; and in a state that the ticks can
  reach (\<open>pointer_inv\<close>), when group 1 unplants the step percent of group 0 is at least 1.
\<close>

theorem unplant_transition_iff:
  assumes ok: "indices_ok cfg s"
  shows "(\<not> bIsUnplanted (GroupsData s ! CurrentGroupIndex s) \<longrightarrow>
            (bIsUnplanted (GroupsData (SetCurrentGroupUnplanted h cfg s) ! CurrentGroupIndex s) \<longleftrightarrow>
               (\<exists>i\<in>set (LegIndices (LegGroups cfg ! CurrentGroupIndex s)).
                   MinDistanceToUnplant cfg
                     \<le> Dist (FootLocation (LegsData s ! i)) (FootTarget (LegsData s ! i))) \<and>
               (\<not> bIsUnplanted (GroupsData s ! PreviousGroupIndex cfg s) \<or>
                StepSequencePercent cfg \<le> StepPercent (GroupsData s ! PreviousGroupIndex cfg s)))) \<and>
         PreviousGroupIndex cfg s
           = (CurrentGroupIndex s + length (LegGroups cfg) - 1) mod length (LegGroups cfg) \<and>
         (\<forall>g<length (LegGroups cfg). g \<noteq> CurrentGroupIndex s \<longrightarrow>
            GroupsData (SetCurrentGroupUnplanted h cfg s) ! g = GroupsData s ! g) \<and>
         (StepSequencePercent cfg = 1 \<and> 1 < length (LegGroups cfg) \<and>
          bIsUnplanted (GroupsData s ! 0) \<and> StepPercent (GroupsData s ! 0) < 1 \<and>
          \<not> bIsUnplanted (GroupsData s ! 1) \<longrightarrow>
            \<not> bIsUnplanted (GroupsData (SetCurrentGroupUnplanted h cfg s) ! 1)) \<and>
         (StepSequencePercent cfg = 1 \<and> 1 < length (LegGroups cfg) \<and> pointer_inv s \<and>
          \<not> bIsUnplanted (GroupsData s ! 1) \<and>
          bIsUnplanted (GroupsData (SetCurrentGroupUnplanted h cfg s) ! 1) \<longrightarrow>
            1 \<le> StepPercent (GroupsData s ! 0))"
proof -
  have len: "length (GroupsData s) = length (LegGroups cfg)"
    and cur: "CurrentGroupIndex s < length (LegGroups cfg)"
    using ok by (simp_all add: indices_ok_def)
  have A: "\<not> bIsUnplanted (GroupsData s ! CurrentGroupIndex s) \<longrightarrow>
            (bIsUnplanted (GroupsData (SetCurrentGroupUnplanted h cfg s) ! CurrentGroupIndex s) \<longleftrightarrow>
               (\<exists>i\<in>set (LegIndices (LegGroups cfg ! CurrentGroupIndex s)).
                   MinDistanceToUnplant cfg
                     \<le> Dist (FootLocation (LegsData s ! i)) (FootTarget (LegsData s ! i))) \<and>
               (\<not> bIsUnplanted (GroupsData s ! PreviousGroupIndex cfg s) \<or>
                StepSequencePercent cfg \<le> StepPercent (GroupsData s ! PreviousGroupIndex cfg s)))"
    using cur len
    by (auto simp: SetCurrentGroupUnplanted_GroupsData group_unplants_def
        IsAtLeastOneFootFarEnough_iff not_less)
  have B: "PreviousGroupIndex cfg s
           = (CurrentGroupIndex s + length (LegGroups cfg) - 1) mod length (LegGroups cfg)"
    by (rule PreviousGroupIndex_cyclic[OF cur])
  have C: "\<forall>g<length (LegGroups cfg). g \<noteq> CurrentGroupIndex s \<longrightarrow>
            GroupsData (SetCurrentGroupUnplanted h cfg s) ! g = GroupsData s ! g"
    by (simp add: SetCurrentGroupUnplanted_GroupsData)
  have D: "StepSequencePercent cfg = 1 \<and> 1 < length (LegGroups cfg) \<and>
          bIsUnplanted (GroupsData s ! 0) \<and> StepPercent (GroupsData s ! 0) < 1 \<and>
          \<not> bIsUnplanted (GroupsData s ! 1) \<longrightarrow>
            \<not> bIsUnplanted (GroupsData (SetCurrentGroupUnplanted h cfg s) ! 1)"
  proof (intro impI, elim conjE)
    assume h1: "StepSequencePercent cfg = 1" "1 < length (LegGroups cfg)"
      "bIsUnplanted (GroupsData s ! 0)" "StepPercent (GroupsData s ! 0) < 1"
      "\<not> bIsUnplanted (GroupsData s ! 1)"
    show "\<not> bIsUnplanted (GroupsData (SetCurrentGroupUnplanted h cfg s) ! 1)"
    proof (cases "CurrentGroupIndex s = 1")
      case True
      then have "PreviousGroupIndex cfg s = 0" by (simp add: PreviousGroupIndex_def)
      then have "\<not> group_unplants cfg s" using h1 by (simp add: group_unplants_def)
      then show ?thesis using h1 by (simp add: SetCurrentGroupUnplanted_GroupsData)
    next
      case False
      then show ?thesis using h1 C by simp
    qed
  qed
  have E: "StepSequencePercent cfg = 1 \<and> 1 < length (LegGroups cfg) \<and> pointer_inv s \<and>
          \<not> bIsUnplanted (GroupsData s ! 1) \<and>
          bIsUnplanted (GroupsData (SetCurrentGroupUnplanted h cfg s) ! 1) \<longrightarrow>
            1 \<le> StepPercent (GroupsData s ! 0)"
  proof (intro impI, elim conjE)
    assume h: "StepSequencePercent cfg = 1" "1 < length (LegGroups cfg)" "pointer_inv s"
      "\<not> bIsUnplanted (GroupsData s ! 1)"
      "bIsUnplanted (GroupsData (SetCurrentGroupUnplanted h cfg s) ! 1)"
    have fire: "group_unplants cfg s \<and> CurrentGroupIndex s = 1"
    proof (rule ccontr)
      assume "\<not> (group_unplants cfg s \<and> CurrentGroupIndex s = 1)"
      then have "GroupsData (SetCurrentGroupUnplanted h cfg s) ! 1 = GroupsData s ! 1"
        by (auto simp: SetCurrentGroupUnplanted_GroupsData)
      with h(4,5) show False by simp
    qed
    then have prev: "PreviousGroupIndex cfg s = 0" by (simp add: PreviousGroupIndex_def)
    from fire h(1) have b: "\<not> bIsUnplanted (GroupsData s ! 0) \<or> 1 \<le> StepPercent (GroupsData s ! 0)"
      by (auto simp: group_unplants_def prev not_less)
    from fire h(3) have i: "bIsUnplanted (GroupsData s ! 0) \<or> StepPercent (GroupsData s ! 0) = 1"
      by (simp add: pointer_inv_def)
    from b i show "1 \<le> StepPercent (GroupsData s ! 0)" by auto
  qed
  show ?thesis by (intro conjI) (fact A B C D E)+
qed

text \<open>
  Claim C3. \<open>SetGroupsPlanted\<close> plants an unplanted group, whichever its index, exactly
  when its step percent equals 1; a planted group is left as it is and the step percent
  is kept. Each leg of a group that is planted gets \<open>SetSupportComponentData\<close> at its
  current \<open>FootLocation\<close>: \<open>SupportComp\<close> becomes the component of the leg's last hit
  and, when that component is valid, \<open>SupportCompPreviousTransform\<close> becomes its transform
  and \<open>RelLocationToSupportComp\<close> the foot location in its frame; nothing else of the leg
  changes. The value 1 is reached: the advance of \<open>ComputeFeet\<close> saturates at 1 as soon
  as the sum is at least 1, and also when \<open>CurrentStepDuration\<close> is zero.
\<close>

theorem plant_transition_iff:
  assumes ok: "indices_ok cfg s" and g: "g < length (LegGroups cfg)"
  shows "(bIsUnplanted (GroupsData s ! g) \<longrightarrow>
            (\<not> bIsUnplanted (GroupsData (SetGroupsPlanted h cfg s) ! g)
               \<longleftrightarrow> StepPercent (GroupsData s ! g) = 1)) \<and>
         (\<not> bIsUnplanted (GroupsData s ! g) \<longrightarrow>
            GroupsData (SetGroupsPlanted h cfg s) ! g = GroupsData s ! g) \<and>
         StepPercent (GroupsData (SetGroupsPlanted h cfg s) ! g) = StepPercent (GroupsData s ! g) \<and>
         (bIsUnplanted (GroupsData s ! g) \<and> StepPercent (GroupsData s ! g) = 1 \<longrightarrow>
            (\<forall>i\<in>set (LegIndices (LegGroups cfg ! g)).
               LegsData (SetGroupsPlanted h cfg s) ! i
                 = SetSupportComponentData h (FootLocation (LegsData s ! i)) (LegsData s ! i))) \<and>
         (\<not> bIsFalling s \<and> bIsUnplanted (GroupsData s ! g) \<and> CurrentStepDuration s \<noteq> 0 \<and>
          1 \<le> StepPercent (GroupsData s ! g) + WorldDeltaSeconds s / CurrentStepDuration s \<longrightarrow>
            StepPercent (GroupsData (ComputeFeet h cfg s) ! g) = 1) \<and>
         (bIsUnplanted (GroupsData s ! g) \<and> StepPercent (GroupsData s ! g) = 1 \<longrightarrow>
            (\<forall>i\<in>set (LegIndices (LegGroups cfg ! g)).
               LegsData (SetGroupsPlanted h cfg s) ! i
                 = (case HitComponent (LastHit (LegsData s ! i)) of
                    None \<Rightarrow> (LegsData s ! i)\<lparr>SupportComp := None\<rparr>
                  | Some c \<Rightarrow>
                      if CompIsValid h c then
                        (LegsData s ! i)
                          \<lparr>SupportComp := Some c,
                           SupportCompPreviousTransform := ComponentTransform h c,
                           RelLocationToSupportComp :=
                             InverseTransformLocation h (ComponentTransform h c)
                               (FootLocation (LegsData s ! i))\<rparr>
                      else (LegsData s ! i)\<lparr>SupportComp := Some c\<rparr>))) \<and>
         (\<not> bIsFalling s \<and> bIsUnplanted (GroupsData s ! g) \<and> CurrentStepDuration s = 0 \<and>
          0 \<le> WorldDeltaSeconds s \<longrightarrow>
            StepPercent (GroupsData (ComputeFeet h cfg s) ! g) = 1)"
proof -
  have len: "length (GroupsData s) = length (LegGroups cfg)"
    and lenL: "length (LegsData s) = length (Legs cfg)"
    and idx: "list_all (\<lambda>g. list_all (\<lambda>i. i < length (Legs cfg)) (LegIndices g)) (LegGroups cfg)"
    using ok by (simp_all add: indices_ok_def)
  have P: "GroupsData (SetGroupsPlanted h cfg s) ! g = plant_advance (GroupsData s ! g)"
    using len g by (simp add: SetGroupsPlanted_GroupsData)
  have A: "bIsUnplanted (GroupsData s ! g) \<longrightarrow>
            (\<not> bIsUnplanted (GroupsData (SetGroupsPlanted h cfg s) ! g)
               \<longleftrightarrow> StepPercent (GroupsData s ! g) = 1)"
    by (simp add: P plant_advance_simps)
  have B: "\<not> bIsUnplanted (GroupsData s ! g) \<longrightarrow>
            GroupsData (SetGroupsPlanted h cfg s) ! g = GroupsData s ! g"
    by (simp add: P plant_advance_def group_plants_def)
  have C: "StepPercent (GroupsData (SetGroupsPlanted h cfg s) ! g) = StepPercent (GroupsData s ! g)"
    by (simp add: P plant_advance_simps)
  have D: "bIsUnplanted (GroupsData s ! g) \<and> StepPercent (GroupsData s ! g) = 1 \<longrightarrow>
            (\<forall>i\<in>set (LegIndices (LegGroups cfg ! g)).
               LegsData (SetGroupsPlanted h cfg s) ! i
                 = SetSupportComponentData h (FootLocation (LegsData s ! i)) (LegsData s ! i))"
  proof (intro impI ballI)
    fix i
    assume f: "bIsUnplanted (GroupsData s ! g) \<and> StepPercent (GroupsData s ! g) = 1"
      and i: "i \<in> set (LegIndices (LegGroups cfg ! g))"
    have "list_all (\<lambda>i. i < length (Legs cfg)) (LegIndices (LegGroups cfg ! g))"
      using idx g by (simp add: list_all_length)
    then have "i < length (LegsData s)" using i lenL by (simp add: list_all_iff)
    moreover have "\<exists>g'<length (LegGroups cfg). group_plants (GroupsData s ! g') \<and>
                     i \<in> set (LegIndices (LegGroups cfg ! g'))"
      using f i g by (auto simp: group_plants_def)
    ultimately show "LegsData (SetGroupsPlanted h cfg s) ! i
                 = SetSupportComponentData h (FootLocation (LegsData s ! i)) (LegsData s ! i)"
      using len by (simp add: SetGroupsPlanted_LegsData plant_leg_def)
  qed
  have E: "\<not> bIsFalling s \<and> bIsUnplanted (GroupsData s ! g) \<and> CurrentStepDuration s \<noteq> 0 \<and>
          1 \<le> StepPercent (GroupsData s ! g) + WorldDeltaSeconds s / CurrentStepDuration s \<longrightarrow>
            StepPercent (GroupsData (ComputeFeet h cfg s) ! g) = 1"
    using len g by (auto simp: ComputeFeet_GroupsData swing_advance_def advance_nonzero Clamp_def)
  have F: "bIsUnplanted (GroupsData s ! g) \<and> StepPercent (GroupsData s ! g) = 1 \<longrightarrow>
            (\<forall>i\<in>set (LegIndices (LegGroups cfg ! g)).
               LegsData (SetGroupsPlanted h cfg s) ! i
                 = (case HitComponent (LastHit (LegsData s ! i)) of
                    None \<Rightarrow> (LegsData s ! i)\<lparr>SupportComp := None\<rparr>
                  | Some c \<Rightarrow>
                      if CompIsValid h c then
                        (LegsData s ! i)
                          \<lparr>SupportComp := Some c,
                           SupportCompPreviousTransform := ComponentTransform h c,
                           RelLocationToSupportComp :=
                             InverseTransformLocation h (ComponentTransform h c)
                               (FootLocation (LegsData s ! i))\<rparr>
                      else (LegsData s ! i)\<lparr>SupportComp := Some c\<rparr>))"
    using D by (simp add: SetSupportComponentData_explicit)
  have G: "\<not> bIsFalling s \<and> bIsUnplanted (GroupsData s ! g) \<and> CurrentStepDuration s = 0 \<and>
          0 \<le> WorldDeltaSeconds s \<longrightarrow>
            StepPercent (GroupsData (ComputeFeet h cfg s) ! g) = 1"
    using len g by (auto simp: ComputeFeet_GroupsData swing_advance_def advance_zero)
  show ?thesis by (intro conjI) (fact A B C D E F G)+
qed

subsection \<open>Examples on the rig\<close>

lemma Dist_along_X: "Dist (FVector a y z) (FVector b y z) = \<bar>a - b\<bar>"
  by (simp add: Dist_def Size_def minus_FVector_def)

lemma Size_zero [simp]: "Size (FVector 0 0 0) = 0"
  by (simp add: Size_def)

lemma ex_indices_ok: "g < 2 \<Longrightarrow> indices_ok ex_cfg (ex_node [a, b] g)"
  by (simp add: indices_ok_def ex_cfg_def ex_node_def ex_leg_def)

lemma ex_duration:
  "CurrentStepDuration (UpdatePawnVariables (ex_host l sp) ex_cfg (ex_node gs c)) = 3 / 20"
  by (simp add: UpdatePawnVariables_def UpdateAcceleration_def UpdateStepDuration_def
      UpdateStepLength_def UpdateRotation_def UpdatePercents_def UpdateSpeed_def Let_def
      ex_host_def ex_cfg_def ex_node_def SPEED_THRESHOLD_MIN_def)

theorem unplant_transition_iff_witness:
  "indices_ok ex_cfg (ex_node [\<lparr>bIsUnplanted = False, StepPercent = 0\<rparr>,
                               \<lparr>bIsUnplanted = False, StepPercent = 0\<rparr>] 0) \<and>
   bIsUnplanted (GroupsData (SetCurrentGroupUnplanted (ex_host (False, FHitResult_default) []) ex_cfg
       (ex_node [\<lparr>bIsUnplanted = False, StepPercent = 0\<rparr>,
                 \<lparr>bIsUnplanted = False, StepPercent = 0\<rparr>] 0)) ! 0) \<and>
   indices_ok ex_cfg (ex_node [\<lparr>bIsUnplanted = True, StepPercent = 1 / 2\<rparr>,
                               \<lparr>bIsUnplanted = False, StepPercent = 0\<rparr>] 1) \<and>
   \<not> bIsUnplanted (GroupsData (SetCurrentGroupUnplanted (ex_host (False, FHitResult_default) []) ex_cfg
       (ex_node [\<lparr>bIsUnplanted = True, StepPercent = 1 / 2\<rparr>,
                 \<lparr>bIsUnplanted = False, StepPercent = 0\<rparr>] 1)) ! 1) \<and>
   pointer_inv (ex_node [\<lparr>bIsUnplanted = False, StepPercent = 1\<rparr>,
                         \<lparr>bIsUnplanted = False, StepPercent = 0\<rparr>] 1) \<and>
   bIsUnplanted (GroupsData (SetCurrentGroupUnplanted (ex_host (False, FHitResult_default) []) ex_cfg
       (ex_node [\<lparr>bIsUnplanted = False, StepPercent = 1\<rparr>,
                 \<lparr>bIsUnplanted = False, StepPercent = 0\<rparr>] 1)) ! 1)"
proof -
  let ?h = "ex_host (False, FHitResult_default) []"
  let ?s = "ex_node [\<lparr>bIsUnplanted = False, StepPercent = 0\<rparr>,
                     \<lparr>bIsUnplanted = False, StepPercent = 0\<rparr>] 0"
  let ?t = "ex_node [\<lparr>bIsUnplanted = True, StepPercent = 1 / 2\<rparr>,
                     \<lparr>bIsUnplanted = False, StepPercent = 0\<rparr>] 1"
  let ?u = "ex_node [\<lparr>bIsUnplanted = False, StepPercent = 1\<rparr>,
                     \<lparr>bIsUnplanted = False, StepPercent = 0\<rparr>] 1"
  have oks: "indices_ok ex_cfg ?s" by (rule ex_indices_ok) simp
  have okt: "indices_ok ex_cfg ?t" by (rule ex_indices_ok) simp
  have oku: "indices_ok ex_cfg ?u" by (rule ex_indices_ok) simp
  have cur: "CurrentGroupIndex ?s = 0" and curu: "CurrentGroupIndex ?u = 1"
    by (simp_all add: ex_node_def)
  have planted: "\<not> bIsUnplanted (GroupsData ?s ! CurrentGroupIndex ?s)" by (simp add: ex_node_def)
  have far: "\<exists>i\<in>set (LegIndices (LegGroups ex_cfg ! CurrentGroupIndex ?s)).
               MinDistanceToUnplant ex_cfg
                 \<le> Dist (FootLocation (LegsData ?s ! i)) (FootTarget (LegsData ?s ! i))"
    by (simp add: ex_node_def ex_cfg_def ex_leg_def Dist_along_X)
  have prev: "\<not> bIsUnplanted (GroupsData ?s ! PreviousGroupIndex ex_cfg ?s)"
    by (simp add: PreviousGroupIndex_def ex_node_def ex_cfg_def)
  from unplant_transition_iff[OF oks, of ?h] planted far prev
  have 1: "bIsUnplanted (GroupsData (SetCurrentGroupUnplanted ?h ex_cfg ?s) ! CurrentGroupIndex ?s)"
    by blast
  have pre: "StepSequencePercent ex_cfg = 1 \<and> 1 < length (LegGroups ex_cfg) \<and>
             bIsUnplanted (GroupsData ?t ! 0) \<and> StepPercent (GroupsData ?t ! 0) < 1 \<and>
             \<not> bIsUnplanted (GroupsData ?t ! 1)"
    by (simp add: ex_cfg_def ex_node_def)
  from unplant_transition_iff[OF okt, of ?h] pre
  have 2: "\<not> bIsUnplanted (GroupsData (SetCurrentGroupUnplanted ?h ex_cfg ?t) ! 1)"
    by blast
  have inv: "pointer_inv ?u" by (simp add: pointer_inv_def ex_node_def)
  have plantedu: "\<not> bIsUnplanted (GroupsData ?u ! CurrentGroupIndex ?u)" by (simp add: ex_node_def)
  have faru: "\<exists>i\<in>set (LegIndices (LegGroups ex_cfg ! CurrentGroupIndex ?u)).
               MinDistanceToUnplant ex_cfg
                 \<le> Dist (FootLocation (LegsData ?u ! i)) (FootTarget (LegsData ?u ! i))"
    by (simp add: ex_node_def ex_cfg_def ex_leg_def Dist_along_X)
  have prevu: "\<not> bIsUnplanted (GroupsData ?u ! PreviousGroupIndex ex_cfg ?u)"
    by (simp add: PreviousGroupIndex_def ex_node_def ex_cfg_def)
  from unplant_transition_iff[OF oku, of ?h] plantedu faru prevu
  have 3: "bIsUnplanted (GroupsData (SetCurrentGroupUnplanted ?h ex_cfg ?u) ! CurrentGroupIndex ?u)"
    by blast
  show ?thesis using oks okt 1 2 inv 3 unfolding cur curu by simp
qed

lemma ex_on_indices_ok: "g < 2 \<Longrightarrow> indices_ok ex_cfg (ex_node_on c [a, b] g)"
  by (simp add: indices_ok_def ex_cfg_def ex_node_on_def ex_node_def ex_leg_def ex_leg_on_def)

theorem plant_transition_iff_witness:
  "indices_ok ex_cfg (ex_node_on 7 [\<lparr>bIsUnplanted = True, StepPercent = 1\<rparr>,
                                    \<lparr>bIsUnplanted = True, StepPercent = 19 / 20\<rparr>] 0) \<and>
   \<not> bIsUnplanted (GroupsData (SetGroupsPlanted (ex_host_comp (False, FHitResult_default) []) ex_cfg
       (ex_node_on 7 [\<lparr>bIsUnplanted = True, StepPercent = 1\<rparr>,
                      \<lparr>bIsUnplanted = True, StepPercent = 19 / 20\<rparr>] 0)) ! 0) \<and>
   bIsUnplanted (GroupsData (SetGroupsPlanted (ex_host_comp (False, FHitResult_default) []) ex_cfg
       (ex_node_on 7 [\<lparr>bIsUnplanted = True, StepPercent = 1\<rparr>,
                      \<lparr>bIsUnplanted = True, StepPercent = 19 / 20\<rparr>] 0)) ! 1) \<and>
   SupportComp (ex_leg_on 7) = None \<and>
   SupportComp (LegsData (SetGroupsPlanted (ex_host_comp (False, FHitResult_default) []) ex_cfg
       (ex_node_on 7 [\<lparr>bIsUnplanted = True, StepPercent = 1\<rparr>,
                      \<lparr>bIsUnplanted = True, StepPercent = 19 / 20\<rparr>] 0)) ! 0) = Some 7 \<and>
   SupportCompPreviousTransform
     (LegsData (SetGroupsPlanted (ex_host_comp (False, FHitResult_default) []) ex_cfg
       (ex_node_on 7 [\<lparr>bIsUnplanted = True, StepPercent = 1\<rparr>,
                      \<lparr>bIsUnplanted = True, StepPercent = 19 / 20\<rparr>] 0)) ! 0) = FVector 1 2 3 \<and>
   RelLocationToSupportComp
     (LegsData (SetGroupsPlanted (ex_host_comp (False, FHitResult_default) []) ex_cfg
       (ex_node_on 7 [\<lparr>bIsUnplanted = True, StepPercent = 1\<rparr>,
                      \<lparr>bIsUnplanted = True, StepPercent = 19 / 20\<rparr>] 0)) ! 0) = FVector 3 (- 2) (- 3) \<and>
   StepPercent (GroupsData (ComputeFeet (ex_host_comp (False, FHitResult_default) []) ex_cfg
       (ex_node_on 7 [\<lparr>bIsUnplanted = True, StepPercent = 1\<rparr>,
                      \<lparr>bIsUnplanted = True, StepPercent = 19 / 20\<rparr>] 0)) ! 1) = 1 \<and>
   StepPercent (GroupsData (ComputeFeet (ex_host_comp (False, FHitResult_default) []) ex_cfg
       ((ex_node_on 7 [\<lparr>bIsUnplanted = True, StepPercent = 1 / 4\<rparr>,
                       \<lparr>bIsUnplanted = True, StepPercent = 1 / 2\<rparr>] 0)
          \<lparr>CurrentStepDuration := 0\<rparr>)) ! 1) = 1"
proof -
  let ?h = "ex_host_comp (False, FHitResult_default) []"
  let ?s = "ex_node_on 7 [\<lparr>bIsUnplanted = True, StepPercent = 1\<rparr>,
                          \<lparr>bIsUnplanted = True, StepPercent = 19 / 20\<rparr>] 0"
  let ?z = "(ex_node_on 7 [\<lparr>bIsUnplanted = True, StepPercent = 1 / 4\<rparr>,
                           \<lparr>bIsUnplanted = True, StepPercent = 1 / 2\<rparr>] 0)
              \<lparr>CurrentStepDuration := 0\<rparr>"
  have ok: "indices_ok ex_cfg ?s" by (rule ex_on_indices_ok) simp
  have okz: "indices_ok ex_cfg ?z"
    using ex_on_indices_ok[of 0 7 "\<lparr>bIsUnplanted = True, StepPercent = 1 / 4\<rparr>"
        "\<lparr>bIsUnplanted = True, StepPercent = 1 / 2\<rparr>"]
    by (simp add: indices_ok_def)
  have g0: "(0::nat) < length (LegGroups ex_cfg)" and g1: "(1::nat) < length (LegGroups ex_cfg)"
    by (simp_all add: ex_cfg_def)
  have u0: "bIsUnplanted (GroupsData ?s ! 0)" "StepPercent (GroupsData ?s ! 0) = 1"
    and u1: "bIsUnplanted (GroupsData ?s ! 1)" "StepPercent (GroupsData ?s ! 1) \<noteq> 1"
    by (simp_all add: ex_node_on_def ex_node_def)
  have leg: "0 \<in> set (LegIndices (LegGroups ex_cfg ! 0))" by (simp add: ex_cfg_def)
  note T0 = plant_transition_iff[OF ok g0, of ?h]
  note T1 = plant_transition_iff[OF ok g1, of ?h]
  note Tz = plant_transition_iff[OF okz g1, of ?h]
  from T0 u0 have 1: "\<not> bIsUnplanted (GroupsData (SetGroupsPlanted ?h ex_cfg ?s) ! 0)" by blast
  from T1 u1 have 2: "bIsUnplanted (GroupsData (SetGroupsPlanted ?h ex_cfg ?s) ! 1)" by blast
  have l0: "LegsData ?s ! 0 = ex_leg_on 7" by (simp add: ex_node_on_def)
  have before: "SupportComp (ex_leg_on 7) = None" by (simp add: ex_leg_on_def ex_leg_def)
  from T0 u0 leg have "LegsData (SetGroupsPlanted ?h ex_cfg ?s) ! 0
        = (case HitComponent (LastHit (LegsData ?s ! 0)) of
             None \<Rightarrow> (LegsData ?s ! 0)\<lparr>SupportComp := None\<rparr>
           | Some c \<Rightarrow>
               if CompIsValid ?h c then
                 (LegsData ?s ! 0)
                   \<lparr>SupportComp := Some c,
                    SupportCompPreviousTransform := ComponentTransform ?h c,
                    RelLocationToSupportComp :=
                      InverseTransformLocation ?h (ComponentTransform ?h c)
                        (FootLocation (LegsData ?s ! 0))\<rparr>
               else (LegsData ?s ! 0)\<lparr>SupportComp := Some c\<rparr>)"
    by blast
  then have R: "LegsData (SetGroupsPlanted ?h ex_cfg ?s) ! 0
        = (ex_leg_on 7)\<lparr>SupportComp := Some 7, SupportCompPreviousTransform := FVector 1 2 3,
                         RelLocationToSupportComp := FVector 3 (- 2) (- 3)\<rparr>"
    unfolding l0
    by (simp add: ex_leg_on_def ex_hit_def ex_host_comp_def ex_host_def ex_leg_def minus_FVector_def)
  have 3: "SupportComp (LegsData (SetGroupsPlanted ?h ex_cfg ?s) ! 0) = Some 7"
    and 4: "SupportCompPreviousTransform (LegsData (SetGroupsPlanted ?h ex_cfg ?s) ! 0) = FVector 1 2 3"
    and 5: "RelLocationToSupportComp (LegsData (SetGroupsPlanted ?h ex_cfg ?s) ! 0) = FVector 3 (- 2) (- 3)"
    unfolding R by simp_all
  have pre: "\<not> bIsFalling ?s \<and> bIsUnplanted (GroupsData ?s ! 1) \<and> CurrentStepDuration ?s \<noteq> 0 \<and>
          1 \<le> StepPercent (GroupsData ?s ! 1) + WorldDeltaSeconds ?s / CurrentStepDuration ?s"
    by (simp add: ex_node_on_def ex_node_def)
  from T1 pre have 6: "StepPercent (GroupsData (ComputeFeet ?h ex_cfg ?s) ! 1) = 1" by blast
  have prez: "\<not> bIsFalling ?z \<and> bIsUnplanted (GroupsData ?z ! 1) \<and> CurrentStepDuration ?z = 0 \<and>
          0 \<le> WorldDeltaSeconds ?z"
    by (simp add: ex_node_on_def ex_node_def)
  from Tz prez have 7: "StepPercent (GroupsData (ComputeFeet ?h ex_cfg ?z) ! 1) = 1" by blast
  show ?thesis by (intro conjI) (fact ok 1 2 before 3 4 5 6 7)+
qed

subsection \<open>Feet targets\<close>

lemma probe_segment_cong:
  assumes "ForwardPercent s' = ForwardPercent s" "RightPercent s' = RightPercent s"
  shows "StartLocationWithoutZOffset h cfg s' i = StartLocationWithoutZOffset h cfg s i"
    and "StartLocation h cfg s' i = StartLocation h cfg s i"
    and "EndLocation h cfg s' i = EndLocation h cfg s i"
    and "LineHit h cfg s' i = LineHit h cfg s i"
    and "ZDistanceToLineHit h cfg s' i = ZDistanceToLineHit h cfg s i"
    and "bIsTooDistant h cfg s' i ld = bIsTooDistant h cfg s i ld"
    and "FootHoldHits h cfg s' i = FootHoldHits h cfg s i"
proof -
  show a: "StartLocationWithoutZOffset h cfg s' i = StartLocationWithoutZOffset h cfg s i"
    using assms by (simp add: StartLocationWithoutZOffset_def)
  show b: "StartLocation h cfg s' i = StartLocation h cfg s i"
    by (simp add: StartLocation_def a)
  show c: "EndLocation h cfg s' i = EndLocation h cfg s i"
    by (simp add: EndLocation_def a)
  show d: "LineHit h cfg s' i = LineHit h cfg s i"
    by (simp add: LineHit_def b c)
  show e: "ZDistanceToLineHit h cfg s' i = ZDistanceToLineHit h cfg s i"
    by (simp add: ZDistanceToLineHit_def a d)
  show "bIsTooDistant h cfg s' i ld = bIsTooDistant h cfg s i ld"
    by (simp add: bIsTooDistant_def e)
  show "FootHoldHits h cfg s' i = FootHoldHits h cfg s i"
    by (simp add: FootHoldHits_def b c)
qed

lemma TraceFoot_cong:
  assumes "ForwardPercent s' = ForwardPercent s" "RightPercent s' = RightPercent s"
  shows "TraceFoot h cfg s' i ld = TraceFoot h cfg s i ld"
  unfolding TraceFoot_def probe_segment_cong[OF assms] ..

lemma foot_target_leg_cong:
  "GroupsData s' = GroupsData s \<Longrightarrow> ForwardPercent s' = ForwardPercent s \<Longrightarrow>
   RightPercent s' = RightPercent s \<Longrightarrow> WorldDeltaSeconds s' = WorldDeltaSeconds s \<Longrightarrow>
   foot_target_leg h cfg s' i ld = foot_target_leg h cfg s i ld"
  by (simp add: foot_target_leg_def TraceFoot_cong[of s' s])

lemma SetFootTargetLocation_scalars [simp]:
  "ForwardPercent (SetFootTargetLocation h cfg s i) = ForwardPercent s"
  "RightPercent (SetFootTargetLocation h cfg s i) = RightPercent s"
  by (simp_all add: SetFootTargetLocation_def)

lemma SetFeetTargetLocations_prefix:
  "(let t = foldl (SetFootTargetLocation h cfg) s [0..<k] in
    GroupsData t = GroupsData s \<and> ForwardPercent t = ForwardPercent s \<and>
    RightPercent t = RightPercent s \<and> WorldDeltaSeconds t = WorldDeltaSeconds s \<and>
    length (LegsData t) = length (LegsData s) \<and>
    (\<forall>j<length (LegsData s). LegsData t ! j =
        (if j < k then foot_target_leg h cfg s j (LegsData s ! j) else LegsData s ! j)))"
proof (induction k)
  case 0
  then show ?case by simp
next
  case (Suc k)
  let ?t = "foldl (SetFootTargetLocation h cfg) s [0..<k]"
  from Suc have IH: "GroupsData ?t = GroupsData s" "ForwardPercent ?t = ForwardPercent s"
    "RightPercent ?t = RightPercent s" "WorldDeltaSeconds ?t = WorldDeltaSeconds s"
    "length (LegsData ?t) = length (LegsData s)"
    and N: "\<And>j. j < length (LegsData s) \<Longrightarrow> LegsData ?t ! j =
        (if j < k then foot_target_leg h cfg s j (LegsData s ! j) else LegsData s ! j)"
    by (simp_all add: Let_def)
  have c: "foot_target_leg h cfg ?t k ld = foot_target_leg h cfg s k ld" for ld
    by (rule foot_target_leg_cong) (simp_all add: IH)
  have "LegsData (SetFootTargetLocation h cfg ?t k) ! j =
        (if j < Suc k then foot_target_leg h cfg s j (LegsData s ! j) else LegsData s ! j)"
    if j: "j < length (LegsData s)" for j
  proof (cases "j = k")
    case True
    then show ?thesis using j IH N[OF j] by (simp add: SetFootTargetLocation_def c)
  next
    case False
    then show ?thesis using j IH N[OF j] by (auto simp: SetFootTargetLocation_def)
  qed
  then show ?case using IH by (simp add: Let_def)
qed

lemma SetFeetTargetLocations_nth:
  "j < length (LegsData s) \<Longrightarrow>
   LegsData (SetFeetTargetLocations h cfg s) ! j =
     (if j < length (Legs cfg) then foot_target_leg h cfg s j (LegsData s ! j) else LegsData s ! j)"
  using SetFeetTargetLocations_prefix[of h cfg s "length (Legs cfg)"]
  by (simp add: SetFeetTargetLocations_def Let_def)

lemma foot_target_leg_miss:
  "\<not> fst (TraceFoot h cfg s i ld) \<Longrightarrow>
   foot_target_leg h cfg s i ld =
     ld\<lparr>FootTarget := TransformLocation h (ActorTransform h) (TipBoneOriginalRelLocation ld),
        FootTargetRotation := RInterpTo h (FootTargetRotation ld) (FRotator 0 0 0)
                                (WorldDeltaSeconds s) (FeetTipBonesRotationInterpSpeed cfg),
        bEnableIK := False,
        LastHit := snd (TraceFoot h cfg s i ld)\<rparr>"
  by (cases "TraceFoot h cfg s i ld") (simp add: foot_target_leg_def)

lemma foot_target_leg_fields [simp]:
  "bEnableIK (foot_target_leg h cfg s i ld) = fst (TraceFoot h cfg s i ld)"
  "LastHit (foot_target_leg h cfg s i ld) = snd (TraceFoot h cfg s i ld)"
  "FootLocation (foot_target_leg h cfg s i ld) = FootLocation ld"
  "FootUnplantLocation (foot_target_leg h cfg s i ld) = FootUnplantLocation ld"
  "TipBoneOriginalRelLocation (foot_target_leg h cfg s i ld) = TipBoneOriginalRelLocation ld"
  "GroupIndex (foot_target_leg h cfg s i ld) = GroupIndex ld"
  "SupportCompDelta (foot_target_leg h cfg s i ld) = SupportCompDelta ld"
  by (simp_all add: foot_target_leg_def Let_def split: prod.splits)

lemma foot_target_leg_FootTarget:
  "FootTarget (foot_target_leg h cfg s i ld) =
     (if fst (TraceFoot h cfg s i ld) then
        if bIsUnplanted (GroupsData s ! GroupIndex ld) \<and>
           \<not> StepPercent (GroupsData s ! GroupIndex ld) < FixFeetTargetsAfterPercent cfg
        then FootTarget ld + SupportCompDelta ld
        else ImpactPoint (snd (TraceFoot h cfg s i ld)) + FVector 0 0 (Z (Offset (Legs cfg ! i)))
      else TransformLocation h (ActorTransform h) (TipBoneOriginalRelLocation ld))"
  by (simp add: foot_target_leg_def Let_def split: prod.splits)

text \<open>
  Claim C6. \<open>SetFeetTargetLocations\<close> rewrites the data of every leg, each from the state
  in which the loop started, and \<open>bEnableIK\<close> is the final \<open>bIsHit\<close> of that leg's
  probe. For a leg whose probe ends without a hit, \<open>bEnableIK\<close> is false and
  \<open>FootTarget\<close> is \<open>TipBoneOriginalRelLocation\<close> carried into world space by the actor
  transform.
\<close>

theorem probe_miss_resting:
  assumes i: "i < length (Legs cfg)" and len: "length (LegsData s) = length (Legs cfg)"
    and miss: "\<not> fst (TraceFoot h cfg s i (LegsData s ! i))"
  shows "\<not> bEnableIK (LegsData (SetFeetTargetLocations h cfg s) ! i) \<and>
         FootTarget (LegsData (SetFeetTargetLocations h cfg s) ! i)
           = TransformLocation h (ActorTransform h) (TipBoneOriginalRelLocation (LegsData s ! i)) \<and>
         LegsData (SetFeetTargetLocations h cfg s) ! i
           = foot_target_leg h cfg s i (LegsData s ! i) \<and>
         (\<forall>j<length (Legs cfg).
            LegsData (SetFeetTargetLocations h cfg s) ! j = foot_target_leg h cfg s j (LegsData s ! j) \<and>
            bEnableIK (LegsData (SetFeetTargetLocations h cfg s) ! j)
              = fst (TraceFoot h cfg s j (LegsData s ! j)))"
  using i len miss by (simp add: SetFeetTargetLocations_nth foot_target_leg_FootTarget)

text \<open>
  Claim C7, as amended. For a leg that is unplanted with a step percent at or past
  \<open>FixFeetTargetsAfterPercent\<close>: when the probe ends with a hit, \<open>FootTarget\<close> grows by
  \<open>SupportCompDelta\<close> and the impact point is not written; when the probe ends without a
  hit, \<open>FootTarget\<close> is overwritten with the resting position in world space.
\<close>

theorem frozen_target_on_hit:
  assumes i: "i < length (Legs cfg)" and len: "length (LegsData s) = length (Legs cfg)"
    and unplanted: "IsLegUnplanted s i"
    and frozen: "FixFeetTargetsAfterPercent cfg \<le> GetLegStepPercent s i"
  shows "(fst (TraceFoot h cfg s i (LegsData s ! i)) \<longrightarrow>
            FootTarget (LegsData (SetFootTargetLocation h cfg s i) ! i)
              = FootTarget (LegsData s ! i) + SupportCompDelta (LegsData s ! i)) \<and>
         (\<not> fst (TraceFoot h cfg s i (LegsData s ! i)) \<longrightarrow>
            FootTarget (LegsData (SetFootTargetLocation h cfg s i) ! i)
              = TransformLocation h (ActorTransform h) (TipBoneOriginalRelLocation (LegsData s ! i)))"
  using assms
  by (simp add: SetFootTargetLocation_def foot_target_leg_FootTarget IsLegUnplanted_def
      GetLegStepPercent_def not_less)

lemma FootHoldStep_cases:
  "FootHoldStep A U zd acc fh = acc \<or>
   (snd (FootHoldStep A U zd acc fh) = fh \<and> Size (A - ImpactPoint fh) < zd)"
  by (simp add: FootHoldStep_def Let_def)

lemma foldl_FootHoldStep_origin:
  "snd (foldl (FootHoldStep A U zd) acc hits) = snd acc \<or>
   (\<exists>fh\<in>set hits. snd (foldl (FootHoldStep A U zd) acc hits) = fh \<and> Size (A - ImpactPoint fh) < zd)"
proof (induction hits arbitrary: acc)
  case Nil
  then show ?case by simp
next
  case (Cons fh hits)
  from Cons.IH[of "FootHoldStep A U zd acc fh"] FootHoldStep_cases[of A U zd acc fh]
  show ?case by auto
qed

lemma FootHoldBestHit_origin:
  "FootHoldBestHit cfg A U zd hits = FHitResult_default \<or>
   (\<exists>fh\<in>set hits. FootHoldBestHit cfg A U zd hits = fh \<and> Size (A - ImpactPoint fh) < zd)"
  using foldl_FootHoldStep_origin[of A U zd "((TraceLength cfg + TraceZOffset cfg) * 2, FHitResult_default)" hits]
  by (simp add: FootHoldBestHit_def)

lemma FootHoldBestHit_blocking:
  "bBlockingHit (FootHoldBestHit cfg A U zd hits) \<Longrightarrow>
   \<exists>fh\<in>set hits. FootHoldBestHit cfg A U zd hits = fh \<and> bBlockingHit fh \<and> Size (A - ImpactPoint fh) < zd"
  using FootHoldBestHit_origin[of cfg A U zd hits]
  by (auto simp: FHitResult_default_def)

lemma TraceFoot_BASIC:
  "TraceFoot h (cfg\<lparr>SolverType := BASIC\<rparr>) s i ld = LineHit h cfg s i"
  by (simp add: TraceFoot_def LineHit_def StartLocation_def EndLocation_def
      StartLocationWithoutZOffset_def split: prod.splits)

lemma foot_target_leg_by_trace:
  assumes "TraceFoot h cfg' s i ld = TraceFoot h cfg s i ld"
    and "Legs cfg' = Legs cfg" "FixFeetTargetsAfterPercent cfg' = FixFeetTargetsAfterPercent cfg"
    and "FeetTipBonesRotationInterpSpeed cfg' = FeetTipBonesRotationInterpSpeed cfg"
  shows "foot_target_leg h cfg' s i ld = foot_target_leg h cfg s i ld"
  unfolding foot_target_leg_def assms ..

text \<open>
  Claim C5. In the advanced solver, when the line trace hits within
  \<open>Length * DistanceCheckMultiplier\<close>, or when the foothold search runs and ends with no
  blocking best hit (no candidates, or none accepted), the final \<open>bIsHit\<close> and \<open>Hit\<close> are
  those of the line trace and the leg's new data equal what the basic solver computes on
  the same segment; unless the target is frozen, that is the impact point plus the
  vertical offset of the leg on a hit and the resting position on a miss.
\<close>

theorem advanced_keeps_line_result:
  assumes adv: "SolverType cfg = ADVANCED"
    and keep: "(fst (LineHit h cfg s i) \<and> \<not> bIsTooDistant h cfg s i ld) \<or>
               ((\<not> fst (LineHit h cfg s i) \<or> bIsTooDistant h cfg s i ld) \<and>
                \<not> bBlockingHit (FootHoldBestHit cfg (StartLocationWithoutZOffset h cfg s i)
                     (ActorUpVector h) (ZDistanceToLineHit h cfg s i) (FootHoldHits h cfg s i)))"
  shows "foot_target_leg h cfg s i ld = foot_target_leg h (cfg\<lparr>SolverType := BASIC\<rparr>) s i ld \<and>
         TraceFoot h cfg s i ld = LineHit h cfg s i \<and>
         (\<not> (bIsUnplanted (GroupsData s ! GroupIndex ld) \<and>
              FixFeetTargetsAfterPercent cfg \<le> StepPercent (GroupsData s ! GroupIndex ld)) \<longrightarrow>
            FootTarget (foot_target_leg h cfg s i ld) =
              (if fst (LineHit h cfg s i)
               then ImpactPoint (snd (LineHit h cfg s i)) + FVector 0 0 (Z (Offset (Legs cfg ! i)))
               else TransformLocation h (ActorTransform h) (TipBoneOriginalRelLocation ld)))"
proof -
  have T: "TraceFoot h cfg s i ld = LineHit h cfg s i"
    using adv keep by (cases "LineHit h cfg s i") (auto simp: TraceFoot_def Let_def)
  have "TraceFoot h (cfg\<lparr>SolverType := BASIC\<rparr>) s i ld = TraceFoot h cfg s i ld"
    by (simp add: T TraceFoot_BASIC)
  then have E: "foot_target_leg h (cfg\<lparr>SolverType := BASIC\<rparr>) s i ld = foot_target_leg h cfg s i ld"
    by (rule foot_target_leg_by_trace) simp_all
  show ?thesis using E T by (auto simp: foot_target_leg_FootTarget not_less)
qed

text \<open>
  Claim C10. In the advanced solver, after a line trace that misses and leaves the zero
  vector in \<open>Hit.ImpactPoint\<close>, a foothold is used only if it is strictly closer to the
  anchor than the origin of the world is. When every candidate of the sphere trace is at
  least that far, the leg takes the path of a miss: no IK and the resting position.
\<close>

theorem advanced_miss_filters_by_origin:
  assumes adv: "SolverType cfg = ADVANCED"
    and miss: "\<not> fst (LineHit h cfg s i)"
    and dflt: "ImpactPoint (snd (LineHit h cfg s i)) = 0"
  shows "(fst (TraceFoot h cfg s i ld) \<longrightarrow>
            (\<exists>fh\<in>set (FootHoldHits h cfg s i).
               snd (TraceFoot h cfg s i ld) = fh \<and> bBlockingHit fh \<and>
               Size (StartLocationWithoutZOffset h cfg s i - ImpactPoint fh)
                 < Size (StartLocationWithoutZOffset h cfg s i - 0))) \<and>
         ((\<forall>fh\<in>set (FootHoldHits h cfg s i).
              Size (StartLocationWithoutZOffset h cfg s i - 0)
                \<le> Size (StartLocationWithoutZOffset h cfg s i - ImpactPoint fh)) \<longrightarrow>
            \<not> fst (TraceFoot h cfg s i ld) \<and>
            \<not> bEnableIK (foot_target_leg h cfg s i ld) \<and>
            FootTarget (foot_target_leg h cfg s i ld)
              = TransformLocation h (ActorTransform h) (TipBoneOriginalRelLocation ld))"
proof -
  let ?A = "StartLocationWithoutZOffset h cfg s i"
  let ?B = "FootHoldBestHit cfg ?A (ActorUpVector h) (ZDistanceToLineHit h cfg s i) (FootHoldHits h cfg s i)"
  have zd: "ZDistanceToLineHit h cfg s i = Size (?A - 0)"
    by (simp add: ZDistanceToLineHit_def dflt)
  have T: "TraceFoot h cfg s i ld =
           (if bBlockingHit ?B then (True, ?B) else LineHit h cfg s i)"
    using adv miss FootHoldBestHit_blocking[of cfg ?A "ActorUpVector h" "ZDistanceToLineHit h cfg s i" "FootHoldHits h cfg s i"]
    by (cases "LineHit h cfg s i") (auto simp: TraceFoot_def Let_def)
  have 1: "fst (TraceFoot h cfg s i ld) \<longrightarrow>
            (\<exists>fh\<in>set (FootHoldHits h cfg s i).
               snd (TraceFoot h cfg s i ld) = fh \<and> bBlockingHit fh \<and>
               Size (?A - ImpactPoint fh) < Size (?A - 0))"
  proof
    assume "fst (TraceFoot h cfg s i ld)"
    then have b: "bBlockingHit ?B" using miss by (simp add: T split: if_splits)
    from FootHoldBestHit_blocking[OF b] obtain fh where fh: "fh \<in> set (FootHoldHits h cfg s i)"
      "?B = fh" "bBlockingHit fh" "Size (?A - ImpactPoint fh) < ZDistanceToLineHit h cfg s i"
      by blast
    have c: "Size (?A - ImpactPoint fh) < Size (?A - 0)" using fh(4) unfolding zd .
    have "snd (TraceFoot h cfg s i ld) = fh" using b fh(2) by (simp add: T)
    with fh(1,3) c show "\<exists>fh\<in>set (FootHoldHits h cfg s i).
               snd (TraceFoot h cfg s i ld) = fh \<and> bBlockingHit fh \<and>
               Size (?A - ImpactPoint fh) < Size (?A - 0)"
      by blast
  qed
  have 2: "(\<forall>fh\<in>set (FootHoldHits h cfg s i). Size (?A - 0) \<le> Size (?A - ImpactPoint fh)) \<longrightarrow>
            \<not> fst (TraceFoot h cfg s i ld) \<and>
            \<not> bEnableIK (foot_target_leg h cfg s i ld) \<and>
            FootTarget (foot_target_leg h cfg s i ld)
              = TransformLocation h (ActorTransform h) (TipBoneOriginalRelLocation ld)"
  proof
    assume all: "\<forall>fh\<in>set (FootHoldHits h cfg s i). Size (?A - 0) \<le> Size (?A - ImpactPoint fh)"
    have "\<not> fst (TraceFoot h cfg s i ld)"
    proof
      assume "fst (TraceFoot h cfg s i ld)"
      with 1 obtain fh where "fh \<in> set (FootHoldHits h cfg s i)"
        "Size (?A - ImpactPoint fh) < Size (?A - 0)" by blast
      with all show False by fastforce
    qed
    then show "\<not> fst (TraceFoot h cfg s i ld) \<and>
            \<not> bEnableIK (foot_target_leg h cfg s i ld) \<and>
            FootTarget (foot_target_leg h cfg s i ld)
              = TransformLocation h (ActorTransform h) (TipBoneOriginalRelLocation ld)"
      by (simp add: foot_target_leg_FootTarget)
  qed
  show ?thesis using 1 2 by blast
qed

lemma Size_along_X: "Size (FVector x 0 0) = \<bar>x\<bar>"
  by (simp add: Size_def)

lemma Size_along_Z: "Size (FVector 0 0 z) = \<bar>z\<bar>"
  by (simp add: Size_def)

lemma ex_LineHit [simp]: "LineHit (ex_host l sp) cfg s i = l"
  by (simp add: LineHit_def ex_host_def)

lemma ex_FootHoldHits [simp]: "FootHoldHits (ex_host l sp) cfg s i = sp"
  by (simp add: FootHoldHits_def ex_host_def)

lemma ex_anchor:
  "StartLocationWithoutZOffset (ex_host l sp) ex_cfg (ex_node gs c) 0 = FVector 0 0 0"
  by (simp add: StartLocationWithoutZOffset_def ex_host_def ex_cfg_def ex_node_def vscale_def
      plus_FVector_def)

lemma ex_leg0 [simp]: "LegsData (ex_node gs c) ! 0 = ex_leg 0 (FVector 10 0 0) (FVector 0 0 0)"
  by (simp add: ex_node_def)

lemma ex_length_LegsData [simp]: "length (LegsData (ex_node gs c)) = 2"
  by (simp add: ex_node_def)

lemma ex_TraceFoot_no_footholds:
  "TraceFoot (ex_host l []) ex_cfg s i ld = l"
  by (cases l) (simp add: TraceFoot_def ex_cfg_def)

lemma ex_lengths:
  "(0::nat) < length (Legs ex_cfg)" "length (LegsData (ex_node gs c)) = length (Legs ex_cfg)"
  by (simp_all add: ex_cfg_def ex_node_def)

theorem probe_miss_resting_witness:
  "\<not> fst (TraceFoot (ex_host (False, FHitResult_default) []) ex_cfg
            (ex_node [\<lparr>bIsUnplanted = True, StepPercent = 9 / 10\<rparr>,
                      \<lparr>bIsUnplanted = False, StepPercent = 0\<rparr>] 1) 0
            (ex_leg 0 (FVector 10 0 0) (FVector 0 0 0))) \<and>
   \<not> bEnableIK (LegsData (SetFeetTargetLocations (ex_host (False, FHitResult_default) []) ex_cfg
            (ex_node [\<lparr>bIsUnplanted = True, StepPercent = 9 / 10\<rparr>,
                      \<lparr>bIsUnplanted = False, StepPercent = 0\<rparr>] 1)) ! 0) \<and>
   FootTarget (LegsData (SetFeetTargetLocations (ex_host (False, FHitResult_default) []) ex_cfg
            (ex_node [\<lparr>bIsUnplanted = True, StepPercent = 9 / 10\<rparr>,
                      \<lparr>bIsUnplanted = False, StepPercent = 0\<rparr>] 1)) ! 0) = FVector 0 0 (- 20)"
proof -
  let ?h = "ex_host (False, FHitResult_default) [] :: FVector host"
  let ?s = "ex_node [\<lparr>bIsUnplanted = True, StepPercent = 9 / 10\<rparr>,
                     \<lparr>bIsUnplanted = False, StepPercent = 0\<rparr>] 1"
  have miss: "\<not> fst (TraceFoot ?h ex_cfg ?s 0 (LegsData ?s ! 0))"
    by (simp add: ex_TraceFoot_no_footholds)
  have rest: "TransformLocation ?h (ActorTransform ?h) (TipBoneOriginalRelLocation (LegsData ?s ! 0))
              = FVector 0 0 (- 20)"
    by (simp add: ex_host_def ex_leg_def plus_FVector_def)
  note T = probe_miss_resting[OF ex_lengths(1) ex_lengths(2) miss]
  have a: "\<not> bEnableIK (LegsData (SetFeetTargetLocations ?h ex_cfg ?s) ! 0)"
    using T by blast
  have "FootTarget (LegsData (SetFeetTargetLocations ?h ex_cfg ?s) ! 0)
        = TransformLocation ?h (ActorTransform ?h) (TipBoneOriginalRelLocation (LegsData ?s ! 0))"
    using T by blast
  then have b: "FootTarget (LegsData (SetFeetTargetLocations ?h ex_cfg ?s) ! 0) = FVector 0 0 (- 20)"
    unfolding rest .
  have c: "\<not> fst (TraceFoot ?h ex_cfg ?s 0 (ex_leg 0 (FVector 10 0 0) (FVector 0 0 0)))"
    by (simp add: ex_TraceFoot_no_footholds)
  show ?thesis by (intro conjI) (fact a b c)+
qed

text \<open>
  Claim C7 as stated fails on a miss: leg 0 of the rig is unplanted at 0.9, past the
  freeze threshold 0.5, its probe misses, and its target leaves \<open>(10, 0, 0)\<close> for the
  resting position although its support delta is zero.
\<close>

theorem frozen_target_counterexample:
  "IsLegUnplanted (ex_node [\<lparr>bIsUnplanted = True, StepPercent = 9 / 10\<rparr>,
                            \<lparr>bIsUnplanted = False, StepPercent = 0\<rparr>] 1) 0 \<and>
   FixFeetTargetsAfterPercent ex_cfg
     \<le> GetLegStepPercent (ex_node [\<lparr>bIsUnplanted = True, StepPercent = 9 / 10\<rparr>,
                                   \<lparr>bIsUnplanted = False, StepPercent = 0\<rparr>] 1) 0 \<and>
   FootTarget (LegsData (SetFootTargetLocation (ex_host (False, FHitResult_default) []) ex_cfg
       (ex_node [\<lparr>bIsUnplanted = True, StepPercent = 9 / 10\<rparr>,
                 \<lparr>bIsUnplanted = False, StepPercent = 0\<rparr>] 1) 0) ! 0)
     \<noteq> FootTarget (LegsData (ex_node [\<lparr>bIsUnplanted = True, StepPercent = 9 / 10\<rparr>,
                                       \<lparr>bIsUnplanted = False, StepPercent = 0\<rparr>] 1) ! 0)
       + SupportCompDelta (LegsData (ex_node [\<lparr>bIsUnplanted = True, StepPercent = 9 / 10\<rparr>,
                                             \<lparr>bIsUnplanted = False, StepPercent = 0\<rparr>] 1) ! 0)"
proof -
  let ?h = "ex_host (False, FHitResult_default) [] :: FVector host"
  let ?s = "ex_node [\<lparr>bIsUnplanted = True, StepPercent = 9 / 10\<rparr>,
                     \<lparr>bIsUnplanted = False, StepPercent = 0\<rparr>] 1"
  have u: "IsLegUnplanted ?s 0" and f: "FixFeetTargetsAfterPercent ex_cfg \<le> GetLegStepPercent ?s 0"
    by (simp_all add: IsLegUnplanted_def GetLegStepPercent_def ex_leg_def ex_cfg_def)
       (simp_all add: ex_node_def)
  have "FootTarget (LegsData (SetFootTargetLocation ?h ex_cfg ?s 0) ! 0)
        = TransformLocation ?h (ActorTransform ?h) (TipBoneOriginalRelLocation (LegsData ?s ! 0))"
    by (simp add: SetFootTargetLocation_def foot_target_leg_FootTarget ex_TraceFoot_no_footholds)
  also have "\<dots> = FVector 0 0 (- 20)"
    by (simp add: ex_host_def ex_leg_def plus_FVector_def)
  finally have "FootTarget (LegsData (SetFootTargetLocation ?h ex_cfg ?s 0) ! 0) = FVector 0 0 (- 20)" .
  moreover have "FootTarget (LegsData ?s ! 0) + SupportCompDelta (LegsData ?s ! 0) = FVector 10 0 0"
    by (simp add: ex_leg_def plus_FVector_def zero_FVector_def)
  ultimately show ?thesis using u f by simp
qed

theorem frozen_target_on_hit_witness:
  "IsLegUnplanted (ex_node [\<lparr>bIsUnplanted = True, StepPercent = 9 / 10\<rparr>,
                            \<lparr>bIsUnplanted = False, StepPercent = 0\<rparr>] 1) 0 \<and>
   FixFeetTargetsAfterPercent ex_cfg
     \<le> GetLegStepPercent (ex_node [\<lparr>bIsUnplanted = True, StepPercent = 9 / 10\<rparr>,
                                   \<lparr>bIsUnplanted = False, StepPercent = 0\<rparr>] 1) 0 \<and>
   FootTarget (LegsData (SetFootTargetLocation (ex_host (True, ex_hit (FVector 3 0 0)) []) ex_cfg
       (ex_node [\<lparr>bIsUnplanted = True, StepPercent = 9 / 10\<rparr>,
                 \<lparr>bIsUnplanted = False, StepPercent = 0\<rparr>] 1) 0) ! 0) = FVector 10 0 0 \<and>
   FootTarget (LegsData (SetFootTargetLocation (ex_host (False, FHitResult_default) []) ex_cfg
       (ex_node [\<lparr>bIsUnplanted = True, StepPercent = 9 / 10\<rparr>,
                 \<lparr>bIsUnplanted = False, StepPercent = 0\<rparr>] 1) 0) ! 0) = FVector 0 0 (- 20)"
proof -
  let ?hit = "ex_host (True, ex_hit (FVector 3 0 0)) [] :: FVector host"
  let ?miss = "ex_host (False, FHitResult_default) [] :: FVector host"
  let ?s = "ex_node [\<lparr>bIsUnplanted = True, StepPercent = 9 / 10\<rparr>,
                     \<lparr>bIsUnplanted = False, StepPercent = 0\<rparr>] 1"
  have u: "IsLegUnplanted ?s 0" and f: "FixFeetTargetsAfterPercent ex_cfg \<le> GetLegStepPercent ?s 0"
    by (simp_all add: IsLegUnplanted_def GetLegStepPercent_def ex_leg_def ex_cfg_def)
       (simp_all add: ex_node_def)
  have hit: "fst (TraceFoot ?hit ex_cfg ?s 0 (LegsData ?s ! 0))"
    and miss: "\<not> fst (TraceFoot ?miss ex_cfg ?s 0 (LegsData ?s ! 0))"
    by (simp_all add: ex_TraceFoot_no_footholds)
  have old: "FootTarget (LegsData ?s ! 0) + SupportCompDelta (LegsData ?s ! 0) = FVector 10 0 0"
    by (simp add: ex_leg_def plus_FVector_def zero_FVector_def)
  have rest: "TransformLocation ?miss (ActorTransform ?miss) (TipBoneOriginalRelLocation (LegsData ?s ! 0))
              = FVector 0 0 (- 20)"
    by (simp add: ex_host_def ex_leg_def plus_FVector_def)
  from frozen_target_on_hit[OF ex_lengths(1) ex_lengths(2) u f, of ?hit] hit old
  have 1: "FootTarget (LegsData (SetFootTargetLocation ?hit ex_cfg ?s 0) ! 0) = FVector 10 0 0"
    by simp
  from frozen_target_on_hit[OF ex_lengths(1) ex_lengths(2) u f, of ?miss] miss rest
  have 2: "FootTarget (LegsData (SetFootTargetLocation ?miss ex_cfg ?s 0) ! 0) = FVector 0 0 (- 20)"
    by simp
  show ?thesis using u f 1 2 by simp
qed

lemma ex_host_at_probe [simp]:
  "LineHit (ex_host_at p l sp) cfg s i = l"
  "FootHoldHits (ex_host_at p l sp) cfg s i = sp"
  by (simp_all add: LineHit_def FootHoldHits_def ex_host_at_def ex_host_def)

lemma ex_host_at_anchor:
  "StartLocationWithoutZOffset (ex_host_at p l sp) ex_cfg (ex_node gs c) 0 = p"
  by (cases p)
     (simp add: StartLocationWithoutZOffset_def ex_host_at_def ex_host_def ex_cfg_def ex_node_def
       vscale_def plus_FVector_def)

lemma ex_ZDistance:
  "ZDistanceToLineHit (ex_host (b, ex_hit (FVector x 0 0)) sp) ex_cfg (ex_node gs c) 0 = \<bar>x\<bar>"
  by (simp add: ZDistanceToLineHit_def ex_anchor ex_hit_def minus_FVector_def Size_along_X)

theorem advanced_keeps_line_result_witness:
  "fst (LineHit (ex_host (True, ex_hit (FVector 3 0 0)) [ex_hit (FVector 1 0 0)]) ex_cfg
          (ex_node [\<lparr>bIsUnplanted = False, StepPercent = 0\<rparr>,
                    \<lparr>bIsUnplanted = False, StepPercent = 0\<rparr>] 0) 0) \<and>
   \<not> bIsTooDistant (ex_host (True, ex_hit (FVector 3 0 0)) [ex_hit (FVector 1 0 0)]) ex_cfg
          (ex_node [\<lparr>bIsUnplanted = False, StepPercent = 0\<rparr>,
                    \<lparr>bIsUnplanted = False, StepPercent = 0\<rparr>] 0) 0
          (ex_leg 0 (FVector 10 0 0) (FVector 0 0 0)) \<and>
   FootTarget (foot_target_leg (ex_host (True, ex_hit (FVector 3 0 0)) [ex_hit (FVector 1 0 0)]) ex_cfg
          (ex_node [\<lparr>bIsUnplanted = False, StepPercent = 0\<rparr>,
                    \<lparr>bIsUnplanted = False, StepPercent = 0\<rparr>] 0) 0
          (ex_leg 0 (FVector 10 0 0) (FVector 0 0 0))) = FVector 3 0 0 \<and>
   bIsTooDistant (ex_host (True, ex_hit (FVector 40 0 0)) [ex_hit (FVector 50 0 0)]) ex_cfg
          (ex_node [\<lparr>bIsUnplanted = False, StepPercent = 0\<rparr>,
                    \<lparr>bIsUnplanted = False, StepPercent = 0\<rparr>] 0) 0
          (ex_leg 0 (FVector 10 0 0) (FVector 0 0 0)) \<and>
   FootTarget (foot_target_leg (ex_host (True, ex_hit (FVector 40 0 0)) [ex_hit (FVector 50 0 0)]) ex_cfg
          (ex_node [\<lparr>bIsUnplanted = False, StepPercent = 0\<rparr>,
                    \<lparr>bIsUnplanted = False, StepPercent = 0\<rparr>] 0) 0
          (ex_leg 0 (FVector 10 0 0) (FVector 0 0 0))) = FVector 40 0 0"
proof -
  let ?near = "ex_host (True, ex_hit (FVector 3 0 0)) [ex_hit (FVector 1 0 0)] :: FVector host"
  let ?far = "ex_host (True, ex_hit (FVector 40 0 0)) [ex_hit (FVector 50 0 0)] :: FVector host"
  let ?s = "ex_node [\<lparr>bIsUnplanted = False, StepPercent = 0\<rparr>,
                     \<lparr>bIsUnplanted = False, StepPercent = 0\<rparr>] 0"
  let ?ld = "ex_leg 0 (FVector 10 0 0) (FVector 0 0 0)"
  have adv: "SolverType ex_cfg = ADVANCED" by (simp add: ex_cfg_def)
  have planted: "\<not> (bIsUnplanted (GroupsData ?s ! GroupIndex ?ld) \<and>
                    FixFeetTargetsAfterPercent ex_cfg \<le> StepPercent (GroupsData ?s ! GroupIndex ?ld))"
    by (simp add: ex_node_def ex_leg_def)
  have off: "FVector 0 0 (Z (Offset (Legs ex_cfg ! 0))) = 0"
    by (simp add: ex_cfg_def zero_FVector_def)
  have n1: "fst (LineHit ?near ex_cfg ?s 0)" by simp
  have n2: "\<not> bIsTooDistant ?near ex_cfg ?s 0 ?ld"
    by (simp add: bIsTooDistant_def ex_ZDistance) (simp add: ex_leg_def ex_cfg_def)
  from advanced_keeps_line_result[OF adv, of ?near ?s 0 ?ld] n1 n2 planted
  have "FootTarget (foot_target_leg ?near ex_cfg ?s 0 ?ld) =
        (if fst (LineHit ?near ex_cfg ?s 0)
         then ImpactPoint (snd (LineHit ?near ex_cfg ?s 0)) + FVector 0 0 (Z (Offset (Legs ex_cfg ! 0)))
         else TransformLocation ?near (ActorTransform ?near) (TipBoneOriginalRelLocation ?ld))"
    by blast
  then have n3: "FootTarget (foot_target_leg ?near ex_cfg ?s 0 ?ld) = FVector 3 0 0"
    by (simp add: off ex_hit_def)
  have f1: "bIsTooDistant ?far ex_cfg ?s 0 ?ld"
    by (simp add: bIsTooDistant_def ex_ZDistance) (simp add: ex_leg_def ex_cfg_def)
  have f2: "\<not> bBlockingHit (FootHoldBestHit ex_cfg (StartLocationWithoutZOffset ?far ex_cfg ?s 0)
              (ActorUpVector ?far) (ZDistanceToLineHit ?far ex_cfg ?s 0) (FootHoldHits ?far ex_cfg ?s 0))"
    unfolding ex_ZDistance ex_anchor ex_FootHoldHits
    by (simp add: FootHoldBestHit_def FootHoldStep_def ex_hit_def
        minus_FVector_def Size_along_X FHitResult_default_def)
  from advanced_keeps_line_result[OF adv, of ?far ?s 0 ?ld] f1 f2 planted
  have "FootTarget (foot_target_leg ?far ex_cfg ?s 0 ?ld) =
        (if fst (LineHit ?far ex_cfg ?s 0)
         then ImpactPoint (snd (LineHit ?far ex_cfg ?s 0)) + FVector 0 0 (Z (Offset (Legs ex_cfg ! 0)))
         else TransformLocation ?far (ActorTransform ?far) (TipBoneOriginalRelLocation ?ld))"
    by blast
  then have f3: "FootTarget (foot_target_leg ?far ex_cfg ?s 0 ?ld) = FVector 40 0 0"
    by (simp add: off ex_hit_def)
  show ?thesis by (intro conjI) (fact n1 n2 n3 f1 f3)+
qed

theorem advanced_miss_filters_by_origin_witness:
  "\<not> fst (LineHit (ex_host_at (FVector 0 0 100) (False, FHitResult_default) [ex_hit (FVector 0 0 (- 5))])
            ex_cfg (ex_node [\<lparr>bIsUnplanted = False, StepPercent = 0\<rparr>,
                             \<lparr>bIsUnplanted = False, StepPercent = 0\<rparr>] 0) 0) \<and>
   FootHoldHits (ex_host_at (FVector 0 0 100) (False, FHitResult_default) [ex_hit (FVector 0 0 (- 5))])
            ex_cfg (ex_node [\<lparr>bIsUnplanted = False, StepPercent = 0\<rparr>,
                             \<lparr>bIsUnplanted = False, StepPercent = 0\<rparr>] 0) 0
     = [ex_hit (FVector 0 0 (- 5))] \<and>
   bBlockingHit (ex_hit (FVector 0 0 (- 5))) \<and>
   \<not> bEnableIK (foot_target_leg
        (ex_host_at (FVector 0 0 100) (False, FHitResult_default) [ex_hit (FVector 0 0 (- 5))])
        ex_cfg (ex_node [\<lparr>bIsUnplanted = False, StepPercent = 0\<rparr>,
                         \<lparr>bIsUnplanted = False, StepPercent = 0\<rparr>] 0) 0
        (ex_leg 0 (FVector 10 0 0) (FVector 0 0 0))) \<and>
   FootTarget (foot_target_leg
        (ex_host_at (FVector 0 0 100) (False, FHitResult_default) [ex_hit (FVector 0 0 (- 5))])
        ex_cfg (ex_node [\<lparr>bIsUnplanted = False, StepPercent = 0\<rparr>,
                         \<lparr>bIsUnplanted = False, StepPercent = 0\<rparr>] 0) 0
        (ex_leg 0 (FVector 10 0 0) (FVector 0 0 0))) = FVector 0 0 (- 20)"
proof -
  let ?h = "ex_host_at (FVector 0 0 100) (False, FHitResult_default) [ex_hit (FVector 0 0 (- 5))]"
  let ?s = "ex_node [\<lparr>bIsUnplanted = False, StepPercent = 0\<rparr>,
                     \<lparr>bIsUnplanted = False, StepPercent = 0\<rparr>] 0"
  let ?ld = "ex_leg 0 (FVector 10 0 0) (FVector 0 0 0)"
  have adv: "SolverType ex_cfg = ADVANCED" by (simp add: ex_cfg_def)
  have miss: "\<not> fst (LineHit ?h ex_cfg ?s 0)" by simp
  have dflt: "ImpactPoint (snd (LineHit ?h ex_cfg ?s 0)) = 0" by (simp add: FHitResult_default_def)
  have hits: "FootHoldHits ?h ex_cfg ?s 0 = [ex_hit (FVector 0 0 (- 5))]" by simp
  have blocking: "bBlockingHit (ex_hit (FVector 0 0 (- 5)))" by (simp add: ex_hit_def)
  have all: "\<forall>fh\<in>set (FootHoldHits ?h ex_cfg ?s 0).
               Size (StartLocationWithoutZOffset ?h ex_cfg ?s 0 - 0)
                 \<le> Size (StartLocationWithoutZOffset ?h ex_cfg ?s 0 - ImpactPoint fh)"
    by (simp add: ex_host_at_anchor ex_hit_def minus_FVector_def zero_FVector_def Size_along_Z)
  have rest: "TransformLocation ?h (ActorTransform ?h) (TipBoneOriginalRelLocation ?ld) = FVector 0 0 (- 20)"
    by (simp add: ex_host_at_def ex_host_def ex_leg_def plus_FVector_def)
  from advanced_miss_filters_by_origin[OF adv miss dflt, of ?ld] all
  have r: "\<not> bEnableIK (foot_target_leg ?h ex_cfg ?s 0 ?ld) \<and>
        FootTarget (foot_target_leg ?h ex_cfg ?s 0 ?ld)
          = TransformLocation ?h (ActorTransform ?h) (TipBoneOriginalRelLocation ?ld)"
    by blast
  then have r1: "\<not> bEnableIK (foot_target_leg ?h ex_cfg ?s 0 ?ld)"
    and r2: "FootTarget (foot_target_leg ?h ex_cfg ?s 0 ?ld) = FVector 0 0 (- 20)"
    unfolding rest by blast+
  show ?thesis by (intro conjI) (fact miss hits blocking r1 r2)+
qed

subsection \<open>Ticks of the rig\<close>

text \<open>With a yaw of 10 degrees in the tick and no velocity the step length is zero, and
  so is the step duration.\<close>

lemma ex_turning_duration:
  "CurrentStepDuration (UpdatePawnVariables ((ex_host l sp)\<lparr>ActorYawDelta := 10\<rparr>) ex_cfg (ex_node gs c)) = 0"
  by (simp add: UpdatePawnVariables_def UpdateAcceleration_def UpdateStepDuration_def
      UpdateStepLength_def UpdateRotation_def UpdatePercents_def UpdateSpeed_def Let_def
      ex_host_def ex_cfg_def ex_node_def SPEED_THRESHOLD_MIN_def KeptVelocity_def Normalize_def
      DotProduct_def DegAcos_def MapRangeClamped_def Clamp_def GetReductionSlopeMultiplier_def
      zero_FVector_def)

lemma ex_before_gait_leg0:
  "FootLocation (LegsData (before_gait (ex_host (True, ex_hit (FVector 10 0 0)) []) ex_cfg
      (ex_node [\<lparr>bIsUnplanted = False, StepPercent = a\<rparr>, gb] c)) ! 0) = FVector 0 0 0"
  "FootTarget (LegsData (before_gait (ex_host (True, ex_hit (FVector 10 0 0)) []) ex_cfg
      (ex_node [\<lparr>bIsUnplanted = False, StepPercent = a\<rparr>, gb] c)) ! 0) = FVector 10 0 0"
proof -
  let ?h = "ex_host (True, ex_hit (FVector 10 0 0)) [] :: FVector host"
  let ?s = "ex_node [\<lparr>bIsUnplanted = False, StepPercent = a\<rparr>, gb] c"
  let ?s2 = "SetSupportCompDeltas ?h ex_cfg (UpdatePawnVariables ?h ex_cfg ?s)"
  have l: "(0::nat) < length (LegsData ?s2)" by simp
  have ld: "LegsData ?s2 ! 0 = support_delta_leg ?h (ex_leg 0 (FVector 10 0 0) (FVector 0 0 0))"
    using ex_lengths(1) by (simp add: SetSupportCompDeltas_def for_legs_upt_nth)
  have gi: "GroupIndex (LegsData ?s2 ! 0) = 0" "FootLocation (LegsData ?s2 ! 0) = FVector 0 0 0"
    unfolding ld by (simp_all add: support_delta_leg_def IsValid_def ex_leg_def)
  have gd: "GroupsData ?s2 ! 0 = \<lparr>bIsUnplanted = False, StepPercent = a\<rparr>"
    by (simp add: ex_node_def)
  have nth: "LegsData (before_gait ?h ex_cfg ?s) ! 0 = foot_target_leg ?h ex_cfg ?s2 0 (LegsData ?s2 ! 0)"
    unfolding before_gait_def using SetFeetTargetLocations_nth[OF l, of ?h ex_cfg] ex_lengths(1)
    by simp
  show "FootLocation (LegsData (before_gait ?h ex_cfg ?s) ! 0) = FVector 0 0 0"
    unfolding nth by (simp add: gi)
  show "FootTarget (LegsData (before_gait ?h ex_cfg ?s) ! 0) = FVector 10 0 0"
    unfolding nth foot_target_leg_FootTarget ex_TraceFoot_no_footholds gi gd
    by (simp add: ex_hit_def ex_cfg_def plus_FVector_def)
qed

theorem step_percent_tick_witness:
  "indices_ok ex_cfg (ex_node [\<lparr>bIsUnplanted = True, StepPercent = 1 / 2\<rparr>,
                               \<lparr>bIsUnplanted = False, StepPercent = 0\<rparr>] 1) \<and>
   StepPercent (GroupsData
     (Evaluate_Computations (ex_host (True, ex_hit (FVector 10 0 0)) []) ex_cfg
        (ex_node [\<lparr>bIsUnplanted = True, StepPercent = 1 / 2\<rparr>,
                  \<lparr>bIsUnplanted = False, StepPercent = 0\<rparr>] 1)) ! 0) = 3 / 5 \<and>
   CurrentStepDuration
     (UpdatePawnVariables ((ex_host (True, ex_hit (FVector 10 0 0)) [])\<lparr>ActorYawDelta := 10\<rparr>) ex_cfg
        (ex_node [\<lparr>bIsUnplanted = True, StepPercent = 1 / 2\<rparr>,
                  \<lparr>bIsUnplanted = False, StepPercent = 0\<rparr>] 1)) = 0 \<and>
   StepPercent (GroupsData
     (Evaluate_Computations ((ex_host (True, ex_hit (FVector 10 0 0)) [])\<lparr>ActorYawDelta := 10\<rparr>) ex_cfg
        (ex_node [\<lparr>bIsUnplanted = True, StepPercent = 1 / 2\<rparr>,
                  \<lparr>bIsUnplanted = False, StepPercent = 0\<rparr>] 1)) ! 0) = 1 \<and>
   indices_ok ex_cfg (ex_node [\<lparr>bIsUnplanted = False, StepPercent = 1\<rparr>,
                               \<lparr>bIsUnplanted = False, StepPercent = 1\<rparr>] 0) \<and>
   StepPercent (GroupsData (ex_node [\<lparr>bIsUnplanted = False, StepPercent = 1\<rparr>,
                                     \<lparr>bIsUnplanted = False, StepPercent = 1\<rparr>] 0) ! 0) = 1 \<and>
   bIsUnplanted (GroupsData
     (SetCurrentGroupUnplanted (ex_host (True, ex_hit (FVector 10 0 0)) []) ex_cfg
        (before_gait (ex_host (True, ex_hit (FVector 10 0 0)) []) ex_cfg
           (ex_node [\<lparr>bIsUnplanted = False, StepPercent = 1\<rparr>,
                     \<lparr>bIsUnplanted = False, StepPercent = 1\<rparr>] 0))) ! 0) \<and>
   StepPercent (GroupsData
     (SetCurrentGroupUnplanted (ex_host (True, ex_hit (FVector 10 0 0)) []) ex_cfg
        (before_gait (ex_host (True, ex_hit (FVector 10 0 0)) []) ex_cfg
           (ex_node [\<lparr>bIsUnplanted = False, StepPercent = 1\<rparr>,
                     \<lparr>bIsUnplanted = False, StepPercent = 1\<rparr>] 0))) ! 0) = 0 \<and>
   StepPercent (GroupsData
     (Evaluate_Computations (ex_host (True, ex_hit (FVector 10 0 0)) []) ex_cfg
        (ex_node [\<lparr>bIsUnplanted = False, StepPercent = 1\<rparr>,
                  \<lparr>bIsUnplanted = False, StepPercent = 1\<rparr>] 0)) ! 0) = 1 / 10"
proof -
  let ?s = "ex_node [\<lparr>bIsUnplanted = True, StepPercent = 1 / 2\<rparr>,
                     \<lparr>bIsUnplanted = False, StepPercent = 0\<rparr>] 1"
  let ?t = "ex_node [\<lparr>bIsUnplanted = False, StepPercent = 1\<rparr>,
                     \<lparr>bIsUnplanted = False, StepPercent = 1\<rparr>] 0"
  let ?h = "ex_host (True, ex_hit (FVector 10 0 0)) [] :: FVector host"
  let ?k = "?h\<lparr>ActorYawDelta := 10\<rparr>"
  let ?tb = "before_gait ?h ex_cfg ?t"
  have ok: "indices_ok ex_cfg ?s" and ok': "indices_ok ex_cfg ?t" by (rule ex_indices_ok, simp)+
  have nf: "\<not> bIsFalling ?s" and nf': "\<not> bIsFalling ?t" by (simp_all add: ex_node_def)
  have g: "(0::nat) < length (LegGroups ex_cfg)" by (simp add: ex_cfg_def)
  have lo: "0 \<le> StepPercent (GroupsData ?s ! 0)" and hi: "StepPercent (GroupsData ?s ! 0) \<le> 1"
    and lo': "0 \<le> StepPercent (GroupsData ?t ! 0)" and hi': "StepPercent (GroupsData ?t ! 0) \<le> 1"
    by (simp_all add: ex_node_def)
  have u: "bIsUnplanted (GroupsData ?s ! 0)" and half: "StepPercent (GroupsData ?s ! 0) = 1 / 2"
    and dt: "WorldDeltaSeconds ?s = 3 / 200" and dt': "WorldDeltaSeconds ?t = 3 / 200"
    and one: "StepPercent (GroupsData ?t ! 0) = 1"
    by (simp_all add: ex_node_def)
  have dur: "CurrentStepDuration (UpdatePawnVariables ?h ex_cfg ?s) = 3 / 20"
    and dur': "CurrentStepDuration (UpdatePawnVariables ?h ex_cfg ?t) = 3 / 20"
    by (rule ex_duration)+
  have zero: "CurrentStepDuration (UpdatePawnVariables ?k ex_cfg ?s) = 0"
    unfolding ex_host_def by (rule ex_turning_duration[unfolded ex_host_def])
  note A = step_percent_tick[OF ok nf g lo hi, of ?h, unfolded Let_def dur dt half]
  note B = step_percent_tick[OF ok nf g lo hi, of ?k, unfolded Let_def zero dt half]
  note C = step_percent_tick[OF ok' nf' g lo' hi', of ?h, unfolded Let_def dur' dt' one]
  have a1: "StepPercent (GroupsData (Evaluate_Computations ?h ex_cfg ?s) ! 0)
            = ClampF (fadd (1 / 2) (fdiv (3 / 200) (3 / 20))) 0 1"
    using A u by blast
  have a2: "ClampF (fadd (1 / 2) (fdiv (3 / 200) (3 / 20))) 0 1 = Clamp (1 / 2 + (3 / 200) / (3 / 20)) 0 1"
    using A by simp
  have a: "StepPercent (GroupsData (Evaluate_Computations ?h ex_cfg ?s) ! 0) = 3 / 5"
    unfolding a1 a2 by (simp add: Clamp_def)
  have b1: "StepPercent (GroupsData (Evaluate_Computations ?k ex_cfg ?s) ! 0)
            = ClampF (fadd (1 / 2) (fdiv (3 / 200) 0)) 0 1"
    using B u by blast
  have b2: "ClampF (fadd (1 / 2) (fdiv (3 / 200) 0)) 0 1 = 1"
    using B by simp
  have b: "StepPercent (GroupsData (Evaluate_Computations ?k ex_cfg ?s) ! 0) = 1"
    unfolding b1 b2 ..
  have c0: "(0::nat) = CurrentGroupIndex ?tb" by (simp add: ex_node_def)
  have c1: "\<not> bIsUnplanted (GroupsData ?tb ! 0)" by (simp add: ex_node_def)
  have c2: "\<exists>i\<in>set (LegIndices (LegGroups ex_cfg ! 0)).
              MinDistanceToUnplant ex_cfg
                \<le> Dist (FootLocation (LegsData ?tb ! i)) (FootTarget (LegsData ?tb ! i))"
  proof -
    have i: "LegIndices (LegGroups ex_cfg ! 0) = [0]" and m: "MinDistanceToUnplant ex_cfg = 5"
      by (simp_all add: ex_cfg_def)
    show ?thesis unfolding i m by (simp add: ex_before_gait_leg0 Dist_along_X)
  qed
  have c3: "\<not> bIsUnplanted (GroupsData ?tb ! PreviousGroupIndex ex_cfg ?tb)"
    by (simp add: PreviousGroupIndex_def) (simp add: ex_node_def ex_cfg_def)
  from C c0 c1 c2 c3
  have c: "bIsUnplanted (GroupsData (SetCurrentGroupUnplanted ?h ex_cfg ?tb) ! 0) \<and>
           StepPercent (GroupsData (SetCurrentGroupUnplanted ?h ex_cfg ?tb) ! 0) = 0 \<and>
           StepPercent (GroupsData (Evaluate_Computations ?h ex_cfg ?t) ! 0)
             = ClampF (fadd 0 (fdiv (3 / 200) (3 / 20))) 0 1"
    by blast
  have c4: "ClampF (fadd 0 (fdiv (3 / 200) (3 / 20))) 0 1 = Clamp (0 + (3 / 200) / (3 / 20)) 0 1"
    using C by simp
  have d: "StepPercent (GroupsData (Evaluate_Computations ?h ex_cfg ?t) ! 0) = 1 / 10"
    using c unfolding c4 by (simp add: Clamp_def)
  show ?thesis using ok a zero b ok' one c d by (intro conjI) (simp_all only: simp_thms)
qed

subsection \<open>Reset\<close>

lemma foldl_update_upt:
  "length (foldl (\<lambda>l i. l[i := f (l ! i)]) xs [0..<n]) = length xs \<and>
   (\<forall>j<length xs. foldl (\<lambda>l i. l[i := f (l ! i)]) xs [0..<n] ! j
                     = (if j < n then f (xs ! j) else xs ! j))"
proof (induction n)
  case 0
  then show ?case by simp
next
  case (Suc n)
  then show ?case by (auto simp: nth_list_update less_Suc_eq)
qed

lemma reset_leg_fields [simp]:
  "FootLocation (reset_leg h ld) = TransformLocation h (ActorTransform h) (TipBoneOriginalRelLocation ld)"
  "FootUnplantLocation (reset_leg h ld) = TransformLocation h (ActorTransform h) (TipBoneOriginalRelLocation ld)"
  "TipBoneOriginalRelLocation (reset_leg h ld) = TipBoneOriginalRelLocation ld"
  by (simp_all add: reset_leg_def Let_def)

lemma Reset_GroupsData:
  "length (GroupsData (ResetFeetTargetsAndLocations h cfg s)) = length (GroupsData s)"
  "g < length (GroupsData s) \<Longrightarrow>
   GroupsData (ResetFeetTargetsAndLocations h cfg s) ! g =
     (if g < length (LegGroups cfg) then reset_group (GroupsData s ! g) else GroupsData s ! g)"
  using foldl_update_upt[of reset_group "GroupsData s" "length (LegGroups cfg)"]
  by (simp_all add: ResetFeetTargetsAndLocations_def Let_def reset_group_def)

lemma Reset_LegsData:
  "length (LegsData (ResetFeetTargetsAndLocations h cfg s)) = length (LegsData s)"
  "j < length (LegsData s) \<Longrightarrow>
   LegsData (ResetFeetTargetsAndLocations h cfg s) ! j =
     (if j < length (Legs cfg) then reset_leg h (foot_target_leg h cfg s j (LegsData s ! j))
      else LegsData s ! j)"
  by (simp_all add: ResetFeetTargetsAndLocations_def Let_def for_legs_upt_nth SetFeetTargetLocations_nth)

lemma Reset_CurrentGroupIndex [simp]:
  "CurrentGroupIndex (ResetFeetTargetsAndLocations h cfg s) = 0"
  by (simp add: ResetFeetTargetsAndLocations_def Let_def)

text \<open>
  Claim C9. \<open>ResetFeetTargetsAndLocations\<close> run twice on the same host, with nothing in
  between, leaves every leg's \<open>FootLocation\<close> and \<open>FootUnplantLocation\<close>, every group's
  data and \<open>CurrentGroupIndex\<close> as one run leaves them.
\<close>

theorem reset_idempotent:
  "map FootLocation (LegsData (ResetFeetTargetsAndLocations h cfg (ResetFeetTargetsAndLocations h cfg s)))
     = map FootLocation (LegsData (ResetFeetTargetsAndLocations h cfg s)) \<and>
   map FootUnplantLocation (LegsData (ResetFeetTargetsAndLocations h cfg (ResetFeetTargetsAndLocations h cfg s)))
     = map FootUnplantLocation (LegsData (ResetFeetTargetsAndLocations h cfg s)) \<and>
   GroupsData (ResetFeetTargetsAndLocations h cfg (ResetFeetTargetsAndLocations h cfg s))
     = GroupsData (ResetFeetTargetsAndLocations h cfg s) \<and>
   CurrentGroupIndex (ResetFeetTargetsAndLocations h cfg (ResetFeetTargetsAndLocations h cfg s))
     = CurrentGroupIndex (ResetFeetTargetsAndLocations h cfg s)"
proof -
  let ?r = "ResetFeetTargetsAndLocations h cfg s"
  let ?rr = "ResetFeetTargetsAndLocations h cfg ?r"
  have legs: "FootLocation (LegsData ?rr ! j) = FootLocation (LegsData ?r ! j) \<and>
              FootUnplantLocation (LegsData ?rr ! j) = FootUnplantLocation (LegsData ?r ! j)"
    if "j < length (LegsData s)" for j
    using that by (simp add: Reset_LegsData)
  have A: "map FootLocation (LegsData ?rr) = map FootLocation (LegsData ?r)"
    by (rule nth_equalityI) (simp_all add: Reset_LegsData(1) legs)
  have B: "map FootUnplantLocation (LegsData ?rr) = map FootUnplantLocation (LegsData ?r)"
    by (rule nth_equalityI) (simp_all add: Reset_LegsData(1) legs)
  have C: "GroupsData ?rr = GroupsData ?r"
    by (rule nth_equalityI) (simp_all add: Reset_GroupsData reset_group_def)
  show ?thesis using A B C by simp
qed

theorem reset_idempotent_witness:
  "GroupsData (ResetFeetTargetsAndLocations (ex_host (False, FHitResult_default) []) ex_cfg
      (ex_node [\<lparr>bIsUnplanted = True, StepPercent = 9 / 10\<rparr>,
                \<lparr>bIsUnplanted = False, StepPercent = 1\<rparr>] 1))
     = [\<lparr>bIsUnplanted = False, StepPercent = 0\<rparr>, \<lparr>bIsUnplanted = False, StepPercent = 0\<rparr>] \<and>
   GroupsData (ResetFeetTargetsAndLocations (ex_host (False, FHitResult_default) []) ex_cfg
      (ResetFeetTargetsAndLocations (ex_host (False, FHitResult_default) []) ex_cfg
        (ex_node [\<lparr>bIsUnplanted = True, StepPercent = 9 / 10\<rparr>,
                  \<lparr>bIsUnplanted = False, StepPercent = 1\<rparr>] 1)))
     = [\<lparr>bIsUnplanted = False, StepPercent = 0\<rparr>, \<lparr>bIsUnplanted = False, StepPercent = 0\<rparr>] \<and>
   map FootLocation (LegsData (ResetFeetTargetsAndLocations (ex_host (False, FHitResult_default) []) ex_cfg
      (ResetFeetTargetsAndLocations (ex_host (False, FHitResult_default) []) ex_cfg
        (ex_node [\<lparr>bIsUnplanted = True, StepPercent = 9 / 10\<rparr>,
                  \<lparr>bIsUnplanted = False, StepPercent = 1\<rparr>] 1))))
     = [FVector 0 0 (- 20), FVector 0 0 (- 20)]"
proof -
  let ?h = "ex_host (False, FHitResult_default) [] :: FVector host"
  let ?s = "ex_node [\<lparr>bIsUnplanted = True, StepPercent = 9 / 10\<rparr>,
                     \<lparr>bIsUnplanted = False, StepPercent = 1\<rparr>] 1"
  let ?r = "ResetFeetTargetsAndLocations ?h ex_cfg ?s"
  have len: "length (GroupsData ?r) = 2" "length (LegsData ?r) = 2"
    by (simp_all add: Reset_GroupsData(1) Reset_LegsData(1)) (simp add: ex_node_def)
  have G: "GroupsData ?r = [\<lparr>bIsUnplanted = False, StepPercent = 0\<rparr>, \<lparr>bIsUnplanted = False, StepPercent = 0\<rparr>]"
    by (rule nth_equalityI)
       (auto simp: len less_Suc_eq numeral_2_eq_2 Reset_GroupsData reset_group_def ex_node_def ex_cfg_def)
  have L: "map FootLocation (LegsData ?r) = [FVector 0 0 (- 20), FVector 0 0 (- 20)]"
    by (rule nth_equalityI)
       (auto simp: len less_Suc_eq numeral_2_eq_2 Reset_LegsData ex_node_def ex_cfg_def
          ex_host_def ex_leg_def plus_FVector_def)
  show ?thesis using reset_idempotent[of ?h ex_cfg ?s] G L by simp
qed

subsection \<open>Step duration\<close>

text \<open>
  Claim C4. After \<open>UpdatePawnVariables\<close>, with \<open>Speed\<close> the size of the velocity (zero at
  or below \<open>SPEED_THRESHOLD_MIN\<close>) and \<open>YawDelta\<close> the yaw difference of the tick: when
  \<open>Speed + |YawDelta|\<close> is at most 5, \<open>CurrentStepDuration\<close> is \<open>MinStepDuration\<close>, whatever
  the step length; above 5 it is \<open>CurrentStepLength\<close> divided by that sum.
\<close>

theorem step_duration_threshold:
  "Speed (UpdatePawnVariables h cfg s)
     = (if Size (PawnVelocity h) \<le> 2 then 0 else Size (PawnVelocity h)) \<and>
   YawDelta (UpdatePawnVariables h cfg s) = ActorYawDelta h \<and>
   (Speed (UpdatePawnVariables h cfg s) + \<bar>YawDelta (UpdatePawnVariables h cfg s)\<bar> \<le> 5 \<longrightarrow>
      CurrentStepDuration (UpdatePawnVariables h cfg s) = MinStepDuration cfg) \<and>
   (5 < Speed (UpdatePawnVariables h cfg s) + \<bar>YawDelta (UpdatePawnVariables h cfg s)\<bar> \<longrightarrow>
      CurrentStepDuration (UpdatePawnVariables h cfg s)
        = CurrentStepLength (UpdatePawnVariables h cfg s)
          / (Speed (UpdatePawnVariables h cfg s) + \<bar>YawDelta (UpdatePawnVariables h cfg s)\<bar>))"
  by (simp add: UpdatePawnVariables_def UpdateAcceleration_def UpdateStepDuration_def
      UpdateStepLength_def UpdateRotation_def UpdatePercents_def UpdateSpeed_def Let_def
      SPEED_THRESHOLD_MIN_def)

theorem step_duration_threshold_witness:
  "Speed (UpdatePawnVariables (ex_host (False, FHitResult_default) []) ex_cfg (ex_node [] 0))
     + \<bar>YawDelta (UpdatePawnVariables (ex_host (False, FHitResult_default) []) ex_cfg (ex_node [] 0))\<bar> \<le> 5 \<and>
   CurrentStepDuration (UpdatePawnVariables (ex_host (False, FHitResult_default) []) ex_cfg (ex_node [] 0))
     = 3 / 20 \<and>
   5 < Speed (UpdatePawnVariables
               ((ex_host (False, FHitResult_default) [])\<lparr>PawnVelocity := FVector 100 0 0\<rparr>)
               ex_cfg (ex_node [] 0))
       + \<bar>YawDelta (UpdatePawnVariables
               ((ex_host (False, FHitResult_default) [])\<lparr>PawnVelocity := FVector 100 0 0\<rparr>)
               ex_cfg (ex_node [] 0))\<bar> \<and>
   CurrentStepDuration (UpdatePawnVariables
               ((ex_host (False, FHitResult_default) [])\<lparr>PawnVelocity := FVector 100 0 0\<rparr>)
               ex_cfg (ex_node [] 0))
     = CurrentStepLength (UpdatePawnVariables
               ((ex_host (False, FHitResult_default) [])\<lparr>PawnVelocity := FVector 100 0 0\<rparr>)
               ex_cfg (ex_node [] 0)) / 100"
proof -
  let ?rest = "ex_host (False, FHitResult_default) [] :: FVector host"
  let ?run = "?rest\<lparr>PawnVelocity := FVector 100 0 0\<rparr>"
  let ?s = "ex_node [] 0"
  note R = step_duration_threshold[of ?rest ex_cfg ?s]
  note M = step_duration_threshold[of ?run ex_cfg ?s]
  have v0: "Size (PawnVelocity ?rest) = 0" by (simp add: ex_host_def)
  have v1: "Size (PawnVelocity ?run) = 100" by (simp add: Size_along_X)
  have y0: "ActorYawDelta ?rest = 0" and y1: "ActorYawDelta ?run = 0" by (simp_all add: ex_host_def)
  have sp0: "Speed (UpdatePawnVariables ?rest ex_cfg ?s) = 0" using R v0 by simp
  have yw0: "YawDelta (UpdatePawnVariables ?rest ex_cfg ?s) = 0" using R y0 by simp
  have sp1: "Speed (UpdatePawnVariables ?run ex_cfg ?s) = 100" using M v1 by simp
  have yw1: "YawDelta (UpdatePawnVariables ?run ex_cfg ?s) = 0" using M y1 by simp
  have a: "Speed (UpdatePawnVariables ?rest ex_cfg ?s) + \<bar>YawDelta (UpdatePawnVariables ?rest ex_cfg ?s)\<bar> \<le> 5"
    by (simp add: sp0 yw0)
  with R have "CurrentStepDuration (UpdatePawnVariables ?rest ex_cfg ?s) = MinStepDuration ex_cfg"
    by blast
  then have b: "CurrentStepDuration (UpdatePawnVariables ?rest ex_cfg ?s) = 3 / 20"
    by (simp add: ex_cfg_def)
  have c: "5 < Speed (UpdatePawnVariables ?run ex_cfg ?s) + \<bar>YawDelta (UpdatePawnVariables ?run ex_cfg ?s)\<bar>"
    by (simp add: sp1 yw1)
  with M have "CurrentStepDuration (UpdatePawnVariables ?run ex_cfg ?s)
        = CurrentStepLength (UpdatePawnVariables ?run ex_cfg ?s)
          / (Speed (UpdatePawnVariables ?run ex_cfg ?s) + \<bar>YawDelta (UpdatePawnVariables ?run ex_cfg ?s)\<bar>)"
    by blast
  then have d: "CurrentStepDuration (UpdatePawnVariables ?run ex_cfg ?s)
        = CurrentStepLength (UpdatePawnVariables ?run ex_cfg ?s) / 100"
    by (simp add: sp1 yw1)
  show ?thesis by (intro conjI) (fact a b c d)+
qed

subsection \<open>The slope multiplier\<close>

text \<open>Bounds on \<open>pi\<close> from the expansion of the cosine up to the power 10.\<close>

lemma sum_below_12:
  "(\<Sum>m<12. f m) = f 0 + f 1 + f 2 + f 3 + f 4 + f 5 + f 6 + f 7 + f 8 + f 9 + f 10 + f 11"
  for f :: "nat \<Rightarrow> real"
  by (simp add: numeral_eq_Suc)

lemma cos_partial_sum:
  "(\<Sum>m<12. cos_coeff m * x ^ m)
     = 1 - x^2 / 2 + x^4 / 24 - x^6 / 720 + x^8 / 40320 - x^10 / 3628800" for x :: real
  unfolding sum_below_12 by (simp add: cos_coeff_def fact_numeral)

lemma cos_near_partial_sum:
  fixes x :: real
  assumes "0 < x"
  shows "\<bar>cos x - (1 - x^2 / 2 + x^4 / 24 - x^6 / 720 + x^8 / 40320 - x^10 / 3628800)\<bar>
           \<le> x ^ 12 / 479001600"
proof -
  from Maclaurin_cos_expansion2[OF assms, of 12]
  obtain t where t: "cos x = (\<Sum>m<12. cos_coeff m * x ^ m) + (cos (t + 1/2 * real 12 * pi) / fact 12) * x ^ 12"
    by auto
  have f: "fact 12 = (479001600::real)" by (simp add: eval_nat_numeral)
  have "\<bar>cos x - (\<Sum>m<12. cos_coeff m * x ^ m)\<bar> = \<bar>cos (t + 1/2 * real 12 * pi)\<bar> * (x ^ 12 / 479001600)"
    using assms by (simp add: t f abs_mult)
  also have "\<dots> \<le> 1 * (x ^ 12 / 479001600)"
    using assms by (intro mult_right_mono) simp_all
  finally show ?thesis by (simp add: cos_partial_sum)
qed

lemma cos_pos_below: "0 < cos (314151 / 200000 :: real)"
proof -
  let ?x = "314151 / 200000 :: real"
  have "\<bar>cos ?x - (1 - ?x^2 / 2 + ?x^4 / 24 - ?x^6 / 720 + ?x^8 / 40320 - ?x^10 / 3628800)\<bar>
           \<le> ?x ^ 12 / 479001600"
    by (rule cos_near_partial_sum) simp
  moreover have "?x ^ 12 / 479001600 < 1 - ?x^2 / 2 + ?x^4 / 24 - ?x^6 / 720 + ?x^8 / 40320 - ?x^10 / 3628800"
    by (simp add: power_divide)
  ultimately show ?thesis by linarith
qed

lemma cos_neg_above: "cos (3928 / 2500 :: real) < 0"
proof -
  let ?x = "3928 / 2500 :: real"
  have "\<bar>cos ?x - (1 - ?x^2 / 2 + ?x^4 / 24 - ?x^6 / 720 + ?x^8 / 40320 - ?x^10 / 3628800)\<bar>
           \<le> ?x ^ 12 / 479001600"
    by (rule cos_near_partial_sum) simp
  moreover have "1 - ?x^2 / 2 + ?x^4 / 24 - ?x^6 / 720 + ?x^8 / 40320 - ?x^10 / 3628800 < - (?x ^ 12 / 479001600)"
    by (simp add: power_divide)
  ultimately show ?thesis by linarith
qed

lemma pi_lower: "314151 / 100000 < pi"
proof (rule ccontr)
  assume "\<not> 314151 / 100000 < pi"
  then have "pi / 2 \<le> 314151 / 200000" by simp
  moreover have "(314151 / 200000 :: real) \<le> pi" using pi_ge_two by simp
  ultimately have "cos (314151 / 200000) \<le> cos (pi / 2)"
    by (intro cos_monotone_0_pi_le) simp_all
  with cos_pos_below show False by simp
qed

lemma pi_upper: "pi < 3928 / 1250"
proof (rule ccontr)
  assume "\<not> pi < 3928 / 1250"
  then have "3928 / 2500 \<le> pi / 2" by simp
  then have "cos (pi / 2) \<le> cos (3928 / 2500)"
    by (intro cos_monotone_0_pi_le) simp_all
  with cos_neg_above show False by simp
qed

lemma cos_16200_over_pi: "cos (16200 / pi) \<noteq> 0"
proof
  assume "cos (16200 / pi) = 0"
  then obtain i :: int where i: "odd i" "16200 / pi = of_int i * (pi / 2)"
    by (auto simp: cos_zero_iff_int)
  have eq: "real_of_int i * (pi * pi) = 32400"
    using i(2) by (simp add: field_simps)
  have lo: "(314151 / 100000) * (314151 / 100000) < pi * pi"
    using pi_lower by (intro mult_strict_mono) simp_all
  have hi: "pi * pi < (3928 / 1250) * (3928 / 1250)"
    using pi_upper by (intro mult_strict_mono) simp_all
  have "i < 3283"
  proof (rule ccontr)
    assume "\<not> i < 3283"
    then have "(3283::real) \<le> real_of_int i" by simp
    then have "3283 * (pi * pi) \<le> real_of_int i * (pi * pi)"
      by (intro mult_right_mono) simp_all
    with eq lo show False by simp
  qed
  moreover have "3281 < i"
  proof (rule ccontr)
    assume "\<not> 3281 < i"
    then have "real_of_int i \<le> 3281" by simp
    then have "real_of_int i * (pi * pi) \<le> 3281 * (pi * pi)"
      by (intro mult_right_mono) simp_all
    with eq hi show False by simp
  qed
  ultimately have "i = 3282" by simp
  with i(1) show False by simp
qed

lemma abs_cos_8100_over_pi: "\<bar>cos (8100 / pi)\<bar> \<noteq> cos (pi / 4)"
proof
  assume a: "\<bar>cos (8100 / pi)\<bar> = cos (pi / 4)"
  have "(cos (8100 / pi))\<^sup>2 = \<bar>cos (8100 / pi)\<bar>\<^sup>2" by simp
  also have "\<dots> = (sqrt 2 / 2)\<^sup>2" by (simp only: a cos_45)
  also have "\<dots> = 1 / 2" by (simp add: power_divide)
  finally have h: "(cos (8100 / pi))\<^sup>2 = 1 / 2" .
  have "cos (16200 / pi) = cos (2 * (8100 / pi))" by simp
  also have "\<dots> = 2 * (cos (8100 / pi))\<^sup>2 - 1" by (rule cos_double_cos)
  also have "\<dots> = 0" by (simp add: h)
  finally show False using cos_16200_over_pi by simp
qed

lemma DocumentedSlopeMultiplier_eq:
  "DocumentedSlopeMultiplier cfg d
     = 1 - StepSlopeReductionMultiplier cfg
       + \<bar>cos (d * (pi / 180))\<bar> * StepSlopeReductionMultiplier cfg"
proof -
  define c where "c = \<bar>cos (d * (pi / 180))\<bar>"
  have "0 \<le> c" "c \<le> 1" using abs_cos_le_one[of "d * (pi / 180)"] by (simp_all add: c_def)
  then have "Clamp c 0 1 = c" by (auto simp: Clamp_def)
  then have "Clamp \<bar>cos (d * (pi / 180))\<bar> 0 1 = \<bar>cos (d * (pi / 180))\<bar>"
    by (simp only: c_def)
  then show ?thesis
    by (simp add: DocumentedSlopeMultiplier_def MapRangeClamped_def)
qed

lemma DocumentedSlopeMultiplier_values:
  "DocumentedSlopeMultiplier cfg 0 = 1"
  "DocumentedSlopeMultiplier cfg 90 = 1 - StepSlopeReductionMultiplier cfg"
  "DocumentedSlopeMultiplier cfg (- 90) = 1 - StepSlopeReductionMultiplier cfg"
  "DocumentedSlopeMultiplier cfg 45
     = 1 - StepSlopeReductionMultiplier cfg + cos (pi / 4) * StepSlopeReductionMultiplier cfg"
proof -
  have q: "90 * (pi / 180) = pi / 2" "45 * (pi / 180) = pi / 4" by simp_all
  have p: "0 \<le> cos (pi / 4)" by (simp add: cos_45)
  show "DocumentedSlopeMultiplier cfg 0 = 1" by (simp add: DocumentedSlopeMultiplier_eq)
  show "DocumentedSlopeMultiplier cfg 90 = 1 - StepSlopeReductionMultiplier cfg"
    unfolding DocumentedSlopeMultiplier_eq q by simp
  show "DocumentedSlopeMultiplier cfg (- 90) = 1 - StepSlopeReductionMultiplier cfg"
    unfolding DocumentedSlopeMultiplier_eq using q(1) by simp
  show "DocumentedSlopeMultiplier cfg 45
     = 1 - StepSlopeReductionMultiplier cfg + cos (pi / 4) * StepSlopeReductionMultiplier cfg"
    unfolding DocumentedSlopeMultiplier_eq q using p by simp
qed

lemma ReduceSlopeMultiplier_values:
  "ReduceSlopeMultiplier cfg (Finite 0) = 1"
  "ReduceSlopeMultiplier cfg (Finite 90)
     = 1 - StepSlopeReductionMultiplier cfg + \<bar>cos (16200 / pi)\<bar> * StepSlopeReductionMultiplier cfg"
  "ReduceSlopeMultiplier cfg (Finite (- 90))
     = 1 - StepSlopeReductionMultiplier cfg + \<bar>cos (16200 / pi)\<bar> * StepSlopeReductionMultiplier cfg"
  "ReduceSlopeMultiplier cfg (Finite 45)
     = 1 - StepSlopeReductionMultiplier cfg + \<bar>cos (8100 / pi)\<bar> * StepSlopeReductionMultiplier cfg"
  by (simp_all add: ReduceSlopeMultiplier_Finite)

lemma feet_angles:
  "bBodyRotateOnFeetLocations cfg \<Longrightarrow> X F = X B \<Longrightarrow> Z B < Z F \<Longrightarrow>
     PitchFromFeetLocations cfg F B = Finite 90"
  "bBodyRotateOnFeetLocations cfg \<Longrightarrow> X B < X F \<Longrightarrow> Z F - Z B = X F - X B \<Longrightarrow>
     PitchFromFeetLocations cfg F B = Finite 45"
  "bBodyRotateOnFeetLocations cfg \<Longrightarrow> Y R = Y L \<Longrightarrow> Z L < Z R \<Longrightarrow>
     RollFromFeetLocations cfg R L = Finite (- 90)"
  by (simp_all add: PitchFromFeetLocations_def RollFromFeetLocations_def fdiv_def DegAtanF_def
      fneg_def DegAtan_def arctan_one)

text \<open>
  Claim C8. \<open>ComputeBodyRotation\<close> saves, for the pitch and for the roll,
  \<open>ReduceSlopeMultiplier\<close> of the angle that \<open>DegAtan\<close> returned: 90 degrees when the
  forward and backward averages share their \<open>X\<close> and the forward one is higher, 45
  degrees when they rise as much as they advance. At 0 degrees the multiplier is 1, as
  documented. At 90, -90 and 45 degrees the code takes the cosine of
  \<open>RadiansToDegrees\<close> of the angle, that is of \<open>16200 / pi\<close> and \<open>8100 / pi\<close> radians, and
  unless \<open>StepSlopeReductionMultiplier\<close> is zero the multiplier is not the documented
  one: at a right angle it is not the minimum \<open>1 - StepSlopeReductionMultiplier\<close>.
\<close>

theorem slope_multiplier_degrees_as_radians:
  "ReduceSlopeMultiplierPitch (ComputeBodyRotation cfg F B R L s)
     = ReduceSlopeMultiplier cfg (PitchFromFeetLocations cfg F B) \<and>
   ReduceSlopeMultiplierRoll (ComputeBodyRotation cfg F B R L s)
     = ReduceSlopeMultiplier cfg (RollFromFeetLocations cfg R L) \<and>
   (bBodyRotateOnFeetLocations cfg \<and> X F = X B \<and> Z B < Z F \<longrightarrow>
      PitchFromFeetLocations cfg F B = Finite 90) \<and>
   (bBodyRotateOnFeetLocations cfg \<and> X B < X F \<and> Z F - Z B = X F - X B \<longrightarrow>
      PitchFromFeetLocations cfg F B = Finite 45) \<and>
   (bBodyRotateOnFeetLocations cfg \<and> Y R = Y L \<and> Z L < Z R \<longrightarrow>
      RollFromFeetLocations cfg R L = Finite (- 90)) \<and>
   ReduceSlopeMultiplier cfg (Finite 0) = 1 \<and>
   DocumentedSlopeMultiplier cfg 0 = 1 \<and>
   DocumentedSlopeMultiplier cfg 90 = 1 - StepSlopeReductionMultiplier cfg \<and>
   DocumentedSlopeMultiplier cfg (- 90) = 1 - StepSlopeReductionMultiplier cfg \<and>
   ReduceSlopeMultiplier cfg (Finite 90)
     = 1 - StepSlopeReductionMultiplier cfg + \<bar>cos (16200 / pi)\<bar> * StepSlopeReductionMultiplier cfg \<and>
   ReduceSlopeMultiplier cfg (Finite 45)
     = 1 - StepSlopeReductionMultiplier cfg + \<bar>cos (8100 / pi)\<bar> * StepSlopeReductionMultiplier cfg \<and>
   (StepSlopeReductionMultiplier cfg \<noteq> 0 \<longrightarrow>
      ReduceSlopeMultiplier cfg (Finite 90) \<noteq> DocumentedSlopeMultiplier cfg 90 \<and>
      ReduceSlopeMultiplier cfg (Finite (- 90)) \<noteq> DocumentedSlopeMultiplier cfg (- 90) \<and>
      ReduceSlopeMultiplier cfg (Finite 45) \<noteq> DocumentedSlopeMultiplier cfg 45)"
proof -
  have A: "ReduceSlopeMultiplierPitch (ComputeBodyRotation cfg F B R L s)
     = ReduceSlopeMultiplier cfg (PitchFromFeetLocations cfg F B)"
    and A': "ReduceSlopeMultiplierRoll (ComputeBodyRotation cfg F B R L s)
     = ReduceSlopeMultiplier cfg (RollFromFeetLocations cfg R L)"
    by (simp_all add: ComputeBodyRotation_def)
  have P90: "bBodyRotateOnFeetLocations cfg \<and> X F = X B \<and> Z B < Z F \<longrightarrow>
      PitchFromFeetLocations cfg F B = Finite 90"
    and P45: "bBodyRotateOnFeetLocations cfg \<and> X B < X F \<and> Z F - Z B = X F - X B \<longrightarrow>
      PitchFromFeetLocations cfg F B = Finite 45"
    and R90: "bBodyRotateOnFeetLocations cfg \<and> Y R = Y L \<and> Z L < Z R \<longrightarrow>
      RollFromFeetLocations cfg R L = Finite (- 90)"
    using feet_angles[of cfg] by blast+
  have N: "StepSlopeReductionMultiplier cfg \<noteq> 0 \<longrightarrow>
      ReduceSlopeMultiplier cfg (Finite 90) \<noteq> DocumentedSlopeMultiplier cfg 90 \<and>
      ReduceSlopeMultiplier cfg (Finite (- 90)) \<noteq> DocumentedSlopeMultiplier cfg (- 90) \<and>
      ReduceSlopeMultiplier cfg (Finite 45) \<noteq> DocumentedSlopeMultiplier cfg 45"
    using cos_16200_over_pi abs_cos_8100_over_pi
    by (simp add: ReduceSlopeMultiplier_values DocumentedSlopeMultiplier_values)
  show ?thesis
    by (intro conjI)
       (fact A A' P90 P45 R90 N ReduceSlopeMultiplier_values DocumentedSlopeMultiplier_values)+
qed

theorem slope_multiplier_degrees_as_radians_witness:
  "StepSlopeReductionMultiplier ex_cfg \<noteq> 0 \<and>
   ReduceSlopeMultiplierPitch
     (ComputeBodyRotation ex_cfg (FVector 10 0 10) (FVector 0 0 0) (FVector 0 0 0) (FVector 0 0 0)
        (ex_node [] 0))
     = ReduceSlopeMultiplier ex_cfg (Finite 45) \<and>
   ReduceSlopeMultiplier ex_cfg (Finite 45) \<noteq> DocumentedSlopeMultiplier ex_cfg 45 \<and>
   ReduceSlopeMultiplierPitch
     (ComputeBodyRotation ex_cfg (FVector 0 0 10) (FVector 0 0 0) (FVector 0 0 0) (FVector 0 0 0)
        (ex_node [] 0))
     = ReduceSlopeMultiplier ex_cfg (Finite 90) \<and>
   ReduceSlopeMultiplier ex_cfg (Finite 90) \<noteq> 1 / 4 \<and>
   DocumentedSlopeMultiplier ex_cfg 90 = 1 / 4"
proof -
  let ?s = "ex_node [] 0 :: FVector FAnimNode_SPW"
  let ?O = "FVector 0 0 0"
  have a: "StepSlopeReductionMultiplier ex_cfg \<noteq> 0" and b: "bBodyRotateOnFeetLocations ex_cfg"
    and m: "1 - StepSlopeReductionMultiplier ex_cfg = 1 / 4"
    by (simp_all add: ex_cfg_def)
  note T45 = slope_multiplier_degrees_as_radians[of ex_cfg "FVector 10 0 10" ?O ?O ?O ?s]
  note T90 = slope_multiplier_degrees_as_radians[of ex_cfg "FVector 0 0 10" ?O ?O ?O ?s]
  have g45: "bBodyRotateOnFeetLocations ex_cfg \<and> X ?O < X (FVector 10 0 10) \<and>
             Z (FVector 10 0 10) - Z ?O = X (FVector 10 0 10) - X ?O"
    using b by simp
  have g90: "bBodyRotateOnFeetLocations ex_cfg \<and> X (FVector 0 0 10) = X ?O \<and> Z ?O < Z (FVector 0 0 10)"
    using b by simp
  from T45 g45 have p45: "PitchFromFeetLocations ex_cfg (FVector 10 0 10) ?O = Finite 45" by blast
  from T90 g90 have p90: "PitchFromFeetLocations ex_cfg (FVector 0 0 10) ?O = Finite 90" by blast
  from T45 have "ReduceSlopeMultiplierPitch (ComputeBodyRotation ex_cfg (FVector 10 0 10) ?O ?O ?O ?s)
     = ReduceSlopeMultiplier ex_cfg (PitchFromFeetLocations ex_cfg (FVector 10 0 10) ?O)" by blast
  then have 1: "ReduceSlopeMultiplierPitch (ComputeBodyRotation ex_cfg (FVector 10 0 10) ?O ?O ?O ?s)
     = ReduceSlopeMultiplier ex_cfg (Finite 45)" unfolding p45 .
  from T90 have "ReduceSlopeMultiplierPitch (ComputeBodyRotation ex_cfg (FVector 0 0 10) ?O ?O ?O ?s)
     = ReduceSlopeMultiplier ex_cfg (PitchFromFeetLocations ex_cfg (FVector 0 0 10) ?O)" by blast
  then have 2: "ReduceSlopeMultiplierPitch (ComputeBodyRotation ex_cfg (FVector 0 0 10) ?O ?O ?O ?s)
     = ReduceSlopeMultiplier ex_cfg (Finite 90)" unfolding p90 .
  from T90 a have 3: "ReduceSlopeMultiplier ex_cfg (Finite 45) \<noteq> DocumentedSlopeMultiplier ex_cfg 45"
    and n90: "ReduceSlopeMultiplier ex_cfg (Finite 90) \<noteq> DocumentedSlopeMultiplier ex_cfg 90"
    by blast+
  from T90 have d90: "DocumentedSlopeMultiplier ex_cfg 90 = 1 - StepSlopeReductionMultiplier ex_cfg"
    by blast
  then have 5: "DocumentedSlopeMultiplier ex_cfg 90 = 1 / 4" unfolding m .
  have 4: "ReduceSlopeMultiplier ex_cfg (Finite 90) \<noteq> 1 / 4" using n90 unfolding 5 .
  show ?thesis by (intro conjI) (fact a 1 3 2 4 5)+
qed

subsection \<open>The round-robin pointer over the ticks\<close>

lemma SetGroupsPlanted_group_pointer [simp]:
  "CurrentGroupIndex (SetGroupsPlanted_group h cfg s g) = CurrentGroupIndex s"
  by (simp add: SetGroupsPlanted_group_def)

lemma SetGroupsPlanted_pointer [simp]:
  "CurrentGroupIndex (SetGroupsPlanted h cfg s) = CurrentGroupIndex s"
proof -
  have "CurrentGroupIndex (foldl (SetGroupsPlanted_group h cfg) s gs) = CurrentGroupIndex s" for gs
    by (induction gs arbitrary: s) simp_all
  then show ?thesis by (simp add: SetGroupsPlanted_def)
qed

lemma ComputeFeet_pointer:
  "\<not> bIsFalling s \<Longrightarrow> length (GroupsData s) = length (LegGroups cfg) \<Longrightarrow>
   CurrentGroupIndex (ComputeFeet h cfg s) = CurrentGroupIndex s"
  using ComputeFeet_prefix[of s "length (LegGroups cfg)" h cfg]
  by (simp add: ComputeFeet_def Let_def)

lemma pointer_inv_unplant:
  assumes len: "length (GroupsData s) = length (LegGroups cfg)"
    and cur: "CurrentGroupIndex s < length (LegGroups cfg)" and inv: "pointer_inv s"
  shows "pointer_inv (SetCurrentGroupUnplanted h cfg s)"
proof (cases "group_unplants cfg s")
  case False
  then show ?thesis using inv by (simp add: SetCurrentGroupUnplanted_eq)
next
  case True
  show ?thesis using True len cur
    by (simp add: SetCurrentGroupUnplanted_eq SetNextCurrentGroupIndex_def Let_def pointer_inv_def)
qed

lemma pointer_inv_ComputeFeet:
  assumes len: "length (GroupsData s) = length (LegGroups cfg)"
    and cur: "CurrentGroupIndex s < length (LegGroups cfg)"
    and nf: "\<not> bIsFalling s" and inv: "pointer_inv s"
  shows "pointer_inv (ComputeFeet h cfg s)"
  using inv cur len
  by (auto simp: pointer_inv_def ComputeFeet_pointer[OF nf len]
      ComputeFeet_GroupsData[OF nf len] swing_advance_def)

lemma pointer_inv_SetGroupsPlanted:
  assumes "length (GroupsData s) = length (LegGroups cfg)"
    "CurrentGroupIndex s < length (LegGroups cfg)" "pointer_inv s"
  shows "pointer_inv (SetGroupsPlanted h cfg s)"
  using assms
  by (auto simp: pointer_inv_def SetGroupsPlanted_GroupsData plant_advance_def group_plants_def)

lemma SetCurrentGroupUnplanted_pointer_range:
  assumes "CurrentGroupIndex s < length (LegGroups cfg)"
  shows "CurrentGroupIndex (SetCurrentGroupUnplanted h cfg s) < length (LegGroups cfg)"
  using assms
  by (auto simp: SetCurrentGroupUnplanted_eq SetNextCurrentGroupIndex_def Let_def)

lemma pointer_inv_reset: "pointer_inv (ResetFeetTargetsAndLocations h cfg s)"
  by (simp add: pointer_inv_def)


lemma pointer_inv_tick:
  assumes ok: "indices_ok cfg s" and nf: "\<not> bIsFalling s" and inv: "pointer_inv s"
  shows "pointer_inv (Evaluate_Computations h cfg s)"
proof -
  let ?s0 = "before_gait h cfg s"
  let ?s1 = "SetCurrentGroupUnplanted h cfg ?s0"
  let ?s2 = "ComputeFeet h cfg ?s1"
  let ?s3 = "SetGroupsPlanted h cfg ?s2"
  have len: "length (GroupsData s) = length (LegGroups cfg)"
    and cur: "CurrentGroupIndex s < length (LegGroups cfg)"
    using ok by (simp_all add: indices_ok_def)
  have len0: "length (GroupsData ?s0) = length (LegGroups cfg)"
    and cur0: "CurrentGroupIndex ?s0 < length (LegGroups cfg)"
    and inv0: "pointer_inv ?s0"
    using len cur inv by (simp_all add: pointer_inv_def)
  have len1: "length (GroupsData ?s1) = length (LegGroups cfg)" using len0 by simp
  have cur1: "CurrentGroupIndex ?s1 < length (LegGroups cfg)"
    by (rule SetCurrentGroupUnplanted_pointer_range[OF cur0])
  have nf1: "\<not> bIsFalling ?s1" using nf by simp
  have inv1: "pointer_inv ?s1" by (rule pointer_inv_unplant[OF len0 cur0 inv0])
  have inv2: "pointer_inv ?s2" by (rule pointer_inv_ComputeFeet[OF len1 cur1 nf1 inv1])
  have len2: "length (GroupsData ?s2) = length (LegGroups cfg)"
    using len1 by (simp add: ComputeFeet_GroupsData[OF nf1 len1])
  have cur2: "CurrentGroupIndex ?s2 < length (LegGroups cfg)"
    using cur1 by (simp add: ComputeFeet_pointer[OF nf1 len1])
  have inv3: "pointer_inv ?s3" by (rule pointer_inv_SetGroupsPlanted[OF len2 cur2 inv2])
  then have "pointer_inv (ComputeBodyTransform h cfg ?s3)" by (simp add: pointer_inv_def)
  then show ?thesis using nf by (simp add: Evaluate_Computations_ground)
qed

end
